theory Spec2Isabelle
  imports Complex_Main "HOL-Library.Multiset"
begin

section \<open>Python and NumPy primitives used by the feeder\<close>

text \<open>
  The exceptions that \<^verbatim>\<open>tacotron/feeder_adapt.py\<close> can raise. Every raise of the source is
  an \<open>Inl\<close> branch of the model. \<open>ExternalError\<close> stands for a failure inside the external
  text front end \<^verbatim>\<open>text_to_sequence\<close>.
\<close>

datatype error =
  AssertionError | ValueError | IndexError | ZeroDivisionError | FileNotFoundError
  | TypeError | ExternalError

text \<open>A list comprehension whose body may raise: the first exception wins.\<close>

fun map_result :: "('a \<Rightarrow> error + 'b) \<Rightarrow> 'a list \<Rightarrow> error + 'b list" where
  "map_result f [] = Inr []"
| "map_result f (x # xs) =
     (case f x of
        Inl e \<Rightarrow> Inl e
      | Inr y \<Rightarrow> (case map_result f xs of Inl e \<Rightarrow> Inl e | Inr ys \<Rightarrow> Inr (y # ys)))"

text \<open>\<^verbatim>\<open>max(list)\<close>: raises ValueError on an empty list.\<close>

definition py_max :: "int list \<Rightarrow> error + int" where
  "py_max xs = (if xs = [] then Inl ValueError else Inr (Max (set xs)))"

text \<open>\<^verbatim>\<open>xs[a:b]\<close> for \<open>0 \<le> a \<le> b\<close>: Python clamps the slice to the list.\<close>

definition slice :: "'a list \<Rightarrow> nat \<Rightarrow> nat \<Rightarrow> 'a list" where
  "slice xs a b = take (b - a) (drop a xs)"

text \<open>
  A string is a list of code points below 256. \<^verbatim>\<open>str.strip()\<close> removes the white space
  of \<^verbatim>\<open>str.isspace\<close>, which below 256 is 9 to 13, 28 to 32, 133 and 160;
  \<^verbatim>\<open>str.split(sep)\<close> is modelled for a one-character separator.
\<close>

definition is_space :: "char \<Rightarrow> bool" where
  "is_space c =
     (let n = of_char c :: nat
      in (9 \<le> n \<and> n \<le> 13) \<or> (28 \<le> n \<and> n \<le> 32) \<or> n = 133 \<or> n = 160)"

definition py_strip :: "string \<Rightarrow> string" where
  "py_strip s = rev (dropWhile is_space (rev (dropWhile is_space s)))"

fun py_split :: "string \<Rightarrow> char \<Rightarrow> string list" where
  "py_split [] sep = [[]]"
| "py_split (c # cs) sep =
     (if c = sep then [] # py_split cs sep
      else (case py_split cs sep of [] \<Rightarrow> [[c]] | w # ws \<Rightarrow> (c # w) # ws))"

text \<open>\<^verbatim>\<open>os.path.dirname\<close> and the two-argument \<^verbatim>\<open>os.path.join\<close> of \<^verbatim>\<open>posixpath\<close>.\<close>

definition os_path_dirname :: "string \<Rightarrow> string" where
  "os_path_dirname p =
     (let head = rev (dropWhile (\<lambda>c. c \<noteq> CHR ''/'') (rev p))
      in if head \<noteq> [] \<and> head \<noteq> replicate (length head) CHR ''/''
         then rev (dropWhile (\<lambda>c. c = CHR ''/'') (rev head)) else head)"

definition os_path_join :: "string \<Rightarrow> string \<Rightarrow> string" where
  "os_path_join a b =
     (if b \<noteq> [] \<and> hd b = CHR ''/'' then b
      else if a = [] \<or> last a = CHR ''/'' then a @ b
      else a @ ''/'' @ b)"

text \<open>
  \<^verbatim>\<open>np.random.shuffle\<close> is the Fisher-Yates loop of NumPy:
  \<^verbatim>\<open>for i in reversed(range(1, n)): j = random_interval(i); x[i], x[j] = x[j], x[i]\<close>.
  The global random source is a parameter \<open>rnd\<close>, the k-th raw draw being \<open>rnd k\<close>, and the
  position in that stream is threaded as state; \<^verbatim>\<open>random_interval(i)\<close> is the draw reduced
  to the interval from \<open>0\<close> to \<open>i\<close>.
\<close>

fun shuffle_from :: "(nat \<Rightarrow> nat) \<Rightarrow> nat \<Rightarrow> nat \<Rightarrow> 'a list \<Rightarrow> 'a list \<times> nat" where
  "shuffle_from rnd 0 pos xs = (xs, pos)"
| "shuffle_from rnd (Suc k) pos xs =
     (let i = Suc k; j = rnd pos mod (Suc i)
      in shuffle_from rnd k (Suc pos) (xs[i := xs ! j, j := xs ! i]))"

definition np_random_shuffle :: "(nat \<Rightarrow> nat) \<Rightarrow> nat \<Rightarrow> 'a list \<Rightarrow> 'a list \<times> nat" where
  "np_random_shuffle rnd pos xs = shuffle_from rnd (length xs - 1) pos xs"

text \<open>
  Arrays. A one-dimensional array is a list. A two-dimensional float array (a spectrogram,
  time by feature) keeps its element type and its feature width beside its frames, since an
  array with no frame still has both. A stack of them is a three-dimensional tensor, batch by
  time by feature. An array element is the real number that the floating-point cell holds.
  The feeder copies elements, which changes no value (a stack or a concatenation of arrays
  of different element types widens, and widening is exact), and it writes pad constants,
  which NumPy first converts to the element type of the array. That conversion is IEEE
  rounding, external to the repository, and is a parameter \<open>cast\<close> of the model; a Python
  float is a \<^verbatim>\<open>float64\<close> already, so it enters a \<^verbatim>\<open>float64\<close> array unchanged.
\<close>

datatype dtype = Float16 | Float32 | Float64

definition np_convert :: "(dtype \<Rightarrow> real \<Rightarrow> real) \<Rightarrow> dtype \<Rightarrow> real \<Rightarrow> real" where
  "np_convert cast d c = (case d of Float64 \<Rightarrow> c | _ \<Rightarrow> cast d c)"

record array2 =
  dtype :: dtype
  cols :: nat
  frames :: "real list list"

record tensor3 =
  t_cols :: nat
  t_rows :: "real list list list"

text \<open>
  \<^verbatim>\<open>np.pad(x, (0, after), mode='constant', constant_values=c)\<close> and its two-dimensional form
  \<^verbatim>\<open>np.pad(t, [(0, after), (0, 0)], ...)\<close>; a negative pad width raises ValueError. The
  one-dimensional form is used with the constants 0 on token ids and 1.0 on the
  \<^verbatim>\<open>float64\<close> stop flags, which every element type holds exactly; the two-dimensional form
  converts its constant to the element type of the spectrogram.
\<close>

definition np_pad :: "'a list \<Rightarrow> int \<Rightarrow> 'a \<Rightarrow> error + 'a list" where
  "np_pad x after c = (if after < 0 then Inl ValueError else Inr (x @ replicate (nat after) c))"

definition np_pad2 ::
  "(dtype \<Rightarrow> real \<Rightarrow> real) \<Rightarrow> array2 \<Rightarrow> int \<Rightarrow> real \<Rightarrow> error + array2" where
  "np_pad2 cast t after c =
     (if after < 0 then Inl ValueError
      else Inr (t\<lparr>frames := frames t @
                  replicate (nat after) (replicate (cols t) (np_convert cast (dtype t) c))\<rparr>))"

text \<open>\<^verbatim>\<open>np.stack\<close>: needs at least one array, and all arrays of one shape.\<close>

definition np_stack :: "'a list list \<Rightarrow> error + 'a list list" where
  "np_stack arrs =
     (if arrs = [] then Inl ValueError
      else if \<exists>a \<in> set arrs. length a \<noteq> length (hd arrs) then Inl ValueError
      else Inr arrs)"

definition np_stack2 :: "array2 list \<Rightarrow> error + tensor3" where
  "np_stack2 arrs =
     (if arrs = [] then Inl ValueError
      else if \<exists>a \<in> set arrs. length (frames a) \<noteq> length (frames (hd arrs)) \<or> cols a \<noteq> cols (hd arrs)
      then Inl ValueError
      else Inr \<lparr>t_cols = cols (hd arrs), t_rows = map frames arrs\<rparr>)"

text \<open>
  \<^verbatim>\<open>np.concatenate((a, b), axis=1)\<close>: every dimension but the second must agree; row \<open>j\<close> of
  the result is row \<open>j\<close> of \<open>a\<close> followed by row \<open>j\<close> of \<open>b\<close>.
\<close>

definition np_concatenate1 :: "'a list list \<Rightarrow> 'a list list \<Rightarrow> error + 'a list list" where
  "np_concatenate1 a b =
     (if length a \<noteq> length b then Inl ValueError else Inr (map2 (@) a b))"

definition np_concatenate1_3d :: "tensor3 \<Rightarrow> tensor3 \<Rightarrow> error + tensor3" where
  "np_concatenate1_3d a b =
     (if length (t_rows a) \<noteq> length (t_rows b) \<or> t_cols a \<noteq> t_cols b then Inl ValueError
      else Inr \<lparr>t_cols = t_cols a, t_rows = map2 (@) (t_rows a) (t_rows b)\<rparr>)"

section \<open>The feeder: configuration, examples, state\<close>

text \<open>\<^verbatim>\<open>_batches_per_group = 64\<close>\<close>

definition batches_per_group :: nat where
  "batches_per_group = 64"

record HParams =
  cleaners :: string
  embedding_path :: string
  hop_size :: int
  sample_rate :: int
  tacotron_batch_size :: int
  outputs_per_step :: int
  tacotron_num_gpus :: int
  symmetric_mels :: bool
  max_abs_value :: real
  predict_linear :: bool
  num_freq :: int
  spk_dependent_embedding :: bool
  num_mels :: int
  speaker_dim :: int

text \<open>
  The tuple returned by \<^verbatim>\<open>_get_next_example\<close>:
  \<^verbatim>\<open>(input_data, mel_target, token_target, linear_target, speaker_id, spk_embedding, len(mel_target))\<close>.
  The speaker id is still the metadata string here.
\<close>

record Example =
  input_data :: "int list"
  mel_target :: array2
  token_target :: "real list"
  linear_target :: array2
  speaker_id :: string
  spk_embedding :: "real list option"
  mel_length :: nat

text \<open>
  The fields of \<^verbatim>\<open>Feeder\<close> that the data path reads or writes, and \<open>np_random\<close>, the
  position in NumPy's global random stream.
\<close>

record feeder =
  hparams :: HParams
  cleaner_names :: "string list"
  train_offset :: nat
  test_offset :: nat
  mel_dir :: string
  linear_dir :: string
  spk_embedding_dir :: string
  metadata :: "string list list"
  train_meta :: "string list list"
  pad :: int
  target_pad :: real
  token_pad :: real
  np_random :: nat

section \<open>Padding and per-shard preparation\<close>

definition round_up :: "int \<Rightarrow> int \<Rightarrow> error + int" where
  "round_up x multiple =
     (if multiple = 0 then Inl ZeroDivisionError
      else let remainder = x mod multiple
           in Inr (if remainder = 0 then x else x + multiple - remainder))"

definition round_down :: "int \<Rightarrow> int \<Rightarrow> error + int" where
  "round_down x multiple =
     (if multiple = 0 then Inl ZeroDivisionError
      else let remainder = x mod multiple
           in Inr (if remainder = 0 then x else x - remainder))"

definition pad_input :: "feeder \<Rightarrow> int list \<Rightarrow> int \<Rightarrow> error + int list" where
  "pad_input self x len = np_pad x (len - int (length x)) (pad self)"

definition pad_target ::
  "(dtype \<Rightarrow> real \<Rightarrow> real) \<Rightarrow> feeder \<Rightarrow> array2 \<Rightarrow> int \<Rightarrow> error + array2" where
  "pad_target cast self t len =
     np_pad2 cast t (len - int (length (frames t))) (target_pad self)"

definition pad_token_target :: "feeder \<Rightarrow> real list \<Rightarrow> int \<Rightarrow> error + real list" where
  "pad_token_target self t len = np_pad t (len - int (length t)) (token_pad self)"

definition prepare_inputs :: "feeder \<Rightarrow> int list list \<Rightarrow> error + (int list list \<times> int)" where
  "prepare_inputs self inputs =
     (case py_max (map (\<lambda>x. int (length x)) inputs) of
        Inl e \<Rightarrow> Inl e
      | Inr max_len \<Rightarrow>
          (case map_result (\<lambda>x. pad_input self x max_len) inputs of
             Inl e \<Rightarrow> Inl e
           | Inr rows \<Rightarrow>
               (case np_stack rows of Inl e \<Rightarrow> Inl e | Inr a \<Rightarrow> Inr (a, max_len))))"

definition prepare_targets ::
  "(dtype \<Rightarrow> real \<Rightarrow> real) \<Rightarrow> feeder \<Rightarrow> array2 list \<Rightarrow> int
     \<Rightarrow> error + (tensor3 \<times> int)" where
  "prepare_targets cast self targets alignment =
     (case py_max (map (\<lambda>t. int (length (frames t))) targets) of
        Inl e \<Rightarrow> Inl e
      | Inr max_len \<Rightarrow>
          (case round_up max_len alignment of
             Inl e \<Rightarrow> Inl e
           | Inr data_len \<Rightarrow>
               (case map_result (\<lambda>t. pad_target cast self t data_len) targets of
                  Inl e \<Rightarrow> Inl e
                | Inr rows \<Rightarrow>
                    (case np_stack2 rows of Inl e \<Rightarrow> Inl e | Inr a \<Rightarrow> Inr (a, data_len)))))"

definition prepare_token_targets ::
  "feeder \<Rightarrow> real list list \<Rightarrow> int \<Rightarrow> error + (real list list \<times> int)" where
  "prepare_token_targets self targets alignment =
     (case py_max (map (\<lambda>t. int (length t)) targets) of
        Inl e \<Rightarrow> Inl e
      | Inr m \<Rightarrow>
          (let max_len = m + 1
           in case round_up max_len alignment of
                Inl e \<Rightarrow> Inl e
              | Inr data_len \<Rightarrow>
                  (case map_result (\<lambda>t. pad_token_target self t data_len) targets of
                     Inl e \<Rightarrow> Inl e
                   | Inr rows \<Rightarrow>
                       (case np_stack rows of Inl e \<Rightarrow> Inl e | Inr a \<Rightarrow> Inr (a, data_len)))))"

section \<open>Construction and example loading\<close>

text \<open>
  The data path of \<^verbatim>\<open>Feeder.__init__\<close>. The file system and the builtin \<^verbatim>\<open>int\<close> are
  parameters: \<open>open_lines\<close> gives the lines of a text file (\<open>None\<close> when it cannot be opened)
  and \<open>py_int\<close> parses an integer literal (\<open>None\<close> where \<^verbatim>\<open>int\<close> raises ValueError).
  \<^verbatim>\<open>list(np.array(self._metadata)[train_indices])\<close> with \<^verbatim>\<open>train_indices\<close> all indices keeps
  the records and their order when all records have one arity, and raises ValueError when
  they do not (NumPy from 1.24 on; older versions build an array of lists). Of the
  TensorFlow part of the constructor the model keeps what can fail on the configuration:
  a placeholder with a negative dimension raises ValueError, and the dimensions taken from
  the configuration are \<^verbatim>\<open>num_mels\<close>, \<^verbatim>\<open>num_freq\<close>, \<^verbatim>\<open>tacotron_num_gpus\<close> and, with speaker
  embeddings, \<^verbatim>\<open>speaker_dim\<close>. The random stream is counted from the construction of the
  feeder.
\<close>

definition frame_count :: "(string \<Rightarrow> int option) \<Rightarrow> string list \<Rightarrow> error + int" where
  "frame_count py_int x =
     (if length x \<le> 4 then Inl IndexError
      else case py_int (x ! 4) of None \<Rightarrow> Inl ValueError | Some v \<Rightarrow> Inr v)"

definition tf_placeholders :: "HParams \<Rightarrow> error + unit" where
  "tf_placeholders hp =
     (if num_mels hp < 0 then Inl ValueError
      else if num_freq hp < 0 then Inl ValueError
      else if tacotron_num_gpus hp < 0 then Inl ValueError
      else if spk_dependent_embedding hp \<and> speaker_dim hp < 0 then Inl ValueError
      else Inr ())"

definition feeder_init ::
  "(string \<Rightarrow> string list option) \<Rightarrow> (string \<Rightarrow> int option) \<Rightarrow> string \<Rightarrow> HParams
     \<Rightarrow> error + feeder" where
  "feeder_init open_lines py_int metadata_filename hp =
     (case open_lines metadata_filename of
        None \<Rightarrow> Inl FileNotFoundError
      | Some ls \<Rightarrow>
          (let md = map (\<lambda>line. py_split (py_strip line) CHR ''|'') ls
           in if sample_rate hp = 0 then Inl ZeroDivisionError
              else case map_result (frame_count py_int) md of
                     Inl e \<Rightarrow> Inl e
                   | Inr counts \<Rightarrow>
                     if \<exists>x \<in> set md. length x \<noteq> length (hd md) then Inl ValueError
                     else case tf_placeholders hp of
                       Inl e \<Rightarrow> Inl e
                     | Inr u \<Rightarrow>
                       Inr \<lparr>hparams = hp,
                            cleaner_names = map py_strip (py_split (cleaners hp) CHR '',''),
                            train_offset = 0,
                            test_offset = 0,
                            mel_dir = os_path_join (os_path_dirname metadata_filename) ''mels'',
                            linear_dir = os_path_join (os_path_dirname metadata_filename) ''linear'',
                            spk_embedding_dir =
                              os_path_join (os_path_dirname metadata_filename) (embedding_path hp),
                            metadata = md,
                            train_meta = md,
                            pad = 0,
                            target_pad = (if symmetric_mels hp then - max_abs_value hp else 0),
                            token_pad = 1,
                            np_random = 0\<rparr>))"

text \<open>
  \<^verbatim>\<open>_get_next_example\<close>. \<open>text_to_sequence\<close> is the external text front end, \<open>np_load\<close> reads
  a spectrogram file and \<open>np_load_emb\<close> a speaker-embedding file (\<open>None\<close> when the file
  cannot be read).
\<close>

definition np_zeros :: "nat \<Rightarrow> int \<Rightarrow> error + array2" where
  "np_zeros n w =
     (if w < 0 then Inl ValueError
      else Inr \<lparr>dtype = Float64, cols = nat w, frames = replicate n (replicate (nat w) 0)\<rparr>)"

text \<open>Lines 117 to 119: at the end of the pool, reset the offset and shuffle the pool.\<close>

definition reshuffled :: "(nat \<Rightarrow> nat) \<Rightarrow> feeder \<Rightarrow> feeder" where
  "reshuffled rnd self0 =
     (if train_offset self0 \<ge> length (train_meta self0)
      then self0\<lparr>train_offset := 0,
                 train_meta := fst (np_random_shuffle rnd (np_random self0) (train_meta self0)),
                 np_random := snd (np_random_shuffle rnd (np_random self0) (train_meta self0))\<rparr>
      else self0)"

definition get_next_example ::
  "(nat \<Rightarrow> nat) \<Rightarrow> (string \<Rightarrow> string list \<Rightarrow> error + int list) \<Rightarrow> (string \<Rightarrow> array2 option)
     \<Rightarrow> (string \<Rightarrow> real list option) \<Rightarrow> feeder \<Rightarrow> error + (Example \<times> feeder)" where
  "get_next_example rnd text_to_sequence np_load np_load_emb self0 =
     (let self1 = reshuffled rnd self0
      in if train_offset self1 \<ge> length (train_meta self1) then Inl IndexError
         else
           let meta = train_meta self1 ! train_offset self1;
               self = self1\<lparr>train_offset := train_offset self1 + 1\<rparr>
           in if length meta \<le> 7 then Inl IndexError
              else
                let text = meta ! 6; spk = meta ! 7
                in case text_to_sequence text (cleaner_names self) of
                     Inl e \<Rightarrow> Inl e
                   | Inr input_data_v \<Rightarrow>
                 (case np_load (os_path_join (mel_dir self) (meta ! 1)) of
                    None \<Rightarrow> Inl FileNotFoundError
                  | Some mel \<Rightarrow>
                 (case (if spk_dependent_embedding (hparams self)
                        then (case np_load_emb (os_path_join (spk_embedding_dir self) (meta ! 1)) of
                                None \<Rightarrow> Inl FileNotFoundError
                              | Some v \<Rightarrow> Inr (Some v))
                        else Inr None) of
                    Inl e \<Rightarrow> Inl e
                  | Inr emb \<Rightarrow>
                 (let token = replicate (nat (int (length (frames mel)) - 1)) (0::real)
                  in case (if predict_linear (hparams self)
                           then (case np_load (os_path_join (linear_dir self) (meta ! 2)) of
                                   None \<Rightarrow> Inl FileNotFoundError
                                 | Some lin \<Rightarrow> Inr lin)
                           else np_zeros (length (frames mel)) (num_freq (hparams self))) of
                       Inl e \<Rightarrow> Inl e
                     | Inr lin \<Rightarrow>
                         Inr (\<lparr>input_data = input_data_v, mel_target = mel, token_target = token,
                               linear_target = lin, speaker_id = spk, spk_embedding = emb,
                               mel_length = length (frames mel)\<rparr>, self)))))"

section \<open>Batch preparation\<close>

text \<open>
  The speaker embeddings of a batch,
  \<^verbatim>\<open>np.asarray([np.squeeze(x[5]) for x in batches], dtype=np.float32)\<close>. A vector of length
  one squeezes to a scalar, an absent embedding (\<^verbatim>\<open>None\<close>) squeezes to a scalar that converts
  to \<^verbatim>\<open>nan\<close>, written \<open>None\<close> here, and the squeezed values must share one shape.
\<close>

datatype emb_batch = Scalars "real option list" | Vectors "real list list"

definition is_scalar :: "real list option \<Rightarrow> bool" where
  "is_scalar e = (case e of None \<Rightarrow> True | Some v \<Rightarrow> length v = 1)"

definition scalar_of :: "real list option \<Rightarrow> real option" where
  "scalar_of e = (case e of None \<Rightarrow> None | Some v \<Rightarrow> Some (hd v))"

definition squeeze_all :: "real list option list \<Rightarrow> error + emb_batch" where
  "squeeze_all es =
     (if \<forall>e \<in> set es. is_scalar e then Inr (Scalars (map scalar_of es))
      else if \<exists>e \<in> set es. e = None \<or> length (the e) \<noteq> length (the (hd es))
      then Inl ValueError
      else Inr (Vectors (map the es)))"

record Batch =
  inputs :: "int list list option"
  input_lengths :: "int list"
  mel_targets :: "tensor3 option"
  token_targets :: "real list list option"
  linear_targets :: "tensor3 option"
  targets_lengths :: "int list"
  split_infos :: "int list list"
  speaker_ids :: "int list"
  spk_embeddings :: "emb_batch option"

text \<open>
  The four tensors that the loop over the devices accumulates, \<open>None\<close> before the first
  device, and the rows of \<^verbatim>\<open>split_infos\<close>.
\<close>

record device_acc =
  acc_inputs :: "int list list option"
  acc_mel_targets :: "tensor3 option"
  acc_token_targets :: "real list list option"
  acc_linear_targets :: "tensor3 option"
  acc_split_infos :: "int list list"

text \<open>\<^verbatim>\<open>np.concatenate((acc, cur), axis=1) if acc is not None else cur\<close>\<close>

definition concat_onto :: "'a list list option \<Rightarrow> 'a list list \<Rightarrow> error + 'a list list" where
  "concat_onto acc cur = (case acc of None \<Rightarrow> Inr cur | Some a \<Rightarrow> np_concatenate1 a cur)"

definition concat_onto_3d :: "tensor3 option \<Rightarrow> tensor3 \<Rightarrow> error + tensor3" where
  "concat_onto_3d acc cur = (case acc of None \<Rightarrow> Inr cur | Some a \<Rightarrow> np_concatenate1_3d a cur)"

definition shard :: "'a list \<Rightarrow> nat \<Rightarrow> nat \<Rightarrow> 'a list" where
  "shard batches size_per_device i =
     slice batches (size_per_device * i) (size_per_device * (i + 1))"

definition device_step ::
  "(dtype \<Rightarrow> real \<Rightarrow> real) \<Rightarrow> feeder \<Rightarrow> Example list \<Rightarrow> nat \<Rightarrow> int \<Rightarrow> device_acc \<Rightarrow> nat
     \<Rightarrow> error + device_acc" where
  "device_step cast self batches size_per_device r acc i =
     (let batch = shard batches size_per_device i
      in case prepare_inputs self (map input_data batch) of
           Inl e \<Rightarrow> Inl e
         | Inr (input_cur_device, input_max_len) \<Rightarrow>
      (case concat_onto (acc_inputs acc) input_cur_device of
           Inl e \<Rightarrow> Inl e
         | Inr inputs_v \<Rightarrow>
      (case prepare_targets cast self (map mel_target batch) r of
           Inl e \<Rightarrow> Inl e
         | Inr (mel_target_cur_device, mel_target_max_len) \<Rightarrow>
      (case concat_onto_3d (acc_mel_targets acc) mel_target_cur_device of
           Inl e \<Rightarrow> Inl e
         | Inr mel_targets_v \<Rightarrow>
      (case prepare_token_targets self (map token_target batch) r of
           Inl e \<Rightarrow> Inl e
         | Inr (token_target_cur_device, token_target_max_len) \<Rightarrow>
      (case concat_onto (acc_token_targets acc) token_target_cur_device of
           Inl e \<Rightarrow> Inl e
         | Inr token_targets_v \<Rightarrow>
      (case prepare_targets cast self (map linear_target batch) r of
           Inl e \<Rightarrow> Inl e
         | Inr (linear_targets_cur_device, linear_target_max_len) \<Rightarrow>
      (case concat_onto_3d (acc_linear_targets acc) linear_targets_cur_device of
           Inl e \<Rightarrow> Inl e
         | Inr linear_targets_v \<Rightarrow>
             Inr \<lparr>acc_inputs = Some inputs_v,
                  acc_mel_targets = Some mel_targets_v,
                  acc_token_targets = Some token_targets_v,
                  acc_linear_targets = Some linear_targets_v,
                  acc_split_infos = acc_split_infos acc @
                    [[input_max_len, mel_target_max_len, token_target_max_len,
                      linear_target_max_len]]\<rparr>))))))))"

fun device_loop ::
  "(dtype \<Rightarrow> real \<Rightarrow> real) \<Rightarrow> feeder \<Rightarrow> Example list \<Rightarrow> nat \<Rightarrow> int \<Rightarrow> nat list \<Rightarrow> device_acc
     \<Rightarrow> error + device_acc" where
  "device_loop cast self batches size_per_device r [] acc = Inr acc"
| "device_loop cast self batches size_per_device r (i # is) acc =
     (case device_step cast self batches size_per_device r acc i of
        Inl e \<Rightarrow> Inl e
      | Inr acc' \<Rightarrow> device_loop cast self batches size_per_device r is acc')"

text \<open>
  A speaker id enters an \<^verbatim>\<open>int32\<close> array: the parsed integer wraps to 32 bits.
\<close>

definition int32 :: "int \<Rightarrow> int" where
  "int32 v = (v + 2 ^ 31) mod 2 ^ 32 - 2 ^ 31"

definition speaker_id_int :: "(string \<Rightarrow> int option) \<Rightarrow> Example \<Rightarrow> error + int" where
  "speaker_id_int py_int x =
     (case py_int (speaker_id x) of None \<Rightarrow> Inl ValueError | Some v \<Rightarrow> Inr (int32 v))"

text \<open>
  \<^verbatim>\<open>_prepare_batch\<close>. \<^verbatim>\<open>int(len(batches) / num_gpus)\<close> is the exact quotient once the
  assertion has passed. The shuffle advances the random stream, so the new feeder state is
  returned with the batch.
\<close>

definition prepare_batch ::
  "(nat \<Rightarrow> nat) \<Rightarrow> (dtype \<Rightarrow> real \<Rightarrow> real) \<Rightarrow> (string \<Rightarrow> int option) \<Rightarrow> feeder
     \<Rightarrow> Example list \<Rightarrow> int \<Rightarrow> error + (Batch \<times> feeder)" where
  "prepare_batch rnd cast py_int self0 batches0 r =
     (let g = tacotron_num_gpus (hparams self0)
      in if g = 0 then Inl ZeroDivisionError
         else if int (length batches0) mod g \<noteq> 0 then Inl AssertionError
         else
           let size_per_device = int (length batches0) div g;
               (batches, pos) = np_random_shuffle rnd (np_random self0) batches0;
               self = self0\<lparr>np_random := pos\<rparr>;
               targets_lengths_v = map (\<lambda>x. int (mel_length x)) batches;
               input_lengths_v = map (\<lambda>x. int (length (input_data x))) batches
           in case map_result (speaker_id_int py_int) batches of
                Inl e \<Rightarrow> Inl e
              | Inr speaker_ids_v \<Rightarrow>
           (case (if spk_dependent_embedding (hparams self)
                  then (case squeeze_all (map spk_embedding batches) of
                          Inl e \<Rightarrow> Inl e
                        | Inr v \<Rightarrow> Inr (Some v))
                  else Inr None) of
                Inl e \<Rightarrow> Inl e
              | Inr spk_embeddings_v \<Rightarrow>
           (case device_loop cast self batches (nat size_per_device) r [0..<nat g]
                   \<lparr>acc_inputs = None, acc_mel_targets = None, acc_token_targets = None,
                    acc_linear_targets = None, acc_split_infos = []\<rparr> of
                Inl e \<Rightarrow> Inl e
              | Inr acc \<Rightarrow>
                  Inr (\<lparr>inputs = acc_inputs acc,
                        input_lengths = input_lengths_v,
                        mel_targets = acc_mel_targets acc,
                        token_targets = acc_token_targets acc,
                        linear_targets = acc_linear_targets acc,
                        targets_lengths = targets_lengths_v,
                        split_infos = acc_split_infos acc,
                        speaker_ids = speaker_ids_v,
                        spk_embeddings = spk_embeddings_v\<rparr>, self))))"

section \<open>The production loop\<close>

fun draw_examples ::
  "(nat \<Rightarrow> nat) \<Rightarrow> (string \<Rightarrow> string list \<Rightarrow> error + int list) \<Rightarrow> (string \<Rightarrow> array2 option)
     \<Rightarrow> (string \<Rightarrow> real list option) \<Rightarrow> nat \<Rightarrow> feeder \<Rightarrow> error + (Example list \<times> feeder)" where
  "draw_examples rnd t2s np_load np_load_emb 0 self = Inr ([], self)"
| "draw_examples rnd t2s np_load np_load_emb (Suc k) self =
     (case get_next_example rnd t2s np_load np_load_emb self of
        Inl e \<Rightarrow> Inl e
      | Inr (x, self') \<Rightarrow>
          (case draw_examples rnd t2s np_load np_load_emb k self' of
             Inl e \<Rightarrow> Inl e
           | Inr (xs, self'') \<Rightarrow> Inr (x # xs, self'')))"

text \<open>\<^verbatim>\<open>range(0, stop, step)\<close> for a positive step.\<close>

definition py_range_step :: "nat \<Rightarrow> nat \<Rightarrow> nat list" where
  "py_range_step stop step = map (\<lambda>k. k * step) [0..<(stop + step - 1) div step]"

text \<open>
  Lines 105 to 107: the stable sort by the last tuple component, the slicing into batches
  and the shuffle of the list of batches. \<^verbatim>\<open>range(0, len(examples), 0)\<close> raises ValueError;
  for a negative batch size no example was drawn and the range is empty.
\<close>

definition make_batches ::
  "(nat \<Rightarrow> nat) \<Rightarrow> nat \<Rightarrow> int \<Rightarrow> Example list \<Rightarrow> error + (Example list list \<times> nat)" where
  "make_batches rnd pos n examples0 =
     (let examples = sort_key mel_length examples0
      in if n = 0 then Inl ValueError
         else
           let batches =
                 (if n < 0 then []
                  else map (\<lambda>i. slice examples i (i + nat n))
                         (py_range_step (length examples) (nat n)))
           in Inr (np_random_shuffle rnd pos batches))"

text \<open>
  The loop over the batches of a group. \<^verbatim>\<open>session.run(self._enqueue_op, ...)\<close> appends the
  batch to the queue, modelled as the list of the batches enqueued so far; blocking on a
  full queue is behaviour of the TensorFlow runtime and is not modelled.
\<close>

fun enqueue_batches ::
  "(nat \<Rightarrow> nat) \<Rightarrow> (dtype \<Rightarrow> real \<Rightarrow> real) \<Rightarrow> (string \<Rightarrow> int option) \<Rightarrow> int
     \<Rightarrow> Example list list \<Rightarrow> feeder \<Rightarrow> Batch list \<Rightarrow> error + (feeder \<times> Batch list)" where
  "enqueue_batches rnd cast py_int r [] self queue = Inr (self, queue)"
| "enqueue_batches rnd cast py_int r (batch # rest) self queue =
     (case prepare_batch rnd cast py_int self batch r of
        Inl e \<Rightarrow> Inl e
      | Inr (b, self') \<Rightarrow> enqueue_batches rnd cast py_int r rest self' (queue @ [b]))"

text \<open>One iteration of the \<^verbatim>\<open>while\<close> loop of \<^verbatim>\<open>_enqueue_next_train_group\<close>.\<close>

definition enqueue_group ::
  "(nat \<Rightarrow> nat) \<Rightarrow> (dtype \<Rightarrow> real \<Rightarrow> real) \<Rightarrow> (string \<Rightarrow> string list \<Rightarrow> error + int list)
     \<Rightarrow> (string \<Rightarrow> array2 option) \<Rightarrow> (string \<Rightarrow> real list option) \<Rightarrow> (string \<Rightarrow> int option)
     \<Rightarrow> feeder \<Rightarrow> Batch list \<Rightarrow> error + (feeder \<times> Batch list)" where
  "enqueue_group rnd cast t2s np_load np_load_emb py_int self queue =
     (let n = tacotron_batch_size (hparams self);
          r = outputs_per_step (hparams self)
      in case draw_examples rnd t2s np_load np_load_emb (nat (n * int batches_per_group)) self of
           Inl e \<Rightarrow> Inl e
         | Inr (examples, self1) \<Rightarrow>
             (case make_batches rnd (np_random self1) n examples of
                Inl e \<Rightarrow> Inl e
              | Inr (batches, pos) \<Rightarrow>
                  enqueue_batches rnd cast py_int r batches (self1\<lparr>np_random := pos\<rparr>) queue))"

text \<open>
  The \<^verbatim>\<open>while not self._coord.should_stop()\<close> loop. The coordinator is external: \<open>stops\<close>
  lists what \<^verbatim>\<open>should_stop()\<close> answers at the successive polls. The loop returns when an
  answer is true or an iteration raises; \<open>None\<close> says that it is still running after the
  listed polls.
\<close>

fun enqueue_next_train_group ::
  "(nat \<Rightarrow> nat) \<Rightarrow> (dtype \<Rightarrow> real \<Rightarrow> real) \<Rightarrow> (string \<Rightarrow> string list \<Rightarrow> error + int list)
     \<Rightarrow> (string \<Rightarrow> array2 option) \<Rightarrow> (string \<Rightarrow> real list option) \<Rightarrow> (string \<Rightarrow> int option)
     \<Rightarrow> bool list \<Rightarrow> feeder \<Rightarrow> Batch list \<Rightarrow> (error + (feeder \<times> Batch list)) option" where
  "enqueue_next_train_group rnd cast t2s np_load np_load_emb py_int [] self queue = None"
| "enqueue_next_train_group rnd cast t2s np_load np_load_emb py_int (stop # stops) self queue =
     (if stop then Some (Inr (self, queue))
      else case enqueue_group rnd cast t2s np_load np_load_emb py_int self queue of
             Inl e \<Rightarrow> Some (Inl e)
           | Inr (self', queue') \<Rightarrow>
               enqueue_next_train_group rnd cast t2s np_load np_load_emb py_int stops self' queue')"

section \<open>A small data set\<close>

text \<open>
  A metadata file \<^verbatim>\<open>data/train.txt\<close> with the single record
  \<^verbatim>\<open>a.npy|b.npy|x|x|5|x|hello|3\<close>, and a metadata file \<^verbatim>\<open>data/train2.txt\<close> with that
  record and the record \<^verbatim>\<open>c.npy|d.npy|y|y|1|y|hi|3\<close>; \<^verbatim>\<open>float32\<close> spectrogram files of two
  features under \<^verbatim>\<open>data/mels\<close> and of three features under \<^verbatim>\<open>data/linear\<close>; speaker
  embeddings under \<^verbatim>\<open>data/emb\<close>; a front end that encodes \<^verbatim>\<open>hello\<close> as 7, 4, 11, 11, 14
  and \<^verbatim>\<open>hi\<close> as 1, 2; and a random source whose raw draws are all zero. The conversion
  \<open>demo_cast\<close> is IEEE rounding on the constants it meets below: 0 and -4 are
  \<^verbatim>\<open>float32\<close> values, and the \<^verbatim>\<open>float64\<close> nearest to -0.1, which is
  -3602879701896397 / 2^55, rounds to the \<^verbatim>\<open>float32\<close> -13421773 / 2^27.
  The concrete evaluations below run on these.
\<close>

definition demo_hparams :: HParams where
  "demo_hparams =
     \<lparr>cleaners = ''english_cleaners'', embedding_path = ''emb'', hop_size = 275,
      sample_rate = 22050, tacotron_batch_size = 1, outputs_per_step = 4,
      tacotron_num_gpus = 1, symmetric_mels = True, max_abs_value = 4,
      predict_linear = True, num_freq = 3, spk_dependent_embedding = False,
      num_mels = 2, speaker_dim = 2\<rparr>"

definition demo_record_a :: "string list" where
  "demo_record_a = [''a.npy'', ''b.npy'', ''x'', ''x'', ''5'', ''x'', ''hello'', ''3'']"

definition demo_record_c :: "string list" where
  "demo_record_c = [''c.npy'', ''d.npy'', ''y'', ''y'', ''1'', ''y'', ''hi'', ''3'']"

definition demo_open_lines :: "string \<Rightarrow> string list option" where
  "demo_open_lines p =
     (if p = ''data/train.txt'' then Some [''a.npy|b.npy|x|x|5|x|hello|3'']
      else if p = ''data/train2.txt''
      then Some [''a.npy|b.npy|x|x|5|x|hello|3'', ''c.npy|d.npy|y|y|1|y|hi|3'']
      else None)"

definition demo_py_int :: "string \<Rightarrow> int option" where
  "demo_py_int s =
     (if s = ''5'' then Some 5 else if s = ''3'' then Some 3 else if s = ''1'' then Some 1
      else None)"

definition demo_text_to_sequence :: "string \<Rightarrow> string list \<Rightarrow> error + int list" where
  "demo_text_to_sequence text names =
     (if text = ''hello'' then Inr [7, 4, 11, 11, 14]
      else if text = ''hi'' then Inr [1, 2]
      else Inl ExternalError)"

definition demo_cast :: "dtype \<Rightarrow> real \<Rightarrow> real" where
  "demo_cast d x =
     (if d = Float32 \<and> x = - (3602879701896397 / 36028797018963968)
      then - (13421773 / 134217728) else x)"

definition demo_mel_a :: array2 where
  "demo_mel_a =
     \<lparr>dtype = Float32, cols = 2, frames = [[1, 2], [3, 4], [5, 6], [7, 8], [9, 10]]\<rparr>"

definition demo_mel_b :: array2 where
  "demo_mel_b =
     \<lparr>dtype = Float32, cols = 2, frames = [[-1, -2], [-3, -4], [-1, -3], [-2, -4]]\<rparr>"

definition demo_mel_d :: array2 where
  "demo_mel_d = \<lparr>dtype = Float32, cols = 2, frames = [[5, 6]]\<rparr>"

definition demo_linear_b :: array2 where
  "demo_linear_b = \<lparr>dtype = Float32, cols = 3, frames = replicate 5 [1, 1, 1]\<rparr>"

definition demo_linear_x :: array2 where
  "demo_linear_x = \<lparr>dtype = Float32, cols = 3, frames = replicate 4 [2, 2, 2]\<rparr>"

definition demo_linear_y :: array2 where
  "demo_linear_y = \<lparr>dtype = Float32, cols = 3, frames = [[3, 3, 3]]\<rparr>"

definition demo_np_load :: "string \<Rightarrow> array2 option" where
  "demo_np_load p =
     (if p = ''data/mels/a.npy'' then Some demo_mel_a
      else if p = ''data/mels/b.npy'' then Some demo_mel_b
      else if p = ''data/mels/d.npy'' then Some demo_mel_d
      else if p = ''data/linear/b.npy'' then Some demo_linear_b
      else if p = ''data/linear/x'' then Some demo_linear_x
      else if p = ''data/linear/y'' then Some demo_linear_y
      else None)"

definition demo_np_load_emb :: "string \<Rightarrow> real list option" where
  "demo_np_load_emb p =
     (if p = ''data/emb/a.npy'' then Some [9, 9]
      else if p = ''data/emb/b.npy'' then Some [1 / 2, 1 / 4]
      else None)"

definition demo_rnd :: "nat \<Rightarrow> nat" where
  "demo_rnd k = 0"

definition demo_feeder :: feeder where
  "demo_feeder =
     \<lparr>hparams = demo_hparams, cleaner_names = [''english_cleaners''], train_offset = 0,
      test_offset = 0, mel_dir = ''data/mels'', linear_dir = ''data/linear'',
      spk_embedding_dir = ''data/emb'',
      metadata = [[''a.npy'', ''b.npy'', ''x'', ''x'', ''5'', ''x'', ''hello'', ''3'']],
      train_meta = [[''a.npy'', ''b.npy'', ''x'', ''x'', ''5'', ''x'', ''hello'', ''3'']],
      pad = 0, target_pad = - 4, token_pad = 1, np_random = 0\<rparr>"

definition demo_example :: Example where
  "demo_example =
     \<lparr>input_data = [7, 4, 11, 11, 14], mel_target = demo_mel_b, token_target = [0, 0, 0],
      linear_target = demo_linear_x, speaker_id = ''3'', spk_embedding = None,
      mel_length = 4\<rparr>"

text \<open>The same feeder configured for two devices, its batch size still 1.\<close>

definition demo_feeder2 :: feeder where
  "demo_feeder2 = demo_feeder\<lparr>hparams := demo_hparams\<lparr>tacotron_num_gpus := 2\<rparr>\<rparr>"

text \<open>The same feeder with speaker embeddings switched on, and the example it loads.\<close>

definition demo_feeder_emb :: feeder where
  "demo_feeder_emb = demo_feeder\<lparr>hparams := demo_hparams\<lparr>spk_dependent_embedding := True\<rparr>\<rparr>"

definition demo_example_emb :: Example where
  "demo_example_emb = demo_example\<lparr>spk_embedding := Some [1 / 2, 1 / 4]\<rparr>"

text \<open>
  The same feeder with a \<^verbatim>\<open>max_abs_value\<close> of 0.1, that is of the \<^verbatim>\<open>float64\<close> nearest to it.
\<close>

definition demo_feeder_tenth :: feeder where
  "demo_feeder_tenth =
     demo_feeder\<lparr>hparams := demo_hparams\<lparr>max_abs_value := 3602879701896397 / 36028797018963968\<rparr>,
                 target_pad := - (3602879701896397 / 36028797018963968)\<rparr>"

text \<open>A second example, shorter than the first, and the batch that the two make on two devices.\<close>

definition demo_example_short :: Example where
  "demo_example_short =
     \<lparr>input_data = [1, 2], mel_target = demo_mel_d, token_target = [],
      linear_target = demo_linear_y, speaker_id = ''3'', spk_embedding = None,
      mel_length = 1\<rparr>"

definition demo_batch :: Batch where
  "demo_batch =
     \<lparr>inputs = Some [[1, 2, 7, 4, 11, 11, 14]],
      input_lengths = [2, 5],
      mel_targets = Some \<lparr>t_cols = 2, t_rows =
        [[[5, 6], [- 4, - 4], [- 4, - 4], [- 4, - 4], [-1, -2], [-3, -4], [-1, -3], [-2, -4]]]\<rparr>,
      token_targets = Some [[1, 1, 1, 1, 0, 0, 0, 1]],
      linear_targets = Some \<lparr>t_cols = 3, t_rows =
        [[[3, 3, 3], [- 4, - 4, - 4], [- 4, - 4, - 4], [- 4, - 4, - 4],
          [2, 2, 2], [2, 2, 2], [2, 2, 2], [2, 2, 2]]]\<rparr>,
      targets_lengths = [1, 4],
      split_infos = [[2, 4, 4, 4], [5, 4, 4, 4]],
      speaker_ids = [3, 3],
      spk_embeddings = None\<rparr>"

text \<open>
  The feeder on the pool of two records with a batch size of 2, as a function of the order
  of the pool, the offset into it and the position in the random stream.
\<close>

definition demo_pool :: "string list list \<Rightarrow> nat \<Rightarrow> nat \<Rightarrow> feeder" where
  "demo_pool meta off p =
     demo_feeder\<lparr>hparams := demo_hparams\<lparr>tacotron_batch_size := 2\<rparr>,
                 metadata := [demo_record_a, demo_record_c],
                 train_meta := meta, train_offset := off, np_random := p\<rparr>"

section \<open>Concatenation of shards along the time axis\<close>

text \<open>
  The global tensor that glues shard tensors along axis 1: with \<open>n\<close> rows in every shard,
  row \<open>j\<close> of the result is row \<open>j\<close> of the first shard followed by row \<open>j\<close> of the
  second, and so on in device order.
\<close>

definition concatenate_axis1 :: "'a list list list \<Rightarrow> nat \<Rightarrow> 'a list list" where
  "concatenate_axis1 shards n = map (\<lambda>j. concat (map (\<lambda>s. s ! j) shards)) [0..<n]"

text \<open>
  What the four preparation functions return for one device, the statement that a value of
  that type is what they return for device \<open>i\<close>, and the invariant of the loop over the
  devices: the accumulated tensors are the shard tensors so far glued along axis 1, and the
  rows of \<^verbatim>\<open>split_infos\<close> are their widths.
\<close>

record shard_out =
  out_inputs :: "int list list \<times> int"
  out_mel :: "tensor3 \<times> int"
  out_token :: "real list list \<times> int"
  out_linear :: "tensor3 \<times> int"

definition shard_prepared ::
  "(dtype \<Rightarrow> real \<Rightarrow> real) \<Rightarrow> feeder \<Rightarrow> Example list \<Rightarrow> nat \<Rightarrow> int \<Rightarrow> nat \<Rightarrow> shard_out
     \<Rightarrow> bool" where
  "shard_prepared cast self batches spd r i d =
     (prepare_inputs self (map input_data (shard batches spd i)) = Inr (out_inputs d) \<and>
      prepare_targets cast self (map mel_target (shard batches spd i)) r = Inr (out_mel d) \<and>
      prepare_token_targets self (map token_target (shard batches spd i)) r = Inr (out_token d) \<and>
      prepare_targets cast self (map linear_target (shard batches spd i)) r
        = Inr (out_linear d))"

definition glued :: "nat \<Rightarrow> device_acc \<Rightarrow> shard_out list \<Rightarrow> bool" where
  "glued spd acc ds =
     (acc_inputs acc =
        (if ds = [] then None
         else Some (concatenate_axis1 (map (\<lambda>d. fst (out_inputs d)) ds) spd)) \<and>
      map_option t_rows (acc_mel_targets acc) =
        (if ds = [] then None
         else Some (concatenate_axis1 (map (\<lambda>d. t_rows (fst (out_mel d))) ds) spd)) \<and>
      acc_token_targets acc =
        (if ds = [] then None
         else Some (concatenate_axis1 (map (\<lambda>d. fst (out_token d)) ds) spd)) \<and>
      map_option t_rows (acc_linear_targets acc) =
        (if ds = [] then None
         else Some (concatenate_axis1 (map (\<lambda>d. t_rows (fst (out_linear d))) ds) spd)) \<and>
      acc_split_infos acc =
        map (\<lambda>d. [snd (out_inputs d), snd (out_mel d), snd (out_token d), snd (out_linear d)]) ds)"

section \<open>Basic facts about the primitives and the preparation functions\<close>

subsection \<open>Results of fallible steps\<close>

text \<open>
  A successful list comprehension has one result per element, and a successful
  sequencing step has a successful first part.
\<close>

lemma map_result_Inr:
  "map_result f xs = Inr ys \<Longrightarrow> length ys = length xs \<and> (\<forall>i < length xs. f (xs ! i) = Inr (ys ! i))"
proof (induction xs arbitrary: ys)
  case Nil
  then show ?case by simp
next
  case (Cons x xs)
  from Cons.prems obtain y ys' where fx: "f x = Inr y" and r: "map_result f xs = Inr ys'"
    and ys: "ys = y # ys'"
    by (auto split: sum.splits)
  from Cons.IH [OF r] have len: "length ys' = length xs"
    and nth: "\<forall>i < length xs. f (xs ! i) = Inr (ys' ! i)" by simp_all
  show ?case
  proof (intro conjI allI impI)
    show "length ys = length (x # xs)" using len ys by simp
  next
    fix i assume "i < length (x # xs)"
    then show "f ((x # xs) ! i) = Inr (ys ! i)"
      using fx nth ys by (cases i) simp_all
  qed
qed

lemma map_result_total:
  "(\<And>x. x \<in> set xs \<Longrightarrow> \<exists>y. f x = Inr y) \<Longrightarrow> \<exists>ys. map_result f xs = Inr ys"
proof (induction xs)
  case Nil
  then show ?case by simp
next
  case (Cons x xs)
  from Cons.prems obtain y where "f x = Inr y" by force
  moreover from Cons obtain ys where "map_result f xs = Inr ys" by force
  ultimately show ?case by simp
qed

lemma bind_Inr:
  "(case x of Inl e \<Rightarrow> Inl e | Inr v \<Rightarrow> f v) = Inr r \<Longrightarrow> \<exists>v. x = Inr v \<and> f v = Inr r"
  by (cases x) simp_all

lemma bind_InrE:
  assumes "(case x of Inl e \<Rightarrow> Inl e | Inr v \<Rightarrow> f v) = Inr r"
  obtains v where "x = Inr v" and "f v = Inr r"
  using assms by (cases x) simp_all

lemma bind_pair_InrE:
  assumes "(case x of Inl e \<Rightarrow> Inl e | Inr (a, b) \<Rightarrow> f a b) = Inr r"
  obtains a b where "x = Inr (a, b)" and "f a b = Inr r"
  using assms by (cases x) (auto split: prod.splits)

subsection \<open>Rounding, padding and stacking\<close>

lemma round_up_props:
  assumes "1 \<le> m" and "round_up x m = Inr w"
  shows "w mod m = 0" and "x \<le> w" and "w < x + m"
proof -
  from assms have w: "w = (if x mod m = 0 then x else x + m - x mod m)"
    by (auto simp: round_up_def Let_def split: if_splits)
  have b: "0 \<le> x mod m" "x mod m < m" using assms(1) by simp_all
  show "x \<le> w" using w b by (simp split: if_splits)
  show "w < x + m"
  proof (cases "x mod m = 0")
    case True
    then show ?thesis using w assms(1) by simp
  next
    case False
    with b have "0 < x mod m" by linarith
    then show ?thesis using w False by simp
  qed
  show "w mod m = 0"
  proof (cases "x mod m = 0")
    case True
    then show ?thesis using w by simp
  next
    case False
    then have "w = x - x mod m + m" using w by simp
    then show ?thesis by (simp add: minus_mod_eq_mult_div)
  qed
qed

lemma round_up_total: "m \<noteq> 0 \<Longrightarrow> \<exists>w. round_up x m = Inr w"
  by (simp add: round_up_def Let_def)

lemma Max_shift:
  assumes "xs \<noteq> []"
  shows "Max (set (map (\<lambda>x. f x + (1::int)) xs)) = Max (set (map f xs)) + 1"
proof -
  have "mono (\<lambda>v::int. v + 1)" by (simp add: mono_def)
  from mono_Max_commute [OF this, of "set (map f xs)"] assms
  have "Max (set (map f xs)) + 1 = Max ((\<lambda>v. v + 1) ` set (map f xs))" by simp
  also have "(\<lambda>v. v + 1) ` set (map f xs) = set (map (\<lambda>x. f x + 1) xs)" by auto
  finally show ?thesis by simp
qed

lemma np_pad_Inr:
  assumes "np_pad x (n - int (length x)) c = Inr row"
  shows "int (length x) \<le> n" and "row = x @ replicate (nat (n - int (length x))) c"
    and "int (length row) = n"
  using assms by (auto simp: np_pad_def split: if_splits)

lemma pad_target_Inr:
  assumes "pad_target cast self t n = Inr t'"
  shows "int (length (frames t)) \<le> n" and "cols t' = cols t"
    and "frames t' = frames t @ replicate (nat (n - int (length (frames t))))
           (replicate (cols t) (np_convert cast (dtype t) (target_pad self)))"
    and "dtype t' = dtype t"
proof -
  let ?k = "n - int (length (frames t))"
  let ?c = "np_convert cast (dtype t) (target_pad self)"
  have nn: "\<not> ?k < 0"
  proof
    assume "?k < 0"
    then have "pad_target cast self t n = Inl ValueError"
      unfolding pad_target_def np_pad2_def by (rule if_P)
    with assms show False by simp
  qed
  then show "int (length (frames t)) \<le> n" by simp
  have "pad_target cast self t n =
          Inr (t\<lparr>frames := frames t @ replicate (nat ?k) (replicate (cols t) ?c)\<rparr>)"
    unfolding pad_target_def np_pad2_def by (rule if_not_P [OF nn])
  with assms have e: "t' = t\<lparr>frames := frames t @ replicate (nat ?k) (replicate (cols t) ?c)\<rparr>"
    by simp
  show "cols t' = cols t" by (simp add: e)
  show "frames t' = frames t @ replicate (nat ?k) (replicate (cols t) ?c)"
    by (simp add: e)
  show "dtype t' = dtype t" by (simp add: e)
qed

lemma np_stack_Inr: "np_stack rows = Inr a \<Longrightarrow> a = rows \<and> rows \<noteq> []"
  by (auto simp: np_stack_def split: if_splits)

lemma np_stack2_Inr:
  assumes "np_stack2 rs = Inr a"
  shows "rs \<noteq> []" and "t_cols a = cols (hd rs)" and "t_rows a = map frames rs"
proof -
  let ?bad = "\<exists>x \<in> set rs. length (frames x) \<noteq> length (frames (hd rs)) \<or> cols x \<noteq> cols (hd rs)"
  show ne: "rs \<noteq> []"
  proof
    assume "rs = []"
    then have "np_stack2 rs = Inl ValueError" unfolding np_stack2_def by (rule if_P)
    with assms show False by simp
  qed
  have nb: "\<not> ?bad"
  proof
    assume ?bad
    then have "np_stack2 rs = Inl ValueError"
      unfolding np_stack2_def if_not_P [OF ne] by (rule if_P)
    with assms show False by simp
  qed
  have "np_stack2 rs = Inr \<lparr>t_cols = cols (hd rs), t_rows = map frames rs\<rparr>"
    unfolding np_stack2_def if_not_P [OF ne] by (rule if_not_P [OF nb])
  with assms have "a = \<lparr>t_cols = cols (hd rs), t_rows = map frames rs\<rparr>" by simp
  then show "t_cols a = cols (hd rs)" and "t_rows a = map frames rs" by simp_all
qed

lemma np_stack_same:
  assumes "rs \<noteq> []" and "\<And>a. a \<in> set rs \<Longrightarrow> int (length a) = w"
  shows "np_stack rs = Inr rs"
proof -
  have h: "int (length (hd rs)) = w" using assms by simp
  have nb: "\<not> (\<exists>a \<in> set rs. length a \<noteq> length (hd rs))"
  proof
    assume "\<exists>a \<in> set rs. length a \<noteq> length (hd rs)"
    then obtain a where ain: "a \<in> set rs" and d: "length a \<noteq> length (hd rs)" by blast
    from ain have "int (length a) = w" by (rule assms(2))
    with h d show False by simp
  qed
  show ?thesis unfolding np_stack_def if_not_P [OF assms(1)] by (rule if_not_P [OF nb])
qed

subsection \<open>The preparation functions\<close>

text \<open>
  What a successful call of each preparation function has computed, and totality of
  the stop-flag preparation on a non-empty shard.
\<close>

lemma prepare_token_targets_Inr:
  assumes "prepare_token_targets self ts m = Inr (rows, w)"
  shows "ts \<noteq> []"
    and "round_up (Max (set (map (\<lambda>t. int (length t)) ts)) + 1) m = Inr w"
    and "length rows = length ts"
    and "\<forall>i < length ts. pad_token_target self (ts ! i) w = Inr (rows ! i)"
proof -
  from assms [unfolded prepare_token_targets_def Let_def]
  obtain mx where mx: "py_max (map (\<lambda>t. int (length t)) ts) = Inr mx"
    and r1: "(case round_up (mx + 1) m of Inl e \<Rightarrow> Inl e
              | Inr data_len \<Rightarrow>
                  (case map_result (\<lambda>t. pad_token_target self t data_len) ts of Inl e \<Rightarrow> Inl e
                   | Inr rows \<Rightarrow> (case np_stack rows of Inl e \<Rightarrow> Inl e | Inr a \<Rightarrow> Inr (a, data_len))))
             = Inr (rows, w)"
    by (blast dest: bind_Inr)
  from r1 obtain dl where ru0: "round_up (mx + 1) m = Inr dl"
    and r2: "(case map_result (\<lambda>t. pad_token_target self t dl) ts of Inl e \<Rightarrow> Inl e
              | Inr rows \<Rightarrow> (case np_stack rows of Inl e \<Rightarrow> Inl e | Inr a \<Rightarrow> Inr (a, dl)))
             = Inr (rows, w)"
    by (blast dest: bind_Inr)
  from r2 obtain rs where mr0: "map_result (\<lambda>t. pad_token_target self t dl) ts = Inr rs"
    and r3: "(case np_stack rs of Inl e \<Rightarrow> Inl e | Inr a \<Rightarrow> Inr (a, dl)) = Inr (rows, w)"
    by (blast dest: bind_Inr)
  from r3 obtain a where "np_stack rs = Inr a" and "Inr (a, dl) = (Inr (rows, w) :: error + _)"
    by (blast dest: bind_Inr)
  then have st: "np_stack rs = Inr rows" and dl: "dl = w" by simp_all
  from ru0 mr0 dl have ru: "round_up (mx + 1) m = Inr w"
    and mr: "map_result (\<lambda>t. pad_token_target self t w) ts = Inr rs" by simp_all
  from mx show "ts \<noteq> []" by (auto simp: py_max_def split: if_splits)
  from mx have "mx = Max (set (map (\<lambda>t. int (length t)) ts))"
    by (auto simp: py_max_def split: if_splits)
  with ru show "round_up (Max (set (map (\<lambda>t. int (length t)) ts)) + 1) m = Inr w" by simp
  from st have "rows = rs" using np_stack_Inr by blast
  with map_result_Inr [OF mr] show "length rows = length ts"
    and "\<forall>i < length ts. pad_token_target self (ts ! i) w = Inr (rows ! i)" by simp_all
qed

lemma prepare_token_targets_total:
  assumes "ts \<noteq> []" and "1 \<le> m"
  shows "\<exists>rows w. prepare_token_targets self ts m = Inr (rows, w)"
proof -
  let ?mx = "Max (set (map (\<lambda>t. int (length t)) ts))"
  have mx: "py_max (map (\<lambda>t. int (length t)) ts) = Inr ?mx"
    using assms(1) by (simp add: py_max_def)
  have "m \<noteq> 0" using assms(2) by simp
  from round_up_total [OF this, of "?mx + 1"]
  obtain w where ru: "round_up (?mx + 1) m = Inr w" ..
  have ge: "?mx + 1 \<le> w" using round_up_props(2) [OF assms(2) ru] .
  have fit: "\<And>t. t \<in> set ts \<Longrightarrow> int (length t) \<le> w"
  proof -
    fix t assume "t \<in> set ts"
    then have "int (length t) \<le> ?mx" by (intro Max_ge) auto
    with ge show "int (length t) \<le> w" by linarith
  qed
  have "\<And>t. t \<in> set ts \<Longrightarrow> \<exists>row. pad_token_target self t w = Inr row"
    using fit by (fastforce simp: pad_token_target_def np_pad_def)
  from map_result_total [of ts "\<lambda>t. pad_token_target self t w", OF this]
  obtain rs where mr: "map_result (\<lambda>t. pad_token_target self t w) ts = Inr rs" by blast
  from map_result_Inr [OF mr] have len: "length rs = length ts"
    and nth: "\<forall>i < length ts. pad_token_target self (ts ! i) w = Inr (rs ! i)" by simp_all
  have rl: "\<And>a. a \<in> set rs \<Longrightarrow> int (length a) = w"
  proof -
    fix a assume "a \<in> set rs"
    then obtain i where i: "i < length rs" and a: "a = rs ! i" by (auto simp: in_set_conv_nth)
    with nth len have "pad_token_target self (ts ! i) w = Inr a" by simp
    then show "int (length a) = w" unfolding pad_token_target_def by (rule np_pad_Inr(3))
  qed
  have ne: "rs \<noteq> []" using len assms(1) by auto
  have "np_stack rs = Inr rs" using ne rl by (rule np_stack_same)
  with mx ru mr show ?thesis
    unfolding prepare_token_targets_def Let_def by simp
qed

lemma prepare_targets_Inr:
  assumes "prepare_targets cast self ts m = Inr (a, w)"
  shows "ts \<noteq> []"
    and "round_up (Max (set (map (\<lambda>t. int (length (frames t))) ts))) m = Inr w"
    and "length (t_rows a) = length ts"
    and "\<forall>i < length ts. \<exists>t'. pad_target cast self (ts ! i) w = Inr t' \<and> t_rows a ! i = frames t'"
    and "t_cols a = cols (hd ts)"
proof -
  from assms [unfolded prepare_targets_def]
  obtain mx where mx: "py_max (map (\<lambda>t. int (length (frames t))) ts) = Inr mx"
    and r1: "(case round_up mx m of Inl e \<Rightarrow> Inl e
              | Inr data_len \<Rightarrow>
                  (case map_result (\<lambda>t. pad_target cast self t data_len) ts of Inl e \<Rightarrow> Inl e
                   | Inr rows \<Rightarrow> (case np_stack2 rows of Inl e \<Rightarrow> Inl e | Inr a \<Rightarrow> Inr (a, data_len))))
             = Inr (a, w)"
    by (blast dest: bind_Inr)
  from r1 obtain dl where ru0: "round_up mx m = Inr dl"
    and r2: "(case map_result (\<lambda>t. pad_target cast self t dl) ts of Inl e \<Rightarrow> Inl e
              | Inr rows \<Rightarrow> (case np_stack2 rows of Inl e \<Rightarrow> Inl e | Inr a \<Rightarrow> Inr (a, dl)))
             = Inr (a, w)"
    by (blast dest: bind_Inr)
  from r2 obtain rs where mr0: "map_result (\<lambda>t. pad_target cast self t dl) ts = Inr rs"
    and r3: "(case np_stack2 rs of Inl e \<Rightarrow> Inl e | Inr a \<Rightarrow> Inr (a, dl)) = Inr (a, w)"
    by (blast dest: bind_Inr)
  from r3 obtain a' where "np_stack2 rs = Inr a'" and "Inr (a', dl) = (Inr (a, w) :: error + _)"
    by (blast dest: bind_Inr)
  then have st: "np_stack2 rs = Inr a" and dl: "dl = w" by simp_all
  from ru0 mr0 dl have ru: "round_up mx m = Inr w"
    and mr: "map_result (\<lambda>t. pad_target cast self t w) ts = Inr rs" by simp_all
  from mx show ne: "ts \<noteq> []" by (auto simp: py_max_def split: if_splits)
  from mx have "mx = Max (set (map (\<lambda>t. int (length (frames t))) ts))"
    by (auto simp: py_max_def split: if_splits)
  with ru show "round_up (Max (set (map (\<lambda>t. int (length (frames t))) ts))) m = Inr w" by simp
  note a = np_stack2_Inr [OF st]
  note R = map_result_Inr [OF mr]
  from a R show "length (t_rows a) = length ts" by simp
  from a R show "\<forall>i < length ts. \<exists>t'. pad_target cast self (ts ! i) w = Inr t' \<and> t_rows a ! i = frames t'"
    by simp
  from R ne have "pad_target cast self (ts ! 0) w = Inr (rs ! 0)" by simp
  then have "cols (rs ! 0) = cols (ts ! 0)" by (rule pad_target_Inr(2))
  then show "t_cols a = cols (hd ts)" using a ne by (simp add: hd_conv_nth)
qed

lemma prepare_inputs_Inr:
  assumes "prepare_inputs self xs = Inr (rows, w)"
  shows "xs \<noteq> []"
    and "w = Max (set (map (\<lambda>x. int (length x)) xs))"
    and "length rows = length xs"
    and "\<forall>i < length xs. pad_input self (xs ! i) w = Inr (rows ! i)"
proof -
  from assms [unfolded prepare_inputs_def]
  obtain mx where mx0: "py_max (map (\<lambda>x. int (length x)) xs) = Inr mx"
    and r2: "(case map_result (\<lambda>x. pad_input self x mx) xs of Inl e \<Rightarrow> Inl e
              | Inr rows \<Rightarrow> (case np_stack rows of Inl e \<Rightarrow> Inl e | Inr a \<Rightarrow> Inr (a, mx)))
             = Inr (rows, w)"
    by (blast dest: bind_Inr)
  from r2 obtain rs where mr0: "map_result (\<lambda>x. pad_input self x mx) xs = Inr rs"
    and r3: "(case np_stack rs of Inl e \<Rightarrow> Inl e | Inr a \<Rightarrow> Inr (a, mx)) = Inr (rows, w)"
    by (blast dest: bind_Inr)
  from r3 obtain a where "np_stack rs = Inr a" and "Inr (a, mx) = (Inr (rows, w) :: error + _)"
    by (blast dest: bind_Inr)
  then have st: "np_stack rs = Inr rows" and dl: "mx = w" by simp_all
  from mx0 mr0 dl have mx: "py_max (map (\<lambda>x. int (length x)) xs) = Inr w"
    and mr: "map_result (\<lambda>x. pad_input self x w) xs = Inr rs" by simp_all
  from mx show "xs \<noteq> []" by (auto simp: py_max_def split: if_splits)
  from mx show "w = Max (set (map (\<lambda>x. int (length x)) xs))"
    by (auto simp: py_max_def split: if_splits)
  from st have "rows = rs" using np_stack_Inr by blast
  with map_result_Inr [OF mr] show "length rows = length xs"
    and "\<forall>i < length xs. pad_input self (xs ! i) w = Inr (rows ! i)" by simp_all
qed

subsection \<open>Construction and example loading\<close>

lemma feeder_init_pads:
  assumes "feeder_init open_lines py_int fn hp = Inr self0"
  shows "pad self0 = 0" and "token_pad self0 = 1"
    and "target_pad self0 = (if symmetric_mels hp then - max_abs_value hp else 0)"
    and "hparams self0 = hp"
  using assms
  by (auto simp: feeder_init_def Let_def split: option.splits if_splits sum.splits)

lemma tf_placeholders_devices:
  assumes "tf_placeholders hp = Inr u" and "0 \<le> d"
  shows "tf_placeholders (hp\<lparr>tacotron_batch_size := b, tacotron_num_gpus := d\<rparr>) = Inr ()"
  using assms unfolding tf_placeholders_def by (simp split: if_splits)

lemma feeder_init_ignores_batch_size:
  assumes "feeder_init open_lines py_int fn hp = Inr s0" and "0 \<le> d"
  shows "feeder_init open_lines py_int fn (hp\<lparr>tacotron_batch_size := b, tacotron_num_gpus := d\<rparr>)
           = Inr (s0\<lparr>hparams := hp\<lparr>tacotron_batch_size := b, tacotron_num_gpus := d\<rparr>\<rparr>)"
proof -
  from assms(1) obtain ls counts u where
    o: "open_lines fn = Some ls" and sr: "sample_rate hp \<noteq> 0"
    and mr: "map_result (frame_count py_int) (map (\<lambda>line. py_split (py_strip line) CHR ''|'') ls)
               = Inr counts"
    and rg: "\<not> (\<exists>x \<in> set (map (\<lambda>line. py_split (py_strip line) CHR ''|'') ls).
               length x \<noteq> length (hd (map (\<lambda>line. py_split (py_strip line) CHR ''|'') ls)))"
    and tp: "tf_placeholders hp = Inr u"
    unfolding feeder_init_def Let_def
    by (simp split: option.splits if_splits sum.splits)
  have tp': "tf_placeholders (hp\<lparr>tacotron_batch_size := b, tacotron_num_gpus := d\<rparr>) = Inr ()"
    using tp assms(2) by (rule tf_placeholders_devices)
  from assms(1) have s0: "s0 =
      \<lparr>hparams = hp,
       cleaner_names = map py_strip (py_split (cleaners hp) CHR '',''),
       train_offset = 0, test_offset = 0,
       mel_dir = os_path_join (os_path_dirname fn) ''mels'',
       linear_dir = os_path_join (os_path_dirname fn) ''linear'',
       spk_embedding_dir = os_path_join (os_path_dirname fn) (embedding_path hp),
       metadata = map (\<lambda>line. py_split (py_strip line) CHR ''|'') ls,
       train_meta = map (\<lambda>line. py_split (py_strip line) CHR ''|'') ls,
       pad = 0, target_pad = (if symmetric_mels hp then - max_abs_value hp else 0),
       token_pad = 1, np_random = 0\<rparr>"
    unfolding feeder_init_def Let_def o option.case if_not_P [OF sr] mr sum.case
      if_not_P [OF rg] tp
    by simp
  show ?thesis
    unfolding feeder_init_def Let_def o option.case
    using sr mr rg tp' by (simp add: s0 del: set_map)
qed

lemma reshuffled_fields:
  "hparams (reshuffled rnd s) = hparams s" "cleaner_names (reshuffled rnd s) = cleaner_names s"
  "mel_dir (reshuffled rnd s) = mel_dir s" "linear_dir (reshuffled rnd s) = linear_dir s"
  "spk_embedding_dir (reshuffled rnd s) = spk_embedding_dir s"
  "pad (reshuffled rnd s) = pad s" "target_pad (reshuffled rnd s) = target_pad s"
  "token_pad (reshuffled rnd s) = token_pad s"
  by (simp_all add: reshuffled_def)

lemma reshuffled_form:
  "\<exists>a tm p. reshuffled rnd s = s\<lparr>train_offset := a, train_meta := tm, np_random := p\<rparr>"
proof (cases "train_offset s \<ge> length (train_meta s)")
  case True
  then show ?thesis unfolding reshuffled_def by auto
next
  case False
  have "s = s\<lparr>train_offset := train_offset s, train_meta := train_meta s, np_random := np_random s\<rparr>"
    by simp
  then show ?thesis using False unfolding reshuffled_def by metis
qed

lemma get_next_example_Inr:
  assumes "get_next_example rnd t2s np_load np_load_emb self0 = Inr (ex, self')"
  shows "0 < train_offset self'" and "train_offset self' \<le> length (train_meta self')"
    and "7 < length (train_meta self' ! (train_offset self' - 1))"
    and "t2s (train_meta self' ! (train_offset self' - 1) ! 6) (cleaner_names self0)
           = Inr (input_data ex)"
    and "speaker_id ex = train_meta self' ! (train_offset self' - 1) ! 7"
    and "np_load (os_path_join (mel_dir self0) (train_meta self' ! (train_offset self' - 1) ! 1))
           = Some (mel_target ex)"
    and "predict_linear (hparams self0) \<Longrightarrow>
           np_load (os_path_join (linear_dir self0)
             (train_meta self' ! (train_offset self' - 1) ! 2)) = Some (linear_target ex)"
    and "\<not> predict_linear (hparams self0) \<Longrightarrow>
           np_zeros (length (frames (mel_target ex))) (num_freq (hparams self0))
             = Inr (linear_target ex)"
    and "mel_length ex = length (frames (mel_target ex))"
    and "token_target ex = replicate (nat (int (length (frames (mel_target ex))) - 1)) 0"
    and "self' = (reshuffled rnd self0)\<lparr>train_offset := train_offset self'\<rparr>"
  using assms
  unfolding get_next_example_def Let_def
  by (auto simp: reshuffled_fields split: if_splits sum.splits option.splits)

lemma get_next_example_form:
  assumes "get_next_example rnd t2s np_load np_load_emb self0 = Inr (ex, self')"
  shows "\<exists>a tm p. self' = self0\<lparr>train_offset := a, train_meta := tm, np_random := p\<rparr>"
proof -
  obtain a tm p where r: "reshuffled rnd self0 = self0\<lparr>train_offset := a, train_meta := tm, np_random := p\<rparr>"
    using reshuffled_form by blast
  have "self' = (self0\<lparr>train_offset := a, train_meta := tm, np_random := p\<rparr>)\<lparr>train_offset := train_offset self'\<rparr>"
    using get_next_example_Inr(11) [OF assms] r by metis
  also have "\<dots> = self0\<lparr>train_offset := train_offset self', train_meta := tm, np_random := p\<rparr>"
    by (cases self0) simp
  finally have "self' = self0\<lparr>train_offset := train_offset self', train_meta := tm, np_random := p\<rparr>" .
  then show ?thesis by blast
qed

lemma shuffle_from_map:
  "k < length xs \<or> k = 0 \<Longrightarrow>
     shuffle_from rnd k pos (map h xs)
       = (map h (fst (shuffle_from rnd k pos xs)), snd (shuffle_from rnd k pos xs))"
proof (induction k arbitrary: pos xs)
  case 0
  then show ?case by simp
next
  case (Suc k)
  then have i: "Suc k < length xs" by simp
  have j: "rnd pos mod Suc (Suc k) < length xs"
  proof -
    have "rnd pos mod Suc (Suc k) < Suc (Suc k)" by (rule mod_less_divisor) simp
    with i show ?thesis by linarith
  qed
  let ?j = "rnd pos mod Suc (Suc k)"
  let ?ys = "xs[Suc k := xs ! ?j, ?j := xs ! Suc k]"
  have e: "(map h xs)[Suc k := map h xs ! ?j, ?j := map h xs ! Suc k] = map h ?ys"
    using i j by (simp add: map_update)
  have "k < length ?ys \<or> k = 0" using i by simp
  from Suc.IH [OF this, of "Suc pos"] show ?case
    by (simp only: shuffle_from.simps Let_def e)
qed

lemma np_random_shuffle_map:
  "np_random_shuffle rnd pos (map h xs)
     = (map h (fst (np_random_shuffle rnd pos xs)), snd (np_random_shuffle rnd pos xs))"
proof -
  have "length xs - 1 < length xs \<or> length xs - 1 = 0" by (cases xs) simp_all
  from shuffle_from_map [OF this] show ?thesis
    unfolding np_random_shuffle_def by simp
qed

lemma reshuffled_map:
  "reshuffled rnd (s\<lparr>train_meta := map h (train_meta s)\<rparr>)
     = (reshuffled rnd s)\<lparr>train_meta := map h (train_meta (reshuffled rnd s))\<rparr>"
  unfolding reshuffled_def by (simp add: np_random_shuffle_map)

lemma get_next_example_emb:
  assumes "get_next_example rnd t2s np_load np_load_emb self0 = Inr (ex, self')"
  shows "spk_embedding ex =
           (if spk_dependent_embedding (hparams self0)
            then np_load_emb (os_path_join (spk_embedding_dir self0)
                   (train_meta self' ! (train_offset self' - 1) ! 1))
            else None)"
  using assms
  unfolding get_next_example_def Let_def
  by (auto simp: reshuffled_fields split: if_splits sum.splits option.splits)

lemma get_next_example_field0:
  assumes "get_next_example rnd t2s np_load np_load_emb self0 = Inr (ex, self')"
  shows "get_next_example rnd t2s np_load np_load_emb
           (self0\<lparr>train_meta := map (\<lambda>m. m[0 := f m]) (train_meta self0)\<rparr>)
         = Inr (ex, self'\<lparr>train_meta := map (\<lambda>m. m[0 := f m]) (train_meta self')\<rparr>)"
proof -
  let ?h = "\<lambda>m. m[0 := f m]"
  let ?s1 = "reshuffled rnd self0"
  let ?s2 = "?s1\<lparr>train_offset := train_offset ?s1 + 1\<rparr>"
  let ?t1 = "?s1\<lparr>train_meta := map ?h (train_meta ?s1)\<rparr>"
  let ?t2 = "?t1\<lparr>train_offset := train_offset ?t1 + 1\<rparr>"
  let ?m = "train_meta ?s1 ! train_offset ?s1"
  have r: "reshuffled rnd (self0\<lparr>train_meta := map ?h (train_meta self0)\<rparr>) = ?t1"
    by (rule reshuffled_map)
  from assms have off: "\<not> train_offset ?s1 \<ge> length (train_meta ?s1)"
    unfolding get_next_example_def Let_def by (auto split: if_splits)
  from assms off have len: "\<not> length ?m \<le> 7"
    unfolding get_next_example_def Let_def by (auto split: if_splits)
  note d = assms [unfolded get_next_example_def Let_def if_not_P [OF off] if_not_P [OF len]]
  let ?E = "\<lambda>s. (if spk_dependent_embedding (hparams s)
             then (case np_load_emb (os_path_join (spk_embedding_dir s) (?m ! 1)) of
                     None \<Rightarrow> Inl FileNotFoundError | Some v \<Rightarrow> Inr (Some v))
             else Inr None)"
  let ?L = "\<lambda>s mel. (if predict_linear (hparams s)
              then (case np_load (os_path_join (linear_dir s) (?m ! 2)) of
                      None \<Rightarrow> Inl FileNotFoundError | Some lin \<Rightarrow> Inr lin)
              else np_zeros (length (frames mel)) (num_freq (hparams s)))"
  obtain ids where t: "t2s (?m ! 6) (cleaner_names ?s2) = Inr ids"
  proof (cases "t2s (?m ! 6) (cleaner_names ?s2)")
    case (Inl a)
    from d [unfolded Inl sum.case] show ?thesis by simp
  next
    case (Inr b)
    then show ?thesis by (rule that)
  qed
  note d1 = d [unfolded t sum.case]
  obtain mel where l: "np_load (os_path_join (mel_dir ?s2) (?m ! 1)) = Some mel"
  proof (cases "np_load (os_path_join (mel_dir ?s2) (?m ! 1))")
    case None
    from d1 [unfolded None option.case] show ?thesis by simp
  next
    case (Some b)
    then show ?thesis by (rule that)
  qed
  note d2 = d1 [unfolded l option.case]
  obtain emb where e: "?E ?s2 = Inr emb"
  proof (cases "?E ?s2")
    case (Inl a)
    from d2 [unfolded Inl sum.case] show ?thesis by simp
  next
    case (Inr b)
    then show ?thesis by (rule that)
  qed
  note d3 = d2 [unfolded e sum.case]
  obtain lin where li: "?L ?s2 mel = Inr lin"
  proof (cases "?L ?s2 mel")
    case (Inl a)
    from d3 [unfolded Inl sum.case] show ?thesis by simp
  next
    case (Inr b)
    then show ?thesis by (rule that)
  qed
  note d4 = d3 [unfolded li sum.case]
  from d4 have ex: "ex = \<lparr>input_data = ids, mel_target = mel,
                   token_target = replicate (nat (int (length (frames mel)) - 1)) 0,
                   linear_target = lin, speaker_id = ?m ! 7, spk_embedding = emb,
                   mel_length = length (frames mel)\<rparr>"
    and s': "self' = ?s2"
    by simp_all
  have m': "train_meta ?t1 ! train_offset ?t1 = ?h ?m" using off by simp
  have k: "?h ?m ! 1 = ?m ! 1" "?h ?m ! 2 = ?m ! 2" "?h ?m ! 6 = ?m ! 6" "?h ?m ! 7 = ?m ! 7"
    "length (?h ?m) = length ?m"
    by simp_all
  have f: "cleaner_names ?t2 = cleaner_names ?s2" "mel_dir ?t2 = mel_dir ?s2"
    "hparams ?t2 = hparams ?s2" "spk_embedding_dir ?t2 = spk_embedding_dir ?s2"
    "linear_dir ?t2 = linear_dir ?s2"
    by simp_all
  have off': "\<not> train_offset ?t1 \<ge> length (train_meta ?t1)" using off by simp
  have len': "\<not> length (train_meta ?t1 ! train_offset ?t1) \<le> 7" unfolding m' k(5) by (rule len)
  have "get_next_example rnd t2s np_load np_load_emb
           (self0\<lparr>train_meta := map ?h (train_meta self0)\<rparr>) = Inr (ex, ?t2)"
    unfolding get_next_example_def Let_def r if_not_P [OF off'] if_not_P [OF len'] m' k f
      if_not_P [OF len] t l e li sum.case option.case ex ..
  moreover have "?t2 = self'\<lparr>train_meta := map ?h (train_meta self')\<rparr>"
    unfolding s' by simp
  ultimately show ?thesis by simp
qed


lemma frame_count_field0: "frame_count py_int (x[0 := v]) = frame_count py_int x"
  by (simp add: frame_count_def)

lemma draw_examples_length:
  "draw_examples rnd t2s np_load np_load_emb k self = Inr (exs, self') \<Longrightarrow> length exs = k"
proof (induction k arbitrary: self exs)
  case 0
  then show ?case by simp
next
  case (Suc k)
  from Suc.prems obtain x s1 xs where
    "get_next_example rnd t2s np_load np_load_emb self = Inr (x, s1)"
    and d: "draw_examples rnd t2s np_load np_load_emb k s1 = Inr (xs, self')"
    and e: "exs = x # xs"
    by (auto split: sum.splits prod.splits)
  from Suc.IH [OF d] e show ?case by simp
qed

lemma draw_examples_hparams:
  "draw_examples rnd t2s np_load np_load_emb k self = Inr (exs, self') \<Longrightarrow>
     hparams self' = hparams self"
proof (induction k arbitrary: self exs)
  case 0
  then show ?case by simp
next
  case (Suc k)
  from Suc.prems obtain x s1 xs where
    g: "get_next_example rnd t2s np_load np_load_emb self = Inr (x, s1)"
    and d: "draw_examples rnd t2s np_load np_load_emb k s1 = Inr (xs, self')"
    by (auto split: sum.splits prod.splits)
  from get_next_example_form [OF g] have "hparams s1 = hparams self" by auto
  with Suc.IH [OF d] show ?case by simp
qed

lemma draw_examples_append:
  "draw_examples rnd t2s np_load np_load_emb j s = Inr (xs, s') \<Longrightarrow>
   draw_examples rnd t2s np_load np_load_emb k s' = Inr (ys, s'') \<Longrightarrow>
   draw_examples rnd t2s np_load np_load_emb (j + k) s = Inr (xs @ ys, s'')"
proof (induction j arbitrary: s xs)
  case 0
  then show ?case by simp
next
  case (Suc j)
  from Suc.prems(1) obtain x s1 xs' where
    g: "get_next_example rnd t2s np_load np_load_emb s = Inr (x, s1)"
    and d: "draw_examples rnd t2s np_load np_load_emb j s1 = Inr (xs', s')"
    and x: "xs = x # xs'"
    by (auto split: sum.splits prod.splits)
  from Suc.IH [OF d Suc.prems(2)] g x show ?case by simp
qed

subsection \<open>Shuffling and chunking\<close>

text \<open>
  The shuffle returns a permutation of its argument. Cutting a list whose length is a
  multiple of the chunk size gives chunks whose concatenation is the list.
\<close>

lemma shuffle_from_mset:
  "k < length xs \<or> k = 0 \<Longrightarrow> mset (fst (shuffle_from rnd k pos xs)) = mset xs"
proof (induction k arbitrary: pos xs)
  case 0
  then show ?case by simp
next
  case (Suc k)
  then have i: "Suc k < length xs" by simp
  have j: "rnd pos mod Suc (Suc k) < length xs"
  proof -
    have "rnd pos mod Suc (Suc k) < Suc (Suc k)" by (rule mod_less_divisor) simp
    with i show ?thesis by linarith
  qed
  let ?ys = "xs[Suc k := xs ! (rnd pos mod Suc (Suc k)), rnd pos mod Suc (Suc k) := xs ! Suc k]"
  have sw: "mset ?ys = mset xs" using j i by (rule mset_swap)
  have "k < length ?ys \<or> k = 0" using i by simp
  from Suc.IH [OF this] have "mset (fst (shuffle_from rnd k (Suc pos) ?ys)) = mset ?ys" .
  with sw show ?case by (simp add: Let_def)
qed

lemma np_random_shuffle_mset: "mset (fst (np_random_shuffle rnd pos xs)) = mset xs"
proof -
  have "length xs - 1 < length xs \<or> length xs - 1 = 0" by (cases xs) simp_all
  then show ?thesis unfolding np_random_shuffle_def by (rule shuffle_from_mset)
qed

lemma mset_concat_cong:
  assumes "mset xss = mset yss"
  shows "mset (concat xss) = mset (concat yss)"
proof -
  have "mset (concat xss) = sum_mset (mset (map mset xss))"
    by (simp only: mset_concat sum_mset_sum_list)
  also have "mset (map mset xss) = mset (map mset yss)" using assms by simp
  also have "sum_mset (mset (map mset yss)) = mset (concat yss)"
    by (simp only: mset_concat sum_mset_sum_list)
  finally show ?thesis .
qed

lemma concat_chunks:
  "concat (map (\<lambda>k. take n (drop (k * n) xs)) [0..<c]) = take (c * n) xs"
proof (induction c)
  case 0
  then show ?case by simp
next
  case (Suc c)
  have "take (Suc c * n) xs = take (c * n + n) xs" by (simp add: add.commute)
  also have "\<dots> = take (c * n) xs @ take n (drop (c * n) xs)" by (rule take_add)
  finally show ?case using Suc by simp
qed

lemma py_range_step_exact:
  assumes "0 < n"
  shows "py_range_step (n * c) n = map (\<lambda>k. k * n) [0..<c]"
proof -
  obtain m where n: "n = Suc m" using assms by (cases n) auto
  have e: "n * c + n - 1 = m + c * Suc m" by (simp add: n)
  have "(m + c * Suc m) div Suc m = c + m div Suc m" by (rule div_mult_self1) simp
  then have "(m + c * Suc m) div Suc m = c" by (simp only: div_less [of m "Suc m"] lessI add_0_right)
  with e have "(n * c + n - 1) div n = c" by (simp only: n)
  then show ?thesis unfolding py_range_step_def by simp
qed

lemma make_batches_props:
  assumes "1 \<le> n" and "length examples = nat n * c"
  shows "make_batches rnd pos n examples
           = Inr (np_random_shuffle rnd pos
                    (map (\<lambda>k. take (nat n) (drop (k * nat n) (sort_key mel_length examples))) [0..<c]))"
proof -
  have n0: "0 < nat n" using assms(1) by simp
  have len: "length (sort_key mel_length examples) = nat n * c" using assms(2) by simp
  have "map (\<lambda>i. slice (sort_key mel_length examples) i (i + nat n))
          (py_range_step (length (sort_key mel_length examples)) (nat n))
        = map (\<lambda>k. take (nat n) (drop (k * nat n) (sort_key mel_length examples))) [0..<c]"
    unfolding len py_range_step_exact [OF n0] by (simp add: slice_def comp_def)
  then show ?thesis using assms(1) unfolding make_batches_def Let_def by simp
qed

text \<open>
  A stable sort of a list over two values of different keys puts the copies of the smaller
  one first; cutting a run of equal elements gives equal chunks; and the shuffle, when
  every raw draw is 0, moves the first element to the end.
\<close>

lemma insort_key_low:
  fixes f :: "'a \<Rightarrow> nat"
  assumes "f b < f a"
  shows "insort_key f b (replicate j b @ replicate k a) = replicate (Suc j) b @ replicate k a"
proof -
  from assms have "f b \<le> f a" by simp
  then show ?thesis by (cases j; cases k) simp_all
qed

lemma insort_key_high:
  fixes f :: "'a \<Rightarrow> nat"
  assumes "f b < f a"
  shows "insort_key f a (replicate j b @ replicate k a) = replicate j b @ replicate (Suc k) a"
proof (induction j)
  case 0
  then show ?case by (cases k) simp_all
next
  case (Suc j)
  from assms have "\<not> f a \<le> f b" by simp
  with Suc show ?case by simp
qed

lemma sort_key_two_values:
  fixes f :: "'a \<Rightarrow> nat"
  assumes "f b < f a"
  shows "sort_key f (concat (replicate m [a, b, b, a]))
           = replicate (2 * m) b @ replicate (2 * m) a"
proof (induction m)
  case 0
  then show ?case by simp
next
  case (Suc m)
  note lo = insort_key_low [of f b a, OF assms]
  note hi = insort_key_high [of f b a, OF assms]
  have "sort_key f (concat (replicate (Suc m) [a, b, b, a]))
          = insort_key f a (insort_key f b (insort_key f b (insort_key f a
              (sort_key f (concat (replicate m [a, b, b, a]))))))"
    by simp
  also have "\<dots> = replicate (Suc (Suc (2 * m))) b @ replicate (Suc (Suc (2 * m))) a"
    by (simp only: Suc.IH lo hi)
  finally show ?case by simp
qed

lemma chunks_step:
  assumes "length xs = n"
  shows "map (\<lambda>k. take n (drop (k * n) (xs @ ys))) [0..<Suc c]
           = xs # map (\<lambda>k. take n (drop (k * n) ys)) [0..<c]"
proof -
  have u: "[0..<Suc c] = 0 # map Suc [0..<c]"
    by (simp only: upt_conv_Cons zero_less_Suc map_Suc_upt)
  have h: "take n (drop (0 * n) (xs @ ys)) = xs" using assms by simp
  have t: "\<And>k. take n (drop (Suc k * n) (xs @ ys)) = take n (drop (k * n) ys)"
    using assms by simp
  show ?thesis unfolding u list.map map_map comp_def h t ..
qed

lemma chunks_replicate:
  "map (\<lambda>k. take n (drop (k * n) (replicate (j * n) x @ ys))) [0..<j + c]
     = replicate j (replicate n x) @ map (\<lambda>k. take n (drop (k * n) ys)) [0..<c]"
proof (induction j)
  case 0
  then show ?case by simp
next
  case (Suc j)
  have e: "replicate (Suc j * n) x @ ys = replicate n x @ (replicate (j * n) x @ ys)"
    by (simp add: replicate_add)
  have "map (\<lambda>k. take n (drop (k * n) (replicate (Suc j * n) x @ ys))) [0..<Suc (j + c)]
          = replicate n x # map (\<lambda>k. take n (drop (k * n) (replicate (j * n) x @ ys))) [0..<j + c]"
    unfolding e by (rule chunks_step) simp
  with Suc.IH show ?case by simp
qed

lemma shuffle_from_zero_stream:
  "k \<le> length rest \<Longrightarrow>
     shuffle_from (\<lambda>i. 0) k pos (x # rest) = (take k rest @ x # drop k rest, pos + k)"
proof (induction k arbitrary: pos x rest)
  case 0
  then show ?case by simp
next
  case (Suc k)
  then have k: "k < length rest" by simp
  have sw: "(x # rest)[Suc k := (x # rest) ! 0, 0 := (x # rest) ! Suc k] = rest ! k # rest[k := x]"
    by simp
  have le: "k \<le> length (rest[k := x])" using k by simp
  have "shuffle_from (\<lambda>i. 0) (Suc k) pos (x # rest)
          = shuffle_from (\<lambda>i. 0) k (Suc pos) (rest ! k # rest[k := x])"
    by (simp add: Let_def)
  also have "\<dots> = (take k (rest[k := x]) @ rest ! k # drop k (rest[k := x]), Suc pos + k)"
    by (rule Suc.IH [OF le])
  also have "take k (rest[k := x]) = take k rest" by simp
  also have "drop k (rest[k := x]) = x # drop (Suc k) rest"
    using k by (simp add: drop_update_swap [symmetric] Cons_nth_drop_Suc [symmetric] upd_conv_take_nth_drop)
  also have "take k rest @ rest ! k # x # drop (Suc k) rest = take (Suc k) rest @ x # drop (Suc k) rest"
    using k by (simp add: take_Suc_conv_app_nth)
  finally show ?case by simp
qed

subsection \<open>The assertion of batch preparation\<close>

lemma prepare_batch_assert:
  assumes "tacotron_num_gpus (hparams s) \<noteq> 0"
    and "int (length b) mod tacotron_num_gpus (hparams s) \<noteq> 0"
  shows "prepare_batch rnd cast py_int s b r = Inl AssertionError"
  using assms unfolding prepare_batch_def Let_def by simp

lemma enqueue_group_indivisible:
  assumes "n = tacotron_batch_size (hparams self)" and "g = tacotron_num_gpus (hparams self)"
    and "1 \<le> n" and "g \<noteq> 0" and "n mod g \<noteq> 0"
    and "draw_examples rnd t2s np_load np_load_emb (nat (n * int batches_per_group)) self
           = Inr (examples, self1)"
  shows "enqueue_group rnd cast t2s np_load np_load_emb py_int self queue = Inl AssertionError"
proof -
  let ?chunks = "map (\<lambda>k. take (nat n) (drop (k * nat n) (sort_key mel_length examples)))
                   [0..<batches_per_group]"
  let ?sh = "np_random_shuffle rnd (np_random self1) ?chunks"
  have len: "length examples = nat n * batches_per_group"
    using draw_examples_length [OF assms(6)] assms(3) by (simp add: nat_mult_distrib)
  have mb: "make_batches rnd (np_random self1) n examples = Inr (fst ?sh, snd ?sh)"
    using make_batches_props [OF assms(3) len] by simp
  have m1: "mset (fst ?sh) = mset ?chunks" by (rule np_random_shuffle_mset)
  have "length (fst ?sh) = length ?chunks" using m1 by (rule mset_eq_length)
  then have "length (fst ?sh) = 64" by (simp add: batches_per_group_def)
  then obtain b rest where br: "fst ?sh = b # rest" by (cases "fst ?sh") simp_all
  then have "b \<in> set (fst ?sh)" by simp
  then have "b \<in> set ?chunks" using mset_eq_setD [OF m1] by simp
  then obtain k where k: "k < batches_per_group"
    and b: "b = take (nat n) (drop (k * nat n) (sort_key mel_length examples))" by auto
  have "Suc k * nat n \<le> batches_per_group * nat n" using k by (intro mult_le_mono1) simp
  then have "k * nat n + nat n \<le> length (sort_key mel_length examples)"
    using len by (simp add: mult.commute)
  then have "length b = nat n" unfolding b by simp
  then have lb: "int (length b) = n" using assms(3) by simp
  have hp: "hparams (self1\<lparr>np_random := snd ?sh\<rparr>) = hparams self"
    using draw_examples_hparams [OF assms(6)] by simp
  have "prepare_batch rnd cast py_int (self1\<lparr>np_random := snd ?sh\<rparr>) b
          (outputs_per_step (hparams self)) = Inl AssertionError"
    by (rule prepare_batch_assert) (simp_all only: hp lb assms(2) [symmetric] assms(4,5) not_False_eq_True)
  then have "enqueue_batches rnd cast py_int (outputs_per_step (hparams self)) (fst ?sh)
               (self1\<lparr>np_random := snd ?sh\<rparr>) queue = Inl AssertionError"
    unfolding br by simp
  then show ?thesis
    unfolding enqueue_group_def Let_def assms(1) [symmetric]
    by (simp only: assms(6) mb sum.case prod.case)
qed

subsection \<open>The loop over the devices\<close>

text \<open>
  Each step of the loop keeps the invariant that the accumulated tensors are the shard
  tensors glued along axis 1.
\<close>

lemma device_step_Inr:
  assumes "device_step cast self batches spd r acc i = Inr acc'"
  shows "\<exists>a1 w1 x1 a2 w2 x2 a3 w3 x3 a4 w4 x4.
    prepare_inputs self (map input_data (shard batches spd i)) = Inr (a1, w1) \<and>
    concat_onto (acc_inputs acc) a1 = Inr x1 \<and>
    prepare_targets cast self (map mel_target (shard batches spd i)) r = Inr (a2, w2) \<and>
    concat_onto_3d (acc_mel_targets acc) a2 = Inr x2 \<and>
    prepare_token_targets self (map token_target (shard batches spd i)) r = Inr (a3, w3) \<and>
    concat_onto (acc_token_targets acc) a3 = Inr x3 \<and>
    prepare_targets cast self (map linear_target (shard batches spd i)) r = Inr (a4, w4) \<and>
    concat_onto_3d (acc_linear_targets acc) a4 = Inr x4 \<and>
    acc' = \<lparr>acc_inputs = Some x1, acc_mel_targets = Some x2, acc_token_targets = Some x3,
            acc_linear_targets = Some x4,
            acc_split_infos = acc_split_infos acc @ [[w1, w2, w3, w4]]\<rparr>"
  using assms unfolding device_step_def Let_def
  by (elim bind_pair_InrE bind_InrE) fastforce

lemma concatenate_axis1_single:
  assumes "length s = n"
  shows "concatenate_axis1 [s] n = s"
proof (rule nth_equalityI)
  show "length (concatenate_axis1 [s] n) = length s" using assms by (simp add: concatenate_axis1_def)
next
  fix j assume "j < length (concatenate_axis1 [s] n)"
  then have "j < n" by (simp add: concatenate_axis1_def)
  then show "concatenate_axis1 [s] n ! j = s ! j" by (simp add: concatenate_axis1_def)
qed

lemma concatenate_axis1_snoc:
  assumes "length s = n"
  shows "map2 (@) (concatenate_axis1 ss n) s = concatenate_axis1 (ss @ [s]) n"
proof (rule nth_equalityI)
  show "length (map2 (@) (concatenate_axis1 ss n) s) = length (concatenate_axis1 (ss @ [s]) n)"
    using assms by (simp add: concatenate_axis1_def)
next
  fix j assume "j < length (map2 (@) (concatenate_axis1 ss n) s)"
  then have j: "j < n" using assms by (simp add: concatenate_axis1_def)
  then show "map2 (@) (concatenate_axis1 ss n) s ! j = concatenate_axis1 (ss @ [s]) n ! j"
    using assms by (simp add: concatenate_axis1_def)
qed

lemma concat_onto_glue:
  assumes "acc = (if ss = [] then None else Some (concatenate_axis1 ss n))"
    and "length s = n" and "concat_onto acc s = Inr x"
  shows "x = concatenate_axis1 (ss @ [s]) n"
proof (cases "ss = []")
  case True
  with assms(1,3) have "x = s" by (simp add: concat_onto_def)
  with True concatenate_axis1_single [OF assms(2)] show ?thesis by simp
next
  case False
  with assms(1) have a: "acc = Some (concatenate_axis1 ss n)" by simp
  have l: "length (concatenate_axis1 ss n) = length s"
    using assms(2) by (simp add: concatenate_axis1_def)
  from assms(3) have "x = map2 (@) (concatenate_axis1 ss n) s"
    unfolding a concat_onto_def np_concatenate1_def using l by simp
  with concatenate_axis1_snoc [OF assms(2)] show ?thesis by simp
qed

lemma concat_onto_3d_glue:
  assumes "map_option t_rows acc = (if ss = [] then None else Some (concatenate_axis1 ss n))"
    and "length (t_rows s) = n" and "concat_onto_3d acc s = Inr x"
  shows "t_rows x = concatenate_axis1 (ss @ [t_rows s]) n"
proof (cases "ss = []")
  case True
  with assms(1) have "acc = None" by simp
  with assms(3) have "x = s" by (simp add: concat_onto_3d_def)
  with True concatenate_axis1_single [OF assms(2)] show ?thesis by simp
next
  case False
  with assms(1) obtain a where a: "acc = Some a" and ra: "t_rows a = concatenate_axis1 ss n"
    by (cases acc) simp_all
  have ok: "\<not> (length (t_rows a) \<noteq> length (t_rows s) \<or> t_cols a \<noteq> t_cols s)"
  proof
    assume "length (t_rows a) \<noteq> length (t_rows s) \<or> t_cols a \<noteq> t_cols s"
    then have "np_concatenate1_3d a s = Inl ValueError"
      unfolding np_concatenate1_3d_def by (rule if_P)
    with assms(3) a show False by (simp add: concat_onto_3d_def)
  qed
  have "np_concatenate1_3d a s
          = Inr \<lparr>t_cols = t_cols a, t_rows = map2 (@) (t_rows a) (t_rows s)\<rparr>"
    unfolding np_concatenate1_3d_def by (rule if_not_P [OF ok])
  with assms(3) a have "x = \<lparr>t_cols = t_cols a, t_rows = map2 (@) (t_rows a) (t_rows s)\<rparr>"
    by (simp add: concat_onto_3d_def)
  then have "t_rows x = map2 (@) (concatenate_axis1 ss n) (t_rows s)" using ra by simp
  with concatenate_axis1_snoc [OF assms(2)] show ?thesis by simp
qed

lemma device_step_glued:
  assumes step: "device_step cast self batches spd r acc i = Inr acc'"
    and inv: "glued spd acc ds"
    and len: "length (shard batches spd i) = spd"
  shows "\<exists>d. shard_prepared cast self batches spd r i d \<and> glued spd acc' (ds @ [d])"
proof -
  from device_step_Inr [OF step] obtain a1 w1 x1 a2 w2 x2 a3 w3 x3 a4 w4 x4 where
    p1: "prepare_inputs self (map input_data (shard batches spd i)) = Inr (a1, w1)" and
    c1: "concat_onto (acc_inputs acc) a1 = Inr x1" and
    p2: "prepare_targets cast self (map mel_target (shard batches spd i)) r = Inr (a2, w2)" and
    c2: "concat_onto_3d (acc_mel_targets acc) a2 = Inr x2" and
    p3: "prepare_token_targets self (map token_target (shard batches spd i)) r = Inr (a3, w3)" and
    c3: "concat_onto (acc_token_targets acc) a3 = Inr x3" and
    p4: "prepare_targets cast self (map linear_target (shard batches spd i)) r = Inr (a4, w4)" and
    c4: "concat_onto_3d (acc_linear_targets acc) a4 = Inr x4" and
    acc': "acc' = \<lparr>acc_inputs = Some x1, acc_mel_targets = Some x2, acc_token_targets = Some x3,
            acc_linear_targets = Some x4,
            acc_split_infos = acc_split_infos acc @ [[w1, w2, w3, w4]]\<rparr>"
    by blast
  let ?d = "\<lparr>out_inputs = (a1, w1), out_mel = (a2, w2), out_token = (a3, w3),
             out_linear = (a4, w4)\<rparr>"
  have l1: "length a1 = spd" using prepare_inputs_Inr(3) [OF p1] len by simp
  have l2: "length (t_rows a2) = spd" using prepare_targets_Inr(3) [OF p2] len by simp
  have l3: "length a3 = spd" using prepare_token_targets_Inr(3) [OF p3] len by simp
  have l4: "length (t_rows a4) = spd" using prepare_targets_Inr(3) [OF p4] len by simp
  from inv have i1: "acc_inputs acc =
        (if map (\<lambda>d. fst (out_inputs d)) ds = [] then None
         else Some (concatenate_axis1 (map (\<lambda>d. fst (out_inputs d)) ds) spd))"
    and i2: "map_option t_rows (acc_mel_targets acc) =
        (if map (\<lambda>d. t_rows (fst (out_mel d))) ds = [] then None
         else Some (concatenate_axis1 (map (\<lambda>d. t_rows (fst (out_mel d))) ds) spd))"
    and i3: "acc_token_targets acc =
        (if map (\<lambda>d. fst (out_token d)) ds = [] then None
         else Some (concatenate_axis1 (map (\<lambda>d. fst (out_token d)) ds) spd))"
    and i4: "map_option t_rows (acc_linear_targets acc) =
        (if map (\<lambda>d. t_rows (fst (out_linear d))) ds = [] then None
         else Some (concatenate_axis1 (map (\<lambda>d. t_rows (fst (out_linear d))) ds) spd))"
    and i5: "acc_split_infos acc =
        map (\<lambda>d. [snd (out_inputs d), snd (out_mel d), snd (out_token d), snd (out_linear d)]) ds"
    unfolding glued_def by simp_all
  have g1: "x1 = concatenate_axis1 (map (\<lambda>d. fst (out_inputs d)) (ds @ [?d])) spd"
    using concat_onto_glue [OF i1 l1 c1] by simp
  have g2: "t_rows x2 = concatenate_axis1 (map (\<lambda>d. t_rows (fst (out_mel d))) (ds @ [?d])) spd"
    using concat_onto_3d_glue [OF i2 l2 c2] by simp
  have g3: "x3 = concatenate_axis1 (map (\<lambda>d. fst (out_token d)) (ds @ [?d])) spd"
    using concat_onto_glue [OF i3 l3 c3] by simp
  have g4: "t_rows x4 = concatenate_axis1 (map (\<lambda>d. t_rows (fst (out_linear d))) (ds @ [?d])) spd"
    using concat_onto_3d_glue [OF i4 l4 c4] by simp
  have sp: "shard_prepared cast self batches spd r i ?d"
    unfolding shard_prepared_def using p1 p2 p3 p4 by simp
  have "glued spd acc' (ds @ [?d])"
    unfolding glued_def acc' using g1 g2 g3 g4 i5 by simp
  with sp show ?thesis by blast
qed

lemma device_loop_glued:
  assumes "device_loop cast self batches spd r js acc = Inr acc'"
    and "glued spd acc ds"
    and "\<forall>i \<in> set js. length (shard batches spd i) = spd"
  shows "\<exists>ds'. length ds' = length js \<and>
           (\<forall>k < length js. shard_prepared cast self batches spd r (js ! k) (ds' ! k)) \<and>
           glued spd acc' (ds @ ds')"
  using assms
proof (induction js arbitrary: acc ds)
  case Nil
  then show ?case by simp
next
  case (Cons i js)
  from Cons.prems(1) obtain acc1 where
    st: "device_step cast self batches spd r acc i = Inr acc1"
    and lp: "device_loop cast self batches spd r js acc1 = Inr acc'"
    by (auto split: sum.splits)
  from Cons.prems(3) have li: "length (shard batches spd i) = spd"
    and lj: "\<forall>i \<in> set js. length (shard batches spd i) = spd" by simp_all
  from device_step_glued [OF st Cons.prems(2) li] obtain d where
    d: "shard_prepared cast self batches spd r i d" and g1: "glued spd acc1 (ds @ [d])" by blast
  from Cons.IH [OF lp g1 lj] obtain ds' where
    l: "length ds' = length js"
    and a: "\<forall>k < length js. shard_prepared cast self batches spd r (js ! k) (ds' ! k)"
    and g2: "glued spd acc' ((ds @ [d]) @ ds')" by blast
  have "\<forall>k < length (i # js). shard_prepared cast self batches spd r ((i # js) ! k) ((d # ds') ! k)"
  proof (intro allI impI)
    fix k assume "k < length (i # js)"
    then show "shard_prepared cast self batches spd r ((i # js) ! k) ((d # ds') ! k)"
      using d a by (cases k) simp_all
  qed
  moreover have "length (d # ds') = length (i # js)" using l by simp
  moreover have "glued spd acc' (ds @ (d # ds'))" using g2 by simp
  ultimately show ?case by blast
qed

lemma shard_length:
  assumes "length xs = g * spd" and "i < g"
  shows "length (shard xs spd i) = spd"
proof -
  have "Suc i * spd \<le> g * spd" using assms(2) by (intro mult_le_mono1) simp
  then have "spd * i + spd \<le> length xs" using assms(1) by (simp add: mult.commute)
  then show ?thesis unfolding shard_def slice_def by simp
qed

lemma prepare_batch_Inr:
  assumes "prepare_batch rnd cast py_int self0 batches0 r = Inr (batch, self)"
  shows "tacotron_num_gpus (hparams self0) \<noteq> 0"
    and "int (length batches0) mod tacotron_num_gpus (hparams self0) = 0"
    and "self = self0\<lparr>np_random := snd (np_random_shuffle rnd (np_random self0) batches0)\<rparr>"
    and "\<exists>acc. device_loop cast self (fst (np_random_shuffle rnd (np_random self0) batches0))
                  (nat (int (length batches0) div tacotron_num_gpus (hparams self0))) r
                  [0..<nat (tacotron_num_gpus (hparams self0))]
                  \<lparr>acc_inputs = None, acc_mel_targets = None, acc_token_targets = None,
                   acc_linear_targets = None, acc_split_infos = []\<rparr> = Inr acc \<and>
                inputs batch = acc_inputs acc \<and> mel_targets batch = acc_mel_targets acc \<and>
                token_targets batch = acc_token_targets acc \<and>
                linear_targets batch = acc_linear_targets acc \<and>
                split_infos batch = acc_split_infos acc"
proof -
  let ?g = "tacotron_num_gpus (hparams self0)"
  show g0: "?g \<noteq> 0"
  proof
    assume "?g = 0"
    then have "prepare_batch rnd cast py_int self0 batches0 r = Inl ZeroDivisionError"
      unfolding prepare_batch_def Let_def by (rule if_P)
    with assms show False by simp
  qed
  show dv: "int (length batches0) mod ?g = 0"
  proof (rule ccontr)
    assume "int (length batches0) mod ?g \<noteq> 0"
    then have "prepare_batch rnd cast py_int self0 batches0 r = Inl AssertionError"
      unfolding prepare_batch_def Let_def if_not_P [OF g0] by (rule if_P)
    with assms show False by simp
  qed
  have nd: "\<not> int (length batches0) mod ?g \<noteq> 0" using dv by simp
  note rest = assms [unfolded prepare_batch_def Let_def if_not_P [OF g0] if_not_P [OF nd]
      case_prod_beta]
  from rest obtain ids where "map_result (speaker_id_int py_int)
      (fst (np_random_shuffle rnd (np_random self0) batches0)) = Inr ids"
    and r2: "(case if spk_dependent_embedding
                (hparams (self0\<lparr>np_random := snd (np_random_shuffle rnd (np_random self0) batches0)\<rparr>))
             then case squeeze_all (map spk_embedding
                         (fst (np_random_shuffle rnd (np_random self0) batches0))) of
                  Inl e \<Rightarrow> Inl e | Inr v \<Rightarrow> Inr (Some v)
             else Inr None of
        Inl e \<Rightarrow> Inl e
      | Inr spk_embeddings_v \<Rightarrow>
          (case device_loop cast (self0\<lparr>np_random := snd (np_random_shuffle rnd (np_random self0) batches0)\<rparr>)
                  (fst (np_random_shuffle rnd (np_random self0) batches0))
                  (nat (int (length batches0) div ?g)) r [0..<nat ?g]
                  \<lparr>acc_inputs = None, acc_mel_targets = None, acc_token_targets = None,
                   acc_linear_targets = None, acc_split_infos = []\<rparr> of
             Inl e \<Rightarrow> Inl e
           | Inr acc \<Rightarrow>
               Inr (\<lparr>inputs = acc_inputs acc,
                     input_lengths = map (\<lambda>x. int (length (input_data x)))
                        (fst (np_random_shuffle rnd (np_random self0) batches0)),
                     mel_targets = acc_mel_targets acc,
                     token_targets = acc_token_targets acc,
                     linear_targets = acc_linear_targets acc,
                     targets_lengths = map (\<lambda>x. int (mel_length x))
                        (fst (np_random_shuffle rnd (np_random self0) batches0)),
                     split_infos = acc_split_infos acc,
                     speaker_ids = ids,
                     spk_embeddings = spk_embeddings_v\<rparr>,
                    self0\<lparr>np_random := snd (np_random_shuffle rnd (np_random self0) batches0)\<rparr>)))
       = Inr (batch, self)"
    by (rule bind_InrE)
  from r2 obtain emb acc where
    lp: "device_loop cast (self0\<lparr>np_random := snd (np_random_shuffle rnd (np_random self0) batches0)\<rparr>)
                  (fst (np_random_shuffle rnd (np_random self0) batches0))
                  (nat (int (length batches0) div ?g)) r [0..<nat ?g]
                  \<lparr>acc_inputs = None, acc_mel_targets = None, acc_token_targets = None,
                   acc_linear_targets = None, acc_split_infos = []\<rparr> = Inr acc"
    and res: "Inr (\<lparr>inputs = acc_inputs acc,
                     input_lengths = map (\<lambda>x. int (length (input_data x)))
                        (fst (np_random_shuffle rnd (np_random self0) batches0)),
                     mel_targets = acc_mel_targets acc,
                     token_targets = acc_token_targets acc,
                     linear_targets = acc_linear_targets acc,
                     targets_lengths = map (\<lambda>x. int (mel_length x))
                        (fst (np_random_shuffle rnd (np_random self0) batches0)),
                     split_infos = acc_split_infos acc,
                     speaker_ids = ids,
                     spk_embeddings = emb\<rparr>,
                    self0\<lparr>np_random := snd (np_random_shuffle rnd (np_random self0) batches0)\<rparr>)
            = (Inr (batch, self) :: error + Batch \<times> feeder)"
    by (elim bind_InrE) blast
  from res show s: "self = self0\<lparr>np_random := snd (np_random_shuffle rnd (np_random self0) batches0)\<rparr>"
    by simp
  from res have b: "batch = \<lparr>inputs = acc_inputs acc,
                     input_lengths = map (\<lambda>x. int (length (input_data x)))
                        (fst (np_random_shuffle rnd (np_random self0) batches0)),
                     mel_targets = acc_mel_targets acc,
                     token_targets = acc_token_targets acc,
                     linear_targets = acc_linear_targets acc,
                     targets_lengths = map (\<lambda>x. int (mel_length x))
                        (fst (np_random_shuffle rnd (np_random self0) batches0)),
                     split_infos = acc_split_infos acc,
                     speaker_ids = ids,
                     spk_embeddings = emb\<rparr>" by simp
  have "inputs batch = acc_inputs acc \<and> mel_targets batch = acc_mel_targets acc \<and>
                token_targets batch = acc_token_targets acc \<and>
                linear_targets batch = acc_linear_targets acc \<and>
                split_infos batch = acc_split_infos acc"
    unfolding b by simp
  with lp s show "\<exists>acc. device_loop cast self (fst (np_random_shuffle rnd (np_random self0) batches0))
                  (nat (int (length batches0) div tacotron_num_gpus (hparams self0))) r
                  [0..<nat (tacotron_num_gpus (hparams self0))]
                  \<lparr>acc_inputs = None, acc_mel_targets = None, acc_token_targets = None,
                   acc_linear_targets = None, acc_split_infos = []\<rparr> = Inr acc \<and>
                inputs batch = acc_inputs acc \<and> mel_targets batch = acc_mel_targets acc \<and>
                token_targets batch = acc_token_targets acc \<and>
                linear_targets batch = acc_linear_targets acc \<and>
                split_infos batch = acc_split_infos acc"
    by blast
qed

section \<open>Evaluation on the small data set\<close>

lemma demo_init:
  "feeder_init demo_open_lines demo_py_int ''data/train.txt'' demo_hparams = Inr demo_feeder"
  by (simp add: feeder_init_def tf_placeholders_def demo_open_lines_def demo_py_int_def
      demo_hparams_def demo_feeder_def frame_count_def py_strip_def is_space_def
      os_path_dirname_def os_path_join_def Let_def)

lemma demo_next:
  "get_next_example demo_rnd demo_text_to_sequence demo_np_load demo_np_load_emb demo_feeder
     = Inr (demo_example, demo_feeder\<lparr>train_offset := 1\<rparr>)"
  by (simp add: get_next_example_def demo_feeder_def demo_hparams_def demo_text_to_sequence_def
      demo_np_load_def demo_example_def demo_mel_b_def os_path_join_def reshuffled_def Let_def eval_nat_numeral)

lemma demo_next2:
  "get_next_example demo_rnd demo_text_to_sequence demo_np_load demo_np_load_emb (demo_feeder\<lparr>train_offset := 1\<rparr>)
     = Inr (demo_example, demo_feeder\<lparr>train_offset := 1\<rparr>)"
  by (simp add: get_next_example_def demo_feeder_def demo_hparams_def demo_text_to_sequence_def
      demo_np_load_def demo_example_def demo_mel_b_def os_path_join_def reshuffled_def Let_def np_random_shuffle_def eval_nat_numeral)

lemma demo_emb_init:
  "feeder_init demo_open_lines demo_py_int ''data/train.txt''
     (demo_hparams\<lparr>spk_dependent_embedding := True\<rparr>) = Inr demo_feeder_emb"
  by (simp add: feeder_init_def tf_placeholders_def demo_open_lines_def demo_py_int_def
      demo_hparams_def demo_feeder_def demo_feeder_emb_def frame_count_def py_strip_def
      is_space_def os_path_dirname_def os_path_join_def Let_def)

lemma demo_emb_next:
  "get_next_example demo_rnd demo_text_to_sequence demo_np_load demo_np_load_emb demo_feeder_emb
     = Inr (demo_example_emb, demo_feeder_emb\<lparr>train_offset := 1\<rparr>)"
  by (simp add: get_next_example_def demo_feeder_def demo_feeder_emb_def demo_hparams_def
      demo_text_to_sequence_def demo_np_load_def demo_np_load_emb_def demo_example_def
      demo_example_emb_def demo_mel_b_def os_path_join_def reshuffled_def Let_def
      eval_nat_numeral)

lemma demo_prepare_inputs:
  "prepare_inputs demo_feeder (map input_data [demo_example]) = Inr ([[7, 4, 11, 11, 14]], 5)"
  by (simp add: prepare_inputs_def py_max_def pad_input_def np_pad_def np_stack_def
      demo_example_def demo_feeder_def)

lemma demo_prepare_token_targets:
  "prepare_token_targets demo_feeder (map token_target [demo_example]) 4 = Inr ([[0, 0, 0, 1]], 4)"
  by (simp add: prepare_token_targets_def py_max_def round_up_def pad_token_target_def np_pad_def
      np_stack_def demo_example_def demo_feeder_def Let_def eval_nat_numeral)

lemma demo_prepare_targets:
  "prepare_targets demo_cast demo_feeder (map mel_target [demo_example]) 4
     = Inr (\<lparr>t_cols = 2, t_rows = [[[-1, -2], [-3, -4], [-1, -3], [-2, -4]]]\<rparr>, 4)"
  by (simp add: prepare_targets_def py_max_def round_up_def pad_target_def np_pad2_def
      np_stack2_def demo_example_def demo_mel_b_def demo_feeder_def Let_def)

lemma demo_draw_rest:
  "draw_examples demo_rnd demo_text_to_sequence demo_np_load demo_np_load_emb k
     (demo_feeder\<lparr>train_offset := 1\<rparr>)
   = Inr (replicate k demo_example, demo_feeder\<lparr>train_offset := 1\<rparr>)"
  by (induction k) (simp_all only: draw_examples.simps demo_next2 sum.case prod.case replicate.simps)

lemma demo_draw:
  "draw_examples demo_rnd demo_text_to_sequence demo_np_load demo_np_load_emb (Suc k) demo_feeder
   = Inr (replicate (Suc k) demo_example, demo_feeder\<lparr>train_offset := 1\<rparr>)"
  by (simp only: draw_examples.simps demo_next demo_draw_rest sum.case prod.case replicate.simps)

lemma demo2_init:
  "feeder_init demo_open_lines demo_py_int ''data/train.txt''
     (demo_hparams\<lparr>tacotron_num_gpus := 2\<rparr>) = Inr demo_feeder2"
  by (simp add: feeder_init_def tf_placeholders_def demo_open_lines_def demo_py_int_def
      demo_hparams_def demo_feeder_def demo_feeder2_def frame_count_def py_strip_def
      is_space_def os_path_dirname_def os_path_join_def Let_def)

lemma demo2_next:
  "get_next_example demo_rnd demo_text_to_sequence demo_np_load demo_np_load_emb demo_feeder2
     = Inr (demo_example, demo_feeder2\<lparr>train_offset := 1\<rparr>)"
  by (simp add: get_next_example_def demo_feeder_def demo_feeder2_def demo_hparams_def
      demo_text_to_sequence_def demo_np_load_def demo_example_def demo_mel_b_def
      os_path_join_def reshuffled_def Let_def eval_nat_numeral)

lemma demo2_next2:
  "get_next_example demo_rnd demo_text_to_sequence demo_np_load demo_np_load_emb
     (demo_feeder2\<lparr>train_offset := 1\<rparr>)
     = Inr (demo_example, demo_feeder2\<lparr>train_offset := 1\<rparr>)"
  by (simp add: get_next_example_def demo_feeder_def demo_feeder2_def demo_hparams_def
      demo_text_to_sequence_def demo_np_load_def demo_example_def demo_mel_b_def
      os_path_join_def reshuffled_def Let_def np_random_shuffle_def eval_nat_numeral)

lemma demo2_draw_rest:
  "draw_examples demo_rnd demo_text_to_sequence demo_np_load demo_np_load_emb k
     (demo_feeder2\<lparr>train_offset := 1\<rparr>)
   = Inr (replicate k demo_example, demo_feeder2\<lparr>train_offset := 1\<rparr>)"
  by (induction k)
    (simp_all only: draw_examples.simps demo2_next2 sum.case prod.case replicate.simps)

lemma demo2_draw:
  "draw_examples demo_rnd demo_text_to_sequence demo_np_load demo_np_load_emb (Suc k) demo_feeder2
   = Inr (replicate (Suc k) demo_example, demo_feeder2\<lparr>train_offset := 1\<rparr>)"
  by (simp only: draw_examples.simps demo2_next demo2_draw_rest sum.case prod.case
      replicate.simps)

lemma demo_group_size: "nat (1 * int batches_per_group) = Suc 63"
  by (simp add: batches_per_group_def)

lemma demo_shuffle2:
  "np_random_shuffle demo_rnd 0 [demo_example, demo_example_short]
     = ([demo_example_short, demo_example], Suc 0)"
  by (simp add: np_random_shuffle_def demo_rnd_def Let_def)

lemma demo_shard0: "shard [demo_example_short, demo_example] (Suc 0) 0 = [demo_example_short]"
  by (simp add: shard_def slice_def)

lemma demo_shard1: "shard [demo_example_short, demo_example] (Suc 0) (Suc 0) = [demo_example]"
  by (simp add: shard_def slice_def)

lemma demo2_inputs_short:
  "prepare_inputs (demo_feeder2\<lparr>np_random := Suc 0\<rparr>) (map input_data [demo_example_short])
     = Inr ([[1, 2]], 2)"
  by (simp add: prepare_inputs_def py_max_def pad_input_def np_pad_def np_stack_def
      demo_example_short_def demo_feeder2_def demo_feeder_def)

lemma demo2_inputs_long:
  "prepare_inputs (demo_feeder2\<lparr>np_random := Suc 0\<rparr>) (map input_data [demo_example])
     = Inr ([[7, 4, 11, 11, 14]], 5)"
  by (simp add: prepare_inputs_def py_max_def pad_input_def np_pad_def np_stack_def
      demo_example_def demo_feeder2_def demo_feeder_def)

lemma demo2_mel_short:
  "prepare_targets demo_cast (demo_feeder2\<lparr>np_random := Suc 0\<rparr>) (map mel_target [demo_example_short]) 4
     = Inr (\<lparr>t_cols = 2, t_rows = [[[5, 6], [- 4, - 4], [- 4, - 4], [- 4, - 4]]]\<rparr>, 4)"
  by (simp add: prepare_targets_def py_max_def round_up_def pad_target_def np_pad2_def
      np_stack2_def np_convert_def demo_cast_def demo_example_short_def demo_mel_d_def
      demo_linear_y_def demo_feeder2_def demo_feeder_def Let_def eval_nat_numeral)

lemma demo2_mel_long:
  "prepare_targets demo_cast (demo_feeder2\<lparr>np_random := Suc 0\<rparr>) (map mel_target [demo_example]) 4
     = Inr (\<lparr>t_cols = 2, t_rows = [[[-1, -2], [-3, -4], [-1, -3], [-2, -4]]]\<rparr>, 4)"
  by (simp add: prepare_targets_def py_max_def round_up_def pad_target_def np_pad2_def
      np_stack2_def demo_example_def demo_mel_b_def demo_feeder2_def demo_feeder_def Let_def)

lemma demo2_token_short:
  "prepare_token_targets (demo_feeder2\<lparr>np_random := Suc 0\<rparr>) (map token_target [demo_example_short]) 4
     = Inr ([[1, 1, 1, 1]], 4)"
  by (simp add: prepare_token_targets_def py_max_def round_up_def pad_token_target_def np_pad_def
      np_stack_def demo_example_short_def demo_feeder2_def demo_feeder_def Let_def
      eval_nat_numeral)

lemma demo2_token_long:
  "prepare_token_targets (demo_feeder2\<lparr>np_random := Suc 0\<rparr>) (map token_target [demo_example]) 4
     = Inr ([[0, 0, 0, 1]], 4)"
  by (simp add: prepare_token_targets_def py_max_def round_up_def pad_token_target_def np_pad_def
      np_stack_def demo_example_def demo_feeder2_def demo_feeder_def Let_def eval_nat_numeral)

lemma demo2_linear_short:
  "prepare_targets demo_cast (demo_feeder2\<lparr>np_random := Suc 0\<rparr>) (map linear_target [demo_example_short]) 4
     = Inr (\<lparr>t_cols = 3, t_rows =
         [[[3, 3, 3], [- 4, - 4, - 4], [- 4, - 4, - 4], [- 4, - 4, - 4]]]\<rparr>, 4)"
  by (simp add: prepare_targets_def py_max_def round_up_def pad_target_def np_pad2_def
      np_stack2_def np_convert_def demo_cast_def demo_example_short_def demo_mel_d_def
      demo_linear_y_def demo_feeder2_def demo_feeder_def Let_def eval_nat_numeral)

lemma demo2_linear_long:
  "prepare_targets demo_cast (demo_feeder2\<lparr>np_random := Suc 0\<rparr>) (map linear_target [demo_example]) 4
     = Inr (\<lparr>t_cols = 3, t_rows = [[[2, 2, 2], [2, 2, 2], [2, 2, 2], [2, 2, 2]]]\<rparr>, 4)"
  by (simp add: prepare_targets_def py_max_def round_up_def pad_target_def np_pad2_def
      np_stack2_def demo_example_def demo_linear_x_def demo_feeder2_def demo_feeder_def Let_def
      eval_nat_numeral)

lemma demo2_concat_inputs:
  "np_concatenate1 [[1, 2]] [[7, 4, 11, 11, 14 :: int]] = Inr [[1, 2, 7, 4, 11, 11, 14]]"
  by (simp add: np_concatenate1_def)

lemma demo2_concat_tokens:
  "np_concatenate1 [[1, 1, 1, 1]] [[0, 0, 0, 1 :: real]] = Inr [[1, 1, 1, 1, 0, 0, 0, 1]]"
  by (simp add: np_concatenate1_def)

lemma demo2_concat_mels:
  "np_concatenate1_3d \<lparr>t_cols = 2, t_rows = [[[5, 6], [- 4, - 4], [- 4, - 4], [- 4, - 4]]]\<rparr>
     \<lparr>t_cols = 2, t_rows = [[[-1, -2], [-3, -4], [-1, -3], [-2, -4]]]\<rparr>
   = Inr \<lparr>t_cols = 2, t_rows =
        [[[5, 6], [- 4, - 4], [- 4, - 4], [- 4, - 4], [-1, -2], [-3, -4], [-1, -3], [-2, -4]]]\<rparr>"
  by (simp add: np_concatenate1_3d_def)

lemma demo2_concat_linears:
  "np_concatenate1_3d
     \<lparr>t_cols = 3, t_rows = [[[3, 3, 3], [- 4, - 4, - 4], [- 4, - 4, - 4], [- 4, - 4, - 4]]]\<rparr>
     \<lparr>t_cols = 3, t_rows = [[[2, 2, 2], [2, 2, 2], [2, 2, 2], [2, 2, 2]]]\<rparr>
   = Inr \<lparr>t_cols = 3, t_rows =
        [[[3, 3, 3], [- 4, - 4, - 4], [- 4, - 4, - 4], [- 4, - 4, - 4],
          [2, 2, 2], [2, 2, 2], [2, 2, 2], [2, 2, 2]]]\<rparr>"
  by (simp add: np_concatenate1_3d_def)

lemma demo2_device_step0:
  "device_step demo_cast (demo_feeder2\<lparr>np_random := Suc 0\<rparr>) [demo_example_short, demo_example] (Suc 0) 4
     \<lparr>acc_inputs = None, acc_mel_targets = None, acc_token_targets = None,
      acc_linear_targets = None, acc_split_infos = []\<rparr> 0
   = Inr \<lparr>acc_inputs = Some [[1, 2]],
          acc_mel_targets =
            Some \<lparr>t_cols = 2, t_rows = [[[5, 6], [- 4, - 4], [- 4, - 4], [- 4, - 4]]]\<rparr>,
          acc_token_targets = Some [[1, 1, 1, 1]],
          acc_linear_targets = Some \<lparr>t_cols = 3, t_rows =
            [[[3, 3, 3], [- 4, - 4, - 4], [- 4, - 4, - 4], [- 4, - 4, - 4]]]\<rparr>,
          acc_split_infos = [[2, 4, 4, 4]]\<rparr>"
  by (simp only: device_step_def Let_def demo_shard0 demo2_inputs_short demo2_mel_short
      demo2_token_short demo2_linear_short concat_onto_def concat_onto_3d_def
      device_acc.simps option.case sum.case prod.case append_Nil)

lemma demo2_device_step1:
  "device_step demo_cast (demo_feeder2\<lparr>np_random := Suc 0\<rparr>) [demo_example_short, demo_example] (Suc 0) 4
     \<lparr>acc_inputs = Some [[1, 2]],
      acc_mel_targets =
        Some \<lparr>t_cols = 2, t_rows = [[[5, 6], [- 4, - 4], [- 4, - 4], [- 4, - 4]]]\<rparr>,
      acc_token_targets = Some [[1, 1, 1, 1]],
      acc_linear_targets = Some \<lparr>t_cols = 3, t_rows =
        [[[3, 3, 3], [- 4, - 4, - 4], [- 4, - 4, - 4], [- 4, - 4, - 4]]]\<rparr>,
      acc_split_infos = [[2, 4, 4, 4]]\<rparr> (Suc 0)
   = Inr \<lparr>acc_inputs = inputs demo_batch, acc_mel_targets = mel_targets demo_batch,
          acc_token_targets = token_targets demo_batch,
          acc_linear_targets = linear_targets demo_batch,
          acc_split_infos = split_infos demo_batch\<rparr>"
  by (simp only: device_step_def Let_def demo_shard1 demo2_inputs_long demo2_mel_long
      demo2_token_long demo2_linear_long concat_onto_def concat_onto_3d_def
      demo2_concat_inputs demo2_concat_tokens demo2_concat_mels demo2_concat_linears
      device_acc.simps option.case sum.case prod.case append.simps demo_batch_def Batch.simps)

lemma demo2_device_loop:
  "device_loop demo_cast (demo_feeder2\<lparr>np_random := Suc 0\<rparr>) [demo_example_short, demo_example] (Suc 0) 4
     [0, Suc 0]
     \<lparr>acc_inputs = None, acc_mel_targets = None, acc_token_targets = None,
      acc_linear_targets = None, acc_split_infos = []\<rparr>
   = Inr \<lparr>acc_inputs = inputs demo_batch, acc_mel_targets = mel_targets demo_batch,
          acc_token_targets = token_targets demo_batch,
          acc_linear_targets = linear_targets demo_batch,
          acc_split_infos = split_infos demo_batch\<rparr>"
  by (simp only: device_loop.simps demo2_device_step0 demo2_device_step1 sum.case)

lemma demo2_prepare_batch:
  "prepare_batch demo_rnd demo_cast demo_py_int demo_feeder2 [demo_example, demo_example_short] 4
     = Inr (demo_batch, demo_feeder2\<lparr>np_random := Suc 0\<rparr>)"
proof -
  have g: "tacotron_num_gpus (hparams demo_feeder2) = 2"
    and e: "\<not> spk_dependent_embedding (hparams (demo_feeder2\<lparr>np_random := Suc 0\<rparr>))"
    and p: "np_random demo_feeder2 = 0"
    by (simp_all add: demo_feeder2_def demo_feeder_def demo_hparams_def)
  have ids: "map_result (speaker_id_int demo_py_int) [demo_example_short, demo_example]
               = Inr [3, 3]"
    by (simp add: speaker_id_int_def int32_def demo_py_int_def demo_example_def
        demo_example_short_def)
  have r: "[0..<nat 2] = [0, Suc 0]" by (simp add: eval_nat_numeral upt_rec)
  have l: "map (\<lambda>x. int (mel_length x)) [demo_example_short, demo_example] = [1, 4]"
    "map (\<lambda>x. int (length (input_data x))) [demo_example_short, demo_example] = [2, 5]"
    by (simp_all add: demo_example_def demo_example_short_def)
  have q: "nat (int (length [demo_example, demo_example_short]) div 2) = Suc 0" by simp
  have z: "(2::int) \<noteq> 0" "int (length [demo_example, demo_example_short]) mod 2 = 0"
    by simp_all
  show ?thesis
    unfolding prepare_batch_def g p demo_shuffle2
    by (simp only: Let_def prod.case q z e ids r l demo2_device_loop sum.case if_False
        if_True simp_thms demo_batch_def Batch.simps device_acc.simps)
qed

text \<open>
  The pool of two records with a batch size of 2. The pool is read in the order a, c, then
  shuffled, which swaps the two records, read as c, a, shuffled again, and so on: the 128
  examples of a group are 32 times the long, the short, the short and the long example.
\<close>

lemma np_random_shuffle_zero_stream:
  "np_random_shuffle demo_rnd pos (x # rest) = (rest @ [x], pos + length rest)"
proof -
  have "demo_rnd = (\<lambda>i. 0)" by (rule ext) (simp add: demo_rnd_def)
  then show ?thesis
    unfolding np_random_shuffle_def using shuffle_from_zero_stream [of "length rest" rest pos x]
    by simp
qed


lemma demo_pool_init:
  "feeder_init demo_open_lines demo_py_int ''data/train2.txt''
     (demo_hparams\<lparr>tacotron_batch_size := 2\<rparr>)
   = Inr (demo_pool [demo_record_a, demo_record_c] 0 0)"
  by (simp add: feeder_init_def tf_placeholders_def demo_open_lines_def demo_py_int_def
      demo_hparams_def demo_feeder_def demo_pool_def demo_record_a_def demo_record_c_def
      frame_count_def py_strip_def is_space_def os_path_dirname_def os_path_join_def Let_def)

lemmas demo_pool_eval =
  get_next_example_def demo_pool_def demo_feeder_def demo_hparams_def demo_record_a_def
  demo_record_c_def demo_text_to_sequence_def demo_np_load_def demo_example_def
  demo_example_short_def demo_mel_b_def demo_mel_d_def os_path_join_def reshuffled_def
  np_random_shuffle_def demo_rnd_def Let_def eval_nat_numeral

lemma demo_pool_next_first:
  "get_next_example demo_rnd demo_text_to_sequence demo_np_load demo_np_load_emb
     (demo_pool [demo_record_a, demo_record_c] 0 p)
   = Inr (demo_example, demo_pool [demo_record_a, demo_record_c] (Suc 0) p)"
  by (simp add: demo_pool_eval)

lemma demo_pool_next_second:
  "get_next_example demo_rnd demo_text_to_sequence demo_np_load demo_np_load_emb
     (demo_pool [demo_record_a, demo_record_c] (Suc 0) p)
   = Inr (demo_example_short, demo_pool [demo_record_a, demo_record_c] (Suc (Suc 0)) p)"
  by (simp add: demo_pool_eval)

lemma demo_pool_next_reshuffle:
  "get_next_example demo_rnd demo_text_to_sequence demo_np_load demo_np_load_emb
     (demo_pool [demo_record_a, demo_record_c] (Suc (Suc 0)) p)
   = Inr (demo_example_short, demo_pool [demo_record_c, demo_record_a] (Suc 0) (Suc p))"
  by (simp add: demo_pool_eval)

lemma demo_pool_next_swapped:
  "get_next_example demo_rnd demo_text_to_sequence demo_np_load demo_np_load_emb
     (demo_pool [demo_record_c, demo_record_a] (Suc 0) p)
   = Inr (demo_example, demo_pool [demo_record_c, demo_record_a] (Suc (Suc 0)) p)"
  by (simp add: demo_pool_eval)

lemma demo_pool_next_reshuffle_back:
  "get_next_example demo_rnd demo_text_to_sequence demo_np_load demo_np_load_emb
     (demo_pool [demo_record_c, demo_record_a] (Suc (Suc 0)) p)
   = Inr (demo_example, demo_pool [demo_record_a, demo_record_c] (Suc 0) (Suc p))"
  by (simp add: demo_pool_eval)

lemma demo_pool_draw_first:
  "draw_examples demo_rnd demo_text_to_sequence demo_np_load demo_np_load_emb
     (Suc (Suc (Suc (Suc 0)))) (demo_pool [demo_record_a, demo_record_c] 0 0)
   = Inr ([demo_example, demo_example_short, demo_example_short, demo_example],
          demo_pool [demo_record_c, demo_record_a] (Suc (Suc 0)) (Suc 0))"
  by (simp only: draw_examples.simps demo_pool_next_first demo_pool_next_second
      demo_pool_next_reshuffle demo_pool_next_swapped sum.case prod.case)

lemma demo_pool_draw_four:
  "draw_examples demo_rnd demo_text_to_sequence demo_np_load demo_np_load_emb
     (Suc (Suc (Suc (Suc 0)))) (demo_pool [demo_record_c, demo_record_a] (Suc (Suc 0)) p)
   = Inr ([demo_example, demo_example_short, demo_example_short, demo_example],
          demo_pool [demo_record_c, demo_record_a] (Suc (Suc 0)) (Suc (Suc p)))"
  by (simp only: draw_examples.simps demo_pool_next_reshuffle_back demo_pool_next_second
      demo_pool_next_reshuffle demo_pool_next_swapped sum.case prod.case)

lemma demo_pool_draw_blocks:
  "draw_examples demo_rnd demo_text_to_sequence demo_np_load demo_np_load_emb
     (Suc (Suc (Suc (Suc 0))) * m) (demo_pool [demo_record_c, demo_record_a] (Suc (Suc 0)) p)
   = Inr (concat (replicate m [demo_example, demo_example_short, demo_example_short, demo_example]),
          demo_pool [demo_record_c, demo_record_a] (Suc (Suc 0)) (p + 2 * m))"
proof (induction m arbitrary: p)
  case 0
  show ?case by simp
next
  case (Suc m)
  have e: "Suc (Suc (Suc (Suc 0))) * Suc m = Suc (Suc (Suc (Suc 0))) + Suc (Suc (Suc (Suc 0))) * m"
    by simp
  have q: "Suc (Suc p) + 2 * m = p + 2 * Suc m" by simp
  from draw_examples_append [OF demo_pool_draw_four [of p] Suc.IH [of "Suc (Suc p)"]]
  show ?case unfolding e q by simp
qed

lemma demo_pool_draw:
  "draw_examples demo_rnd demo_text_to_sequence demo_np_load demo_np_load_emb
     (nat (2 * int batches_per_group)) (demo_pool [demo_record_a, demo_record_c] 0 0)
   = Inr (concat (replicate 32 [demo_example, demo_example_short, demo_example_short, demo_example]),
          demo_pool [demo_record_c, demo_record_a] 2 63)"
proof -
  have n: "nat (2 * int batches_per_group)
             = Suc (Suc (Suc (Suc 0))) + Suc (Suc (Suc (Suc 0))) * 31"
    by (simp add: batches_per_group_def)
  have r: "[demo_example, demo_example_short, demo_example_short, demo_example]
             @ concat (replicate 31 [demo_example, demo_example_short, demo_example_short, demo_example])
           = concat (replicate (Suc 31) [demo_example, demo_example_short, demo_example_short, demo_example])"
    by (simp only: replicate.simps concat.simps)
  have s: "Suc 31 = 32" "Suc 0 + 2 * 31 = 63" "Suc (Suc 0) = 2" by simp_all
  from draw_examples_append [OF demo_pool_draw_first demo_pool_draw_blocks [of 31 "Suc 0"]]
  show ?thesis unfolding n r s .
qed

lemma demo_lengths_differ: "mel_length demo_example_short < mel_length demo_example"
  by (simp add: demo_example_def demo_example_short_def)

lemma demo_pool_sorted:
  "sort_key mel_length
     (concat (replicate 32 [demo_example, demo_example_short, demo_example_short, demo_example]))
   = replicate 64 demo_example_short @ replicate 64 demo_example"
  using sort_key_two_values [of mel_length demo_example_short demo_example 32,
      OF demo_lengths_differ]
  by simp

lemma demo_pool_chunks:
  "map (\<lambda>k. take (nat 2) (drop (k * nat 2)
          (replicate 64 demo_example_short @ replicate 64 demo_example))) [0..<batches_per_group]
   = replicate 32 [demo_example_short, demo_example_short]
       @ replicate 32 [demo_example, demo_example]"
proof -
  let ?B = demo_example_short and ?A = demo_example
  have "map (\<lambda>k. take 2 (drop (k * 2) (replicate (32 * 2) ?B @ (replicate (32 * 2) ?A @ []))))
          [0..<32 + 32]
        = replicate 32 (replicate 2 ?B)
            @ map (\<lambda>k. take 2 (drop (k * 2) (replicate (32 * 2) ?A @ []))) [0..<32 + 0]"
    unfolding add_0_right by (rule chunks_replicate)
  also have "map (\<lambda>k. take 2 (drop (k * 2) (replicate (32 * 2) ?A @ []))) [0..<32 + 0]
        = replicate 32 (replicate 2 ?A) @ map (\<lambda>k. take 2 (drop (k * 2) [])) [0..<0]"
    by (rule chunks_replicate)
  finally have "map (\<lambda>k. take 2 (drop (k * 2) (replicate 64 ?B @ replicate 64 ?A))) [0..<64]
                  = replicate 32 (replicate 2 ?B) @ replicate 32 (replicate 2 ?A)"
    by simp
  moreover have "replicate 2 ?B = [?B, ?B]" "replicate 2 ?A = [?A, ?A]"
    by (simp_all add: eval_nat_numeral)
  moreover have "nat 2 = 2" by simp
  ultimately show ?thesis unfolding batches_per_group_def by (simp only:)
qed

lemma demo_pool_batches:
  "make_batches demo_rnd 63 2
     (concat (replicate 32 [demo_example, demo_example_short, demo_example_short, demo_example]))
   = Inr (replicate 31 [demo_example_short, demo_example_short]
            @ replicate 32 [demo_example, demo_example]
            @ [[demo_example_short, demo_example_short]], 126)"
proof -
  let ?B = demo_example_short and ?A = demo_example
  let ?xs = "concat (replicate 32 [?A, ?B, ?B, ?A])"
  have len: "length ?xs = nat 2 * batches_per_group"
    by (simp add: batches_per_group_def length_concat sum_list_replicate)
  have c: "replicate 32 [?B, ?B] @ replicate 32 [?A, ?A]
             = [?B, ?B] # (replicate 31 [?B, ?B] @ replicate 32 [?A, ?A])"
    by (simp add: eval_nat_numeral)
  have "make_batches demo_rnd 63 2 ?xs
          = Inr (np_random_shuffle demo_rnd 63
                   ([?B, ?B] # (replicate 31 [?B, ?B] @ replicate 32 [?A, ?A])))"
    using make_batches_props [of 2 ?xs batches_per_group demo_rnd 63, OF _ len]
    unfolding demo_pool_sorted demo_pool_chunks c by simp
  also have "np_random_shuffle demo_rnd 63
                   ([?B, ?B] # (replicate 31 [?B, ?B] @ replicate 32 [?A, ?A]))
        = ((replicate 31 [?B, ?B] @ replicate 32 [?A, ?A]) @ [[?B, ?B]],
           63 + length (replicate 31 [?B, ?B] @ replicate 32 [?A, ?A]))"
    by (rule np_random_shuffle_zero_stream)
  finally show ?thesis by simp
qed


section \<open>Padding fills exactly the padded region\<close>

lemma demo_tenth_init:
  "feeder_init demo_open_lines demo_py_int ''data/train.txt''
     (demo_hparams\<lparr>max_abs_value := 3602879701896397 / 36028797018963968\<rparr>)
   = Inr demo_feeder_tenth"
  by (simp add: feeder_init_def tf_placeholders_def demo_open_lines_def demo_py_int_def
      demo_hparams_def demo_feeder_def demo_feeder_tenth_def frame_count_def py_strip_def
      is_space_def os_path_dirname_def os_path_join_def Let_def)

text \<open>
  Claim C7, as the code has it. In every padded row, every position before the true length
  of the unpadded sequence is unchanged and every position at or beyond it holds the pad
  value. The pad value is 0 for token-id inputs and 1 for stop flags. For mel and linear
  targets it is the configured constant, the negative of \<^verbatim>\<open>max_abs_value\<close> when
  \<^verbatim>\<open>symmetric_mels\<close> is set and 0 otherwise, converted to the element type of the array: the
  constant itself in a \<^verbatim>\<open>float64\<close> array and wherever the conversion leaves it unchanged.
  The feeder state is any state that the constructor returned and that later calls changed
  only in the offset, the pool order and the random stream.
\<close>

theorem padded_positions:
  assumes "feeder_init open_lines py_int fn hp = Inr self0"
    and "self = self0\<lparr>train_offset := a, train_meta := tm, np_random := p\<rparr>"
    and "c = (if symmetric_mels hp then - max_abs_value hp else 0)"
  shows "(pad_input self x n = Inr row \<longrightarrow>
            int (length row) = n \<and> (\<forall>j < length x. row ! j = x ! j) \<and>
            (\<forall>j. length x \<le> j \<and> j < length row \<longrightarrow> row ! j = 0)) \<and>
         (pad_token_target self t n = Inr trow \<longrightarrow>
            int (length trow) = n \<and> (\<forall>j < length t. trow ! j = t ! j) \<and>
            (\<forall>j. length t \<le> j \<and> j < length trow \<longrightarrow> trow ! j = 1)) \<and>
         (pad_target cast self s n = Inr s' \<longrightarrow>
            dtype s' = dtype s \<and> cols s' = cols s \<and> int (length (frames s')) = n \<and>
            (\<forall>j < length (frames s). frames s' ! j = frames s ! j) \<and>
            (\<forall>j. length (frames s) \<le> j \<and> j < length (frames s') \<longrightarrow>
               frames s' ! j = replicate (cols s) (np_convert cast (dtype s) c) \<and>
               (dtype s = Float64 \<or> cast (dtype s) c = c \<longrightarrow>
                  frames s' ! j = replicate (cols s) c)))"
proof -
  have p0: "pad self = 0" and p1: "token_pad self = 1"
    and p2: "target_pad self = c"
    using feeder_init_pads [OF assms(1)] assms(2,3) by simp_all
  have A: "pad_input self x n = Inr row \<longrightarrow>
            int (length row) = n \<and> (\<forall>j < length x. row ! j = x ! j) \<and>
            (\<forall>j. length x \<le> j \<and> j < length row \<longrightarrow> row ! j = 0)"
    unfolding pad_input_def p0
    by (auto simp: np_pad_def nth_append split: if_splits)
  have B: "pad_token_target self t n = Inr trow \<longrightarrow>
            int (length trow) = n \<and> (\<forall>j < length t. trow ! j = t ! j) \<and>
            (\<forall>j. length t \<le> j \<and> j < length trow \<longrightarrow> trow ! j = 1)"
    unfolding pad_token_target_def p1
    by (auto simp: np_pad_def nth_append split: if_splits)
  have C: "pad_target cast self s n = Inr s' \<longrightarrow>
            dtype s' = dtype s \<and> cols s' = cols s \<and> int (length (frames s')) = n \<and>
            (\<forall>j < length (frames s). frames s' ! j = frames s ! j) \<and>
            (\<forall>j. length (frames s) \<le> j \<and> j < length (frames s') \<longrightarrow>
               frames s' ! j = replicate (cols s) (np_convert cast (dtype s) c) \<and>
               (dtype s = Float64 \<or> cast (dtype s) c = c \<longrightarrow>
                  frames s' ! j = replicate (cols s) c))"
  proof
    assume ok: "pad_target cast self s n = Inr s'"
    note P = pad_target_Inr [OF ok, unfolded p2]
    have same: "dtype s = Float64 \<or> cast (dtype s) c = c \<Longrightarrow> np_convert cast (dtype s) c = c"
      unfolding np_convert_def by (cases "dtype s") auto
    have len: "int (length (frames s')) = n" unfolding P(3) using P(1) by simp
    have pre: "\<forall>j < length (frames s). frames s' ! j = frames s ! j"
      unfolding P(3) by (simp add: nth_append)
    have post: "\<forall>j. length (frames s) \<le> j \<and> j < length (frames s') \<longrightarrow>
               frames s' ! j = replicate (cols s) (np_convert cast (dtype s) c) \<and>
               (dtype s = Float64 \<or> cast (dtype s) c = c \<longrightarrow>
                  frames s' ! j = replicate (cols s) c)"
    proof (intro allI impI)
      fix j assume j: "length (frames s) \<le> j \<and> j < length (frames s')"
      then have "j - length (frames s) < nat (n - int (length (frames s)))"
        unfolding P(3) by auto
      then have e: "frames s' ! j = replicate (cols s) (np_convert cast (dtype s) c)"
        unfolding P(3) using j by (simp add: nth_append)
      then show "frames s' ! j = replicate (cols s) (np_convert cast (dtype s) c) \<and>
               (dtype s = Float64 \<or> cast (dtype s) c = c \<longrightarrow>
                  frames s' ! j = replicate (cols s) c)"
        using same by simp
    qed
    from P(4) P(2) len pre post
    show "dtype s' = dtype s \<and> cols s' = cols s \<and> int (length (frames s')) = n \<and>
            (\<forall>j < length (frames s). frames s' ! j = frames s ! j) \<and>
            (\<forall>j. length (frames s) \<le> j \<and> j < length (frames s') \<longrightarrow>
               frames s' ! j = replicate (cols s) (np_convert cast (dtype s) c) \<and>
               (dtype s = Float64 \<or> cast (dtype s) c = c \<longrightarrow>
                  frames s' ! j = replicate (cols s) c))"
      by blast
  qed
  from A B C show ?thesis by blast
qed

theorem padded_positions_witness:
  "feeder_init demo_open_lines demo_py_int ''data/train.txt'' demo_hparams = Inr demo_feeder
   \<and> - 4 = (if symmetric_mels demo_hparams then - max_abs_value demo_hparams else 0)
   \<and> pad_input (demo_feeder\<lparr>train_offset := 1\<rparr>) [7, 4] 4 = Inr [7, 4, 0, 0]
   \<and> [7, 4, 0, 0] ! 3 = (0::int)
   \<and> pad_token_target (demo_feeder\<lparr>train_offset := 1\<rparr>) [0, 0] 4 = Inr [0, 0, 1, 1]
   \<and> [0, 0, 1, 1] ! 2 = (1::real)
   \<and> pad_target demo_cast (demo_feeder\<lparr>train_offset := 1\<rparr>)
        \<lparr>dtype = Float32, cols = 2, frames = [[1, 2]]\<rparr> 2
         = Inr \<lparr>dtype = Float32, cols = 2, frames = [[1, 2], [- 4, - 4]]\<rparr>
   \<and> demo_cast Float32 (- 4) = - 4
   \<and> frames \<lparr>dtype = Float32, cols = 2, frames = [[1, 2], [- 4, - 4]]\<rparr> ! 1
         = replicate 2 (- 4)"
proof -
  have s: "demo_feeder\<lparr>train_offset := 1\<rparr>
             = demo_feeder\<lparr>train_offset := 1, train_meta := train_meta demo_feeder,
                           np_random := np_random demo_feeder\<rparr>"
    by simp
  have c: "- 4 = (if symmetric_mels demo_hparams then - max_abs_value demo_hparams else 0)"
    by (simp add: demo_hparams_def)
  have k: "demo_cast Float32 (- 4) = - 4" by (simp add: demo_cast_def)
  have a: "pad_input (demo_feeder\<lparr>train_offset := 1\<rparr>) [7, 4] 4 = Inr [7, 4, 0, 0]"
    by (simp add: pad_input_def np_pad_def demo_feeder_def eval_nat_numeral)
  have b: "pad_token_target (demo_feeder\<lparr>train_offset := 1\<rparr>) [0, 0] 4 = Inr [0, 0, 1, 1]"
    by (simp add: pad_token_target_def np_pad_def demo_feeder_def eval_nat_numeral)
  have d: "pad_target demo_cast (demo_feeder\<lparr>train_offset := 1\<rparr>)
        \<lparr>dtype = Float32, cols = 2, frames = [[1, 2]]\<rparr> 2
         = Inr \<lparr>dtype = Float32, cols = 2, frames = [[1, 2], [- 4, - 4]]\<rparr>"
    by (simp add: pad_target_def np_pad2_def np_convert_def demo_cast_def demo_feeder_def
        eval_nat_numeral)
  note T = padded_positions [OF demo_init s c,
      where x = "[7, 4]" and n = 4 and row = "[7, 4, 0, 0]" and t = "[0, 0]"
        and trow = "[0, 0, 1, 1]"]
  note U = padded_positions [OF demo_init s c,
      where n = 2 and cast = demo_cast
        and s = "\<lparr>dtype = Float32, cols = 2, frames = [[1, 2]]\<rparr>"
        and s' = "\<lparr>dtype = Float32, cols = 2, frames = [[1, 2], [- 4, - 4]]\<rparr>"]
  from T a have "[7, 4, 0, 0] ! 3 = (0::int)" by simp
  moreover from T b have "[0, 0, 1, 1] ! 2 = (1::real)" by simp
  moreover have "frames \<lparr>dtype = Float32, cols = 2, frames = [[1, 2], [- 4, - 4]]\<rparr> ! 1
         = replicate 2 (- 4)"
  proof -
    let ?s = "\<lparr>dtype = Float32, cols = 2, frames = [[1, 2 :: real]]\<rparr>"
    let ?s' = "\<lparr>dtype = Float32, cols = 2, frames = [[1, 2], [- 4, - 4 :: real]]\<rparr>"
    from U d have "\<forall>j. length (frames ?s) \<le> j \<and> j < length (frames ?s') \<longrightarrow>
               frames ?s' ! j = replicate (cols ?s) (np_convert demo_cast (dtype ?s) (- 4)) \<and>
               (dtype ?s = Float64 \<or> demo_cast (dtype ?s) (- 4) = - 4 \<longrightarrow>
                  frames ?s' ! j = replicate (cols ?s) (- 4))"
      by blast
    then have "length (frames ?s) \<le> 1 \<and> 1 < length (frames ?s') \<longrightarrow>
               (dtype ?s = Float64 \<or> demo_cast (dtype ?s) (- 4) = - 4 \<longrightarrow>
                  frames ?s' ! 1 = replicate (cols ?s) (- 4))"
      by blast
    moreover have "length (frames ?s) \<le> 1 \<and> 1 < length (frames ?s')" by simp
    moreover have "demo_cast (dtype ?s) (- 4) = - 4" using k by simp
    moreover have "cols ?s = 2" by simp
    ultimately show ?thesis by metis
  qed
  ultimately show ?thesis using demo_init a b c d k by simp
qed

text \<open>
  In a \<^verbatim>\<open>float32\<close> spectrogram padded under a \<^verbatim>\<open>max_abs_value\<close> of 0.1 the padded cells hold
  the \<^verbatim>\<open>float32\<close> nearest to -0.1, which is not the negative of the configured value.
\<close>

theorem pad_value_exact_counterexample:
  "feeder_init demo_open_lines demo_py_int ''data/train.txt''
     (demo_hparams\<lparr>max_abs_value := 3602879701896397 / 36028797018963968\<rparr>)
     = Inr demo_feeder_tenth
   \<and> symmetric_mels (hparams demo_feeder_tenth)
   \<and> max_abs_value (hparams demo_feeder_tenth) = 3602879701896397 / 36028797018963968
   \<and> pad_target demo_cast demo_feeder_tenth \<lparr>dtype = Float32, cols = 2, frames = [[1, 2]]\<rparr> 2
        = Inr \<lparr>dtype = Float32, cols = 2,
               frames = [[1, 2], [- (13421773 / 134217728), - (13421773 / 134217728)]]\<rparr>
   \<and> [- (13421773 / 134217728), - (13421773 / 134217728)]
        \<noteq> replicate 2 (- max_abs_value (hparams demo_feeder_tenth))"
proof -
  have a: "symmetric_mels (hparams demo_feeder_tenth)"
    and b: "max_abs_value (hparams demo_feeder_tenth) = 3602879701896397 / 36028797018963968"
    by (simp_all add: demo_feeder_tenth_def demo_hparams_def)
  have c: "pad_target demo_cast demo_feeder_tenth
             \<lparr>dtype = Float32, cols = 2, frames = [[1, 2]]\<rparr> 2
        = Inr \<lparr>dtype = Float32, cols = 2,
               frames = [[1, 2], [- (13421773 / 134217728), - (13421773 / 134217728)]]\<rparr>"
    by (simp add: pad_target_def np_pad2_def np_convert_def demo_cast_def
        demo_feeder_tenth_def eval_nat_numeral)
  have d: "[- (13421773 / 134217728), - (13421773 / 134217728)]
        \<noteq> replicate 2 (- max_abs_value (hparams demo_feeder_tenth))"
    unfolding b by (simp add: eval_nat_numeral)
  from demo_tenth_init a b c d show ?thesis by blast
qed

section \<open>Padded widths of a shard\<close>

text \<open>
  Claim C2, as the code has it. For every shard and every \<^verbatim>\<open>outputs_per_step\<close> of at least
  one, the width returned by \<^verbatim>\<open>_prepare_targets\<close> (used for the mel and for the linear
  targets) and the width returned by \<^verbatim>\<open>_prepare_token_targets\<close> are multiples of
  \<^verbatim>\<open>outputs_per_step\<close>. The width returned by \<^verbatim>\<open>_prepare_inputs\<close> is the maximum
  token length of the shard: that function takes no alignment and rounds nothing.
\<close>

theorem target_and_stop_widths_divisible:
  assumes "1 \<le> m"
  shows "(prepare_targets cast self targets m = Inr (a, w) \<longrightarrow> w mod m = 0) \<and>
         (prepare_token_targets self tts m = Inr (b, w') \<longrightarrow> w' mod m = 0) \<and>
         (prepare_inputs self xs = Inr (c, w'') \<longrightarrow>
            w'' = Max (set (map (\<lambda>x. int (length x)) xs)))"
proof (intro conjI impI)
  assume "prepare_targets cast self targets m = Inr (a, w)"
  then have "round_up (Max (set (map (\<lambda>t. int (length (frames t))) targets))) m = Inr w"
    by (rule prepare_targets_Inr(2))
  with assms show "w mod m = 0" by (rule round_up_props(1))
next
  assume "prepare_token_targets self tts m = Inr (b, w')"
  then have "round_up (Max (set (map (\<lambda>t. int (length t)) tts)) + 1) m = Inr w'"
    by (rule prepare_token_targets_Inr(2))
  with assms show "w' mod m = 0" by (rule round_up_props(1))
next
  assume "prepare_inputs self xs = Inr (c, w'')"
  then show "w'' = Max (set (map (\<lambda>x. int (length x)) xs))"
    by (rule prepare_inputs_Inr(2))
qed

theorem target_and_stop_widths_divisible_witness:
  "(1::int) \<le> 4
   \<and> prepare_targets demo_cast demo_feeder (map mel_target [demo_example]) 4
         = Inr (\<lparr>t_cols = 2, t_rows = [[[-1, -2], [-3, -4], [-1, -3], [-2, -4]]]\<rparr>, 4)
   \<and> prepare_token_targets demo_feeder (map token_target [demo_example]) 4
         = Inr ([[0, 0, 0, 1]], 4)
   \<and> prepare_inputs demo_feeder (map input_data [demo_example]) = Inr ([[7, 4, 11, 11, 14]], 5)
   \<and> (4::int) mod 4 = 0
   \<and> (5::int) = Max (set (map (\<lambda>x. int (length x)) (map input_data [demo_example])))"
proof -
  have m: "(1::int) \<le> 4" by simp
  note T = target_and_stop_widths_divisible [OF m,
      where self = demo_feeder and targets = "map mel_target [demo_example]"
        and tts = "map token_target [demo_example]" and xs = "map input_data [demo_example]"
        and c = "[[7, 4, 11, 11, 14]]" and w'' = 5 and b = "[[0, 0, 0, 1]]" and w' = 4
        and w = 4 and a = "\<lparr>t_cols = 2, t_rows = [[[-1, -2], [-3, -4], [-1, -3], [-2, -4]]]\<rparr>"]
  from T demo_prepare_inputs
  have "(5::int) = Max (set (map (\<lambda>x. int (length x)) (map input_data [demo_example])))"
    by blast
  moreover from T demo_prepare_targets have "(4::int) mod 4 = 0" by blast
  ultimately show ?thesis
    using m demo_prepare_inputs demo_prepare_targets demo_prepare_token_targets by blast
qed

text \<open>
  The input width is not a multiple of the alignment in general: the five token ids of
  \<^verbatim>\<open>hello\<close> give width 5 under \<^verbatim>\<open>outputs_per_step = 4\<close>.
\<close>

theorem input_width_divisible_counterexample:
  "prepare_inputs demo_feeder (map input_data [demo_example]) = Inr ([[7, 4, 11, 11, 14]], 5)
   \<and> 1 \<le> outputs_per_step demo_hparams
   \<and> (5::int) mod outputs_per_step demo_hparams \<noteq> 0"
  using demo_prepare_inputs by (simp add: demo_hparams_def)

text \<open>
  Claim C3, as the code has it. \<^verbatim>\<open>_prepare_token_targets\<close> rounds up the maximum unpadded
  stop-flag length plus one. When every example of the shard has a stop-flag sequence of
  length \<^verbatim>\<open>mel_length - 1\<close> with \<^verbatim>\<open>mel_length\<close> at least one, the padded stop-flag
  width is therefore \<^verbatim>\<open>round_up(T, outputs_per_step)\<close> for the maximum true mel length
  \<open>T\<close> of the shard, and every stop-flag row has that width.
\<close>

theorem stop_flag_width:
  assumes "prepare_token_targets self (map token_target batch) m = Inr (rows, w)"
    and "\<forall>x \<in> set batch. 1 \<le> mel_length x \<and> length (token_target x) = mel_length x - 1"
  shows "round_up (Max (set (map (\<lambda>x. int (mel_length x)) batch))) m = Inr w \<and>
         round_up (Max (set (map (\<lambda>x. int (length (token_target x))) batch)) + 1) m = Inr w \<and>
         (\<forall>row \<in> set rows. int (length row) = w)"
proof -
  note P = prepare_token_targets_Inr [OF assms(1)]
  from P(1) have ne: "batch \<noteq> []" by simp
  have e: "map (\<lambda>x. int (mel_length x)) batch
             = map (\<lambda>x. int (length (token_target x)) + 1) batch"
  proof (rule map_cong [OF refl])
    fix x assume "x \<in> set batch"
    with assms(2) have "1 \<le> mel_length x" and "length (token_target x) = mel_length x - 1"
      by simp_all
    then show "int (mel_length x) = int (length (token_target x)) + 1" by simp
  qed
  have r: "round_up (Max (set (map (\<lambda>x. int (length (token_target x))) batch)) + 1) m = Inr w"
    using P(2) by (simp add: comp_def)
  have "Max (set (map (\<lambda>x. int (mel_length x)) batch))
          = Max (set (map (\<lambda>x. int (length (token_target x))) batch)) + 1"
    unfolding e using ne by (rule Max_shift)
  with r have "round_up (Max (set (map (\<lambda>x. int (mel_length x)) batch))) m = Inr w" by simp
  moreover have "\<forall>row \<in> set rows. int (length row) = w"
  proof
    fix row assume "row \<in> set rows"
    then obtain i where i: "i < length rows" and row: "row = rows ! i"
      by (auto simp: in_set_conv_nth)
    with P(3,4) have "pad_token_target self (map token_target batch ! i) w = Inr row" by simp
    then show "int (length row) = w" unfolding pad_token_target_def by (rule np_pad_Inr(3))
  qed
  ultimately show ?thesis using r by blast
qed

theorem stop_flag_width_witness:
  "prepare_token_targets demo_feeder (map token_target [demo_example]) 4 = Inr ([[0, 0, 0, 1]], 4)
   \<and> 1 \<le> mel_length demo_example
   \<and> length (token_target demo_example) = mel_length demo_example - 1
   \<and> round_up (Max (set (map (\<lambda>x. int (mel_length x)) [demo_example]))) 4 = Inr 4
   \<and> int (length [0, 0, 0, 1 :: real]) = 4"
proof -
  have h: "\<forall>x \<in> set [demo_example].
             1 \<le> mel_length x \<and> length (token_target x) = mel_length x - 1"
    by (simp add: demo_example_def)
  from stop_flag_width [OF demo_prepare_token_targets h] h demo_prepare_token_targets
  show ?thesis by simp
qed

text \<open>
  With a true mel length of 4 and an alignment of 4 the stop-flag width is 4, while
  \<^verbatim>\<open>round_up(4 + 1, 4)\<close> is 8.
\<close>

theorem stop_flag_width_counterexample:
  "prepare_token_targets demo_feeder (map token_target [demo_example]) 4 = Inr ([[0, 0, 0, 1]], 4)
   \<and> length (token_target demo_example) = mel_length demo_example - 1
   \<and> mel_length demo_example = 4
   \<and> round_up (int (mel_length demo_example) + 1) 4 = Inr 8"
  using demo_prepare_token_targets by (simp add: demo_example_def round_up_def)

text \<open>
  Claim C10. For every non-empty shard and every alignment of at least one,
  \<^verbatim>\<open>_prepare_token_targets\<close> returns, its width is \<^verbatim>\<open>round_up\<close> of the maximum stop-flag
  length plus one and so strictly greater than the unpadded stop-flag length of every
  example, and every padded row keeps its flags and ends with the finished marker 1.
\<close>

theorem stop_rows_end_with_finished_marker:
  assumes "feeder_init open_lines py_int fn hp = Inr self0"
    and "self = self0\<lparr>train_offset := a, train_meta := tm, np_random := p\<rparr>"
    and "ts \<noteq> []" and "1 \<le> m"
  shows "\<exists>rows w. prepare_token_targets self ts m = Inr (rows, w) \<and>
           length rows = length ts \<and>
           round_up (Max (set (map (\<lambda>t. int (length t)) ts)) + 1) m = Inr w \<and>
           Max (set (map (\<lambda>t. int (length t)) ts)) + 1 \<le> w \<and>
           (\<forall>i < length ts.
              int (length (ts ! i)) < w \<and> int (length (rows ! i)) = w \<and>
              take (length (ts ! i)) (rows ! i) = ts ! i \<and> last (rows ! i) = 1)"
proof -
  have p1: "token_pad self = 1" using feeder_init_pads(2) [OF assms(1)] assms(2) by simp
  from prepare_token_targets_total [OF assms(3,4)]
  obtain rows w where ok: "prepare_token_targets self ts m = Inr (rows, w)" by blast
  note P = prepare_token_targets_Inr [OF ok]
  have ge: "Max (set (map (\<lambda>t. int (length t)) ts)) + 1 \<le> w"
    using round_up_props(2) [OF assms(4) P(2)] .
  have each: "\<forall>i < length ts.
              int (length (ts ! i)) < w \<and> int (length (rows ! i)) = w \<and>
              take (length (ts ! i)) (rows ! i) = ts ! i \<and> last (rows ! i) = 1"
  proof (intro allI impI)
    fix i assume i: "i < length ts"
    then have "int (length (ts ! i)) \<in> set (map (\<lambda>t. int (length t)) ts)" by simp
    then have "int (length (ts ! i)) \<le> Max (set (map (\<lambda>t. int (length t)) ts))"
      by (intro Max_ge) simp_all
    with ge have lt: "int (length (ts ! i)) < w" by linarith
    from P(4) i have "pad_token_target self (ts ! i) w = Inr (rows ! i)" by simp
    then have pd: "np_pad (ts ! i) (w - int (length (ts ! i))) 1 = Inr (rows ! i)"
      unfolding pad_token_target_def p1 .
    note N = np_pad_Inr [OF pd]
    from lt have pos: "0 < nat (w - int (length (ts ! i)))" by simp
    have "last (rows ! i) = 1" unfolding N(2) using pos by simp
    moreover have "take (length (ts ! i)) (rows ! i) = ts ! i" unfolding N(2) by simp
    ultimately show "int (length (ts ! i)) < w \<and> int (length (rows ! i)) = w \<and>
              take (length (ts ! i)) (rows ! i) = ts ! i \<and> last (rows ! i) = 1"
      using lt N(3) by simp
  qed
  from ok P(3) P(2) ge each show ?thesis by blast
qed

theorem stop_rows_end_with_finished_marker_witness:
  "feeder_init demo_open_lines demo_py_int ''data/train.txt'' demo_hparams = Inr demo_feeder
   \<and> map token_target [demo_example] \<noteq> [] \<and> (1::int) \<le> 4
   \<and> prepare_token_targets demo_feeder (map token_target [demo_example]) 4
        = Inr ([[0, 0, 0, 1]], 4)
   \<and> int (length (token_target demo_example)) < 4 \<and> last [0, 0, 0, 1 :: real] = 1"
proof -
  have s: "demo_feeder = demo_feeder\<lparr>train_offset := train_offset demo_feeder,
             train_meta := train_meta demo_feeder, np_random := np_random demo_feeder\<rparr>"
    by simp
  have ne: "map token_target [demo_example] \<noteq> []" by simp
  have m: "(1::int) \<le> 4" by simp
  from stop_rows_end_with_finished_marker [OF demo_init s ne m]
  obtain rows w where
    "prepare_token_targets demo_feeder (map token_target [demo_example]) 4 = Inr (rows, w)"
    and "\<forall>i < length (map token_target [demo_example]).
           int (length (map token_target [demo_example] ! i)) < w \<and> int (length (rows ! i)) = w \<and>
           take (length (map token_target [demo_example] ! i)) (rows ! i)
             = map token_target [demo_example] ! i \<and> last (rows ! i) = 1"
    by blast
  with demo_prepare_token_targets
  have "int (length (token_target demo_example)) < 4 \<and> last [0, 0, 0, 1 :: real] = 1"
    by simp
  with demo_init ne m demo_prepare_token_targets show ?thesis by blast
qed

section \<open>Examples built from metadata records\<close>



text \<open>
  Claim C4, as the code has it. \<^verbatim>\<open>_get_next_example\<close> reads the mel file name from field 1
  of the metadata record and, when linear prediction is on, the linear file name from
  field 2; the text is field 6 and the speaker id field 7. The constructor reads the frame
  count from field 4 of every record. With speaker embeddings on, the embedding is read
  from the file that field 1 names in the embedding directory. Field 0 is not read:
  whatever replaces field 0 in the records of the pool, \<^verbatim>\<open>_get_next_example\<close> returns the
  same Example, and the frame count of a record does not depend on its field 0.
\<close>

theorem example_fields_from_metadata:
  assumes "feeder_init open_lines py_int fn hp = Inr s0"
    and "get_next_example rnd t2s np_load np_load_emb self0 = Inr (ex, self')"
    and "meta = train_meta self' ! (train_offset self' - 1)"
  shows "np_load (os_path_join (mel_dir self0) (meta ! 1)) = Some (mel_target ex) \<and>
         (predict_linear (hparams self0) \<longrightarrow>
            np_load (os_path_join (linear_dir self0) (meta ! 2)) = Some (linear_target ex)) \<and>
         t2s (meta ! 6) (cleaner_names self0) = Inr (input_data ex) \<and>
         speaker_id ex = meta ! 7 \<and>
         (\<forall>x \<in> set (metadata s0). 4 < length x \<and> (\<exists>v. py_int (x ! 4) = Some v)) \<and>
         spk_embedding ex =
           (if spk_dependent_embedding (hparams self0)
            then np_load_emb (os_path_join (spk_embedding_dir self0) (meta ! 1))
            else None) \<and>
         (\<forall>f. get_next_example rnd t2s np_load np_load_emb
                 (self0\<lparr>train_meta := map (\<lambda>m. m[0 := f m]) (train_meta self0)\<rparr>)
               = Inr (ex, self'\<lparr>train_meta := map (\<lambda>m. m[0 := f m]) (train_meta self')\<rparr>)) \<and>
         (\<forall>x v. frame_count py_int (x[0 := v]) = frame_count py_int x)"
proof -
  note G = get_next_example_Inr [OF assms(2)]
  have fc: "\<forall>x \<in> set (metadata s0). 4 < length x \<and> (\<exists>v. py_int (x ! 4) = Some v)"
  proof
    fix x assume x: "x \<in> set (metadata s0)"
    from assms(1) obtain ls counts where
      md: "metadata s0 = map (\<lambda>line. py_split (py_strip line) CHR ''|'') ls"
      and mr: "map_result (frame_count py_int) (map (\<lambda>line. py_split (py_strip line) CHR ''|'') ls)
                 = Inr counts"
      unfolding feeder_init_def Let_def
      by (auto split: option.splits if_splits sum.splits)
    from x md obtain i where i: "i < length (metadata s0)" and xi: "x = metadata s0 ! i"
      by (auto simp: in_set_conv_nth)
    from map_result_Inr [OF mr] md i xi have "frame_count py_int x = Inr (counts ! i)" by simp
    then show "4 < length x \<and> (\<exists>v. py_int (x ! 4) = Some v)"
      unfolding frame_count_def by (auto split: if_splits option.splits)
  qed
  have a: "np_load (os_path_join (mel_dir self0) (meta ! 1)) = Some (mel_target ex)"
    unfolding assms(3) by (rule G(6))
  have b: "predict_linear (hparams self0) \<longrightarrow>
            np_load (os_path_join (linear_dir self0) (meta ! 2)) = Some (linear_target ex)"
    unfolding assms(3) using G(7) by blast
  have c: "t2s (meta ! 6) (cleaner_names self0) = Inr (input_data ex)"
    unfolding assms(3) by (rule G(4))
  have d: "speaker_id ex = meta ! 7"
    unfolding assms(3) by (rule G(5))
  have e: "spk_embedding ex =
           (if spk_dependent_embedding (hparams self0)
            then np_load_emb (os_path_join (spk_embedding_dir self0) (meta ! 1))
            else None)"
    unfolding assms(3) by (rule get_next_example_emb [OF assms(2)])
  have f: "\<forall>f. get_next_example rnd t2s np_load np_load_emb
                 (self0\<lparr>train_meta := map (\<lambda>m. m[0 := f m]) (train_meta self0)\<rparr>)
               = Inr (ex, self'\<lparr>train_meta := map (\<lambda>m. m[0 := f m]) (train_meta self')\<rparr>)"
    using get_next_example_field0 [OF assms(2)] by blast
  have g: "\<forall>x v. frame_count py_int (x[0 := v]) = frame_count py_int x"
    using frame_count_field0 by blast
  from a b c d fc e f g show ?thesis by blast
qed

theorem example_fields_from_metadata_witness:
  "feeder_init demo_open_lines demo_py_int ''data/train.txt''
     (demo_hparams\<lparr>spk_dependent_embedding := True\<rparr>) = Inr demo_feeder_emb
   \<and> get_next_example demo_rnd demo_text_to_sequence demo_np_load demo_np_load_emb demo_feeder_emb
        = Inr (demo_example_emb, demo_feeder_emb\<lparr>train_offset := 1\<rparr>)
   \<and> train_meta (demo_feeder_emb\<lparr>train_offset := 1\<rparr>)
        ! (train_offset (demo_feeder_emb\<lparr>train_offset := 1\<rparr>) - 1)
        = [''a.npy'', ''b.npy'', ''x'', ''x'', ''5'', ''x'', ''hello'', ''3'']
   \<and> predict_linear (hparams demo_feeder_emb)
   \<and> spk_dependent_embedding (hparams demo_feeder_emb)
   \<and> demo_np_load ''data/mels/b.npy'' = Some (mel_target demo_example_emb)
   \<and> demo_np_load ''data/linear/x'' = Some (linear_target demo_example_emb)
   \<and> demo_text_to_sequence ''hello'' (cleaner_names demo_feeder_emb)
        = Inr (input_data demo_example_emb)
   \<and> speaker_id demo_example_emb = ''3''
   \<and> demo_py_int ''5'' = Some 5
   \<and> spk_embedding demo_example_emb = demo_np_load_emb ''data/emb/b.npy''
   \<and> spk_embedding demo_example_emb = Some [1 / 2, 1 / 4]
   \<and> get_next_example demo_rnd demo_text_to_sequence demo_np_load demo_np_load_emb
        (demo_feeder_emb\<lparr>train_meta :=
           [[''q.wav'', ''b.npy'', ''x'', ''x'', ''5'', ''x'', ''hello'', ''3'']]\<rparr>)
        = Inr (demo_example_emb,
               demo_feeder_emb\<lparr>train_offset := 1, train_meta :=
                 [[''q.wav'', ''b.npy'', ''x'', ''x'', ''5'', ''x'', ''hello'', ''3'']]\<rparr>)
   \<and> frame_count demo_py_int [''q.wav'', ''b.npy'', ''x'', ''x'', ''5'', ''x'', ''hello'', ''3'']
        = frame_count demo_py_int [''a.npy'', ''b.npy'', ''x'', ''x'', ''5'', ''x'', ''hello'', ''3'']"
proof -
  have m: "[''a.npy'', ''b.npy'', ''x'', ''x'', ''5'', ''x'', ''hello'', ''3'']
             = train_meta (demo_feeder_emb\<lparr>train_offset := 1\<rparr>)
                 ! (train_offset (demo_feeder_emb\<lparr>train_offset := 1\<rparr>) - 1)"
    by (simp add: demo_feeder_emb_def demo_feeder_def)
  have pl: "predict_linear (hparams demo_feeder_emb)"
    by (simp add: demo_feeder_emb_def demo_hparams_def)
  have sd: "spk_dependent_embedding (hparams demo_feeder_emb)"
    by (simp add: demo_feeder_emb_def)
  have i5: "demo_py_int ''5'' = Some 5" by (simp add: demo_py_int_def)
  note T = example_fields_from_metadata [OF demo_emb_init demo_emb_next m]
  from T [THEN conjunct1]
  have a: "demo_np_load ''data/mels/b.npy'' = Some (mel_target demo_example_emb)"
    by (simp add: demo_feeder_emb_def demo_feeder_def os_path_join_def)
  from T [THEN conjunct2, THEN conjunct1] pl
  have b: "demo_np_load ''data/linear/x'' = Some (linear_target demo_example_emb)"
    by (simp add: demo_feeder_emb_def demo_feeder_def os_path_join_def)
  from T [THEN conjunct2, THEN conjunct2, THEN conjunct1]
  have c: "demo_text_to_sequence ''hello'' (cleaner_names demo_feeder_emb)
             = Inr (input_data demo_example_emb)"
    by simp
  from T [THEN conjunct2, THEN conjunct2, THEN conjunct2, THEN conjunct1]
  have d: "speaker_id demo_example_emb = ''3''"
    by simp
  from T [THEN conjunct2, THEN conjunct2, THEN conjunct2, THEN conjunct2, THEN conjunct2,
      THEN conjunct1] sd
  have e: "spk_embedding demo_example_emb = demo_np_load_emb ''data/emb/b.npy''"
    by (simp add: demo_feeder_emb_def demo_feeder_def os_path_join_def)
  have e': "spk_embedding demo_example_emb = Some [1 / 2, 1 / 4]"
    by (simp add: demo_example_emb_def)
  from T [THEN conjunct2, THEN conjunct2, THEN conjunct2, THEN conjunct2, THEN conjunct2,
      THEN conjunct2, THEN conjunct1, THEN spec [where x = "\<lambda>m. ''q.wav''"]]
  have f: "get_next_example demo_rnd demo_text_to_sequence demo_np_load demo_np_load_emb
        (demo_feeder_emb\<lparr>train_meta :=
           [[''q.wav'', ''b.npy'', ''x'', ''x'', ''5'', ''x'', ''hello'', ''3'']]\<rparr>)
        = Inr (demo_example_emb,
               demo_feeder_emb\<lparr>train_offset := 1, train_meta :=
                 [[''q.wav'', ''b.npy'', ''x'', ''x'', ''5'', ''x'', ''hello'', ''3'']]\<rparr>)"
    by (simp add: demo_feeder_emb_def demo_feeder_def)
  from T [THEN conjunct2, THEN conjunct2, THEN conjunct2, THEN conjunct2, THEN conjunct2,
      THEN conjunct2, THEN conjunct2, THEN spec, THEN spec,
      of "[''a.npy'', ''b.npy'', ''x'', ''x'', ''5'', ''x'', ''hello'', ''3'']" "''q.wav''"]
  have g: "frame_count demo_py_int [''q.wav'', ''b.npy'', ''x'', ''x'', ''5'', ''x'', ''hello'', ''3'']
        = frame_count demo_py_int [''a.npy'', ''b.npy'', ''x'', ''x'', ''5'', ''x'', ''hello'', ''3'']"
    by simp
  from demo_emb_init demo_emb_next m [symmetric] pl sd a b c d i5 e e' f g show ?thesis
    by blast
qed

text \<open>
  For the record \<^verbatim>\<open>a.npy|b.npy|x|x|5|x|hello|3\<close> the mel array is the content of
  \<^verbatim>\<open>mels/b.npy\<close>, not of \<^verbatim>\<open>mels/a.npy\<close>, and the linear array is not the content of
  \<^verbatim>\<open>linear/b.npy\<close>.
\<close>

theorem mel_from_field_zero_counterexample:
  "feeder_init demo_open_lines demo_py_int ''data/train.txt'' demo_hparams = Inr demo_feeder
   \<and> metadata demo_feeder = [py_split ''a.npy|b.npy|x|x|5|x|hello|3'' CHR ''|'']
   \<and> get_next_example demo_rnd demo_text_to_sequence demo_np_load demo_np_load_emb demo_feeder
        = Inr (demo_example, demo_feeder\<lparr>train_offset := 1\<rparr>)
   \<and> demo_np_load (os_path_join (mel_dir demo_feeder) ''a.npy'') = Some demo_mel_a
   \<and> mel_target demo_example \<noteq> demo_mel_a
   \<and> mel_target demo_example = demo_mel_b
   \<and> demo_np_load (os_path_join (mel_dir demo_feeder) ''b.npy'') = Some demo_mel_b
   \<and> demo_np_load (os_path_join (linear_dir demo_feeder) ''b.npy'') = Some demo_linear_b
   \<and> linear_target demo_example \<noteq> demo_linear_b"
proof -
  have md: "metadata demo_feeder = [py_split ''a.npy|b.npy|x|x|5|x|hello|3'' CHR ''|'']"
    by (simp add: demo_feeder_def)
  have a: "demo_np_load (os_path_join (mel_dir demo_feeder) ''a.npy'') = Some demo_mel_a"
    by (simp add: demo_feeder_def demo_np_load_def os_path_join_def)
  have b: "demo_np_load (os_path_join (mel_dir demo_feeder) ''b.npy'') = Some demo_mel_b"
    by (simp add: demo_feeder_def demo_np_load_def os_path_join_def)
  have c: "demo_np_load (os_path_join (linear_dir demo_feeder) ''b.npy'') = Some demo_linear_b"
    by (simp add: demo_feeder_def demo_np_load_def os_path_join_def)
  have d: "mel_target demo_example = demo_mel_b" by (simp add: demo_example_def)
  have "length (frames demo_mel_b) \<noteq> length (frames demo_mel_a)"
    by (simp add: demo_mel_a_def demo_mel_b_def)
  then have e: "mel_target demo_example \<noteq> demo_mel_a" unfolding d by auto
  have "length (frames demo_linear_x) \<noteq> length (frames demo_linear_b)"
    by (simp add: demo_linear_x_def demo_linear_b_def)
  then have "demo_linear_x \<noteq> demo_linear_b" by auto
  then have f: "linear_target demo_example \<noteq> demo_linear_b" by (simp add: demo_example_def)
  from demo_init md demo_next a e d b c f show ?thesis by blast
qed

section \<open>Properties of the production loop\<close>

text \<open>
  Claim C8. In an iteration of the production loop with a batch size \<open>n\<close> of at least one,
  the \<open>n\<close> times 64 drawn examples are sorted ascending by true mel length, the sorted
  group is cut into 64 contiguous chunks of exactly \<open>n\<close> examples, and only the order of
  the chunks is then shuffled: the batches handed to batch preparation are a permutation of
  the chunks, each one a contiguous run of the sorted group, and all their examples together
  are the drawn group as a multiset. (\<^verbatim>\<open>_prepare_batch\<close> afterwards shuffles the examples
  inside the batch it is given, which changes the membership of no batch.)
\<close>

theorem group_sorted_chunked_then_chunk_order_shuffled:
  assumes "n = tacotron_batch_size (hparams self)" and "1 \<le> n"
    and "draw_examples rnd t2s np_load np_load_emb (nat (n * int batches_per_group)) self
           = Inr (examples, self1)"
    and "sorted_group = sort_key mel_length examples"
    and "chunks = map (\<lambda>k. take (nat n) (drop (k * nat n) sorted_group)) [0..<batches_per_group]"
  shows "length examples = nat n * batches_per_group \<and>
         sorted (map mel_length sorted_group) \<and> mset sorted_group = mset examples \<and>
         length chunks = batches_per_group \<and> (\<forall>c \<in> set chunks. length c = nat n) \<and>
         concat chunks = sorted_group \<and>
         (\<exists>batches pos.
            make_batches rnd (np_random self1) n examples = Inr (batches, pos) \<and>
            mset batches = mset chunks \<and>
            (\<forall>b \<in> set batches. \<exists>k < batches_per_group.
               b = take (nat n) (drop (k * nat n) sorted_group)) \<and>
            mset (concat batches) = mset examples \<and>
            enqueue_group rnd cast t2s np_load np_load_emb py_int self queue
              = enqueue_batches rnd cast py_int (outputs_per_step (hparams self)) batches
                  (self1\<lparr>np_random := pos\<rparr>) queue)"
proof -
  have len: "length examples = nat n * batches_per_group"
    using draw_examples_length [OF assms(3)] assms(2) by (simp add: nat_mult_distrib)
  have slen: "length sorted_group = nat n * batches_per_group" using len assms(4) by simp
  have s1: "sorted (map mel_length sorted_group)" unfolding assms(4) by (rule sorted_sort_key)
  have s2: "mset sorted_group = mset examples" unfolding assms(4) by simp
  have c1: "length chunks = batches_per_group" unfolding assms(5) by simp
  have c2: "\<forall>c \<in> set chunks. length c = nat n"
  proof
    fix c assume "c \<in> set chunks"
    then obtain k where k: "k < batches_per_group"
      and c: "c = take (nat n) (drop (k * nat n) sorted_group)"
      unfolding assms(5) by auto
    have "Suc k * nat n \<le> batches_per_group * nat n" using k by (intro mult_le_mono1) simp
    then have "k * nat n + nat n \<le> length sorted_group" using slen by (simp add: mult.commute)
    then show "length c = nat n" unfolding c by simp
  qed
  have c3: "concat chunks = sorted_group"
    unfolding assms(5) concat_chunks using slen by (simp add: mult.commute)
  let ?sh = "np_random_shuffle rnd (np_random self1) chunks"
  have mb: "make_batches rnd (np_random self1) n examples = Inr (fst ?sh, snd ?sh)"
    using make_batches_props [OF assms(2) len] unfolding assms(5) assms(4) by simp
  have m1: "mset (fst ?sh) = mset chunks" by (rule np_random_shuffle_mset)
  have m2: "\<forall>b \<in> set (fst ?sh). \<exists>k < batches_per_group.
               b = take (nat n) (drop (k * nat n) sorted_group)"
  proof
    fix b assume "b \<in> set (fst ?sh)"
    then have "b \<in> set chunks" using mset_eq_setD [OF m1] by simp
    then show "\<exists>k < batches_per_group. b = take (nat n) (drop (k * nat n) sorted_group)"
      unfolding assms(5) by auto
  qed
  have m3: "mset (concat (fst ?sh)) = mset examples"
    using mset_concat_cong [OF m1] c3 s2 by simp
  have m4: "enqueue_group rnd cast t2s np_load np_load_emb py_int self queue
              = enqueue_batches rnd cast py_int (outputs_per_step (hparams self)) (fst ?sh)
                  (self1\<lparr>np_random := snd ?sh\<rparr>) queue"
    unfolding enqueue_group_def Let_def assms(1) [symmetric]
    by (simp only: assms(3) mb sum.case prod.case)
  from mb m1 m2 m3 m4 have
    "\<exists>batches pos.
            make_batches rnd (np_random self1) n examples = Inr (batches, pos) \<and>
            mset batches = mset chunks \<and>
            (\<forall>b \<in> set batches. \<exists>k < batches_per_group.
               b = take (nat n) (drop (k * nat n) sorted_group)) \<and>
            mset (concat batches) = mset examples \<and>
            enqueue_group rnd cast t2s np_load np_load_emb py_int self queue
              = enqueue_batches rnd cast py_int (outputs_per_step (hparams self)) batches
                  (self1\<lparr>np_random := pos\<rparr>) queue"
    by blast
  with len s1 s2 c1 c2 c3 show ?thesis by blast
qed

theorem group_sorted_chunked_then_chunk_order_shuffled_witness:
  "feeder_init demo_open_lines demo_py_int ''data/train2.txt''
     (demo_hparams\<lparr>tacotron_batch_size := 2\<rparr>)
     = Inr (demo_pool [demo_record_a, demo_record_c] 0 0)
   \<and> 2 = tacotron_batch_size (hparams (demo_pool [demo_record_a, demo_record_c] 0 0))
   \<and> (1::int) \<le> 2
   \<and> draw_examples demo_rnd demo_text_to_sequence demo_np_load demo_np_load_emb
        (nat (2 * int batches_per_group)) (demo_pool [demo_record_a, demo_record_c] 0 0)
        = Inr (concat (replicate 32
                 [demo_example, demo_example_short, demo_example_short, demo_example]),
               demo_pool [demo_record_c, demo_record_a] 2 63)
   \<and> mel_length demo_example_short = 1 \<and> mel_length demo_example = 4
   \<and> sort_key mel_length (concat (replicate 32
         [demo_example, demo_example_short, demo_example_short, demo_example]))
        = replicate 64 demo_example_short @ replicate 64 demo_example
   \<and> map (\<lambda>k. take (nat 2) (drop (k * nat 2)
          (replicate 64 demo_example_short @ replicate 64 demo_example))) [0..<batches_per_group]
        = replicate 32 [demo_example_short, demo_example_short]
            @ replicate 32 [demo_example, demo_example]
   \<and> length (concat (replicate 32
         [demo_example, demo_example_short, demo_example_short, demo_example]))
        = nat 2 * batches_per_group
   \<and> sorted (map mel_length (replicate 64 demo_example_short @ replicate 64 demo_example))
   \<and> mset (replicate 64 demo_example_short @ replicate 64 demo_example)
        = mset (concat (replicate 32
            [demo_example, demo_example_short, demo_example_short, demo_example]))
   \<and> length (replicate 32 [demo_example_short, demo_example_short]
               @ replicate 32 [demo_example, demo_example]) = batches_per_group
   \<and> concat (replicate 32 [demo_example_short, demo_example_short]
               @ replicate 32 [demo_example, demo_example])
        = replicate 64 demo_example_short @ replicate 64 demo_example
   \<and> make_batches demo_rnd 63 2 (concat (replicate 32
         [demo_example, demo_example_short, demo_example_short, demo_example]))
        = Inr (replicate 31 [demo_example_short, demo_example_short]
                 @ replicate 32 [demo_example, demo_example]
                 @ [[demo_example_short, demo_example_short]], 126)
   \<and> mset (replicate 31 [demo_example_short, demo_example_short]
              @ replicate 32 [demo_example, demo_example]
              @ [[demo_example_short, demo_example_short]])
        = mset (replicate 32 [demo_example_short, demo_example_short]
                  @ replicate 32 [demo_example, demo_example])
   \<and> mset (concat (replicate 31 [demo_example_short, demo_example_short]
              @ replicate 32 [demo_example, demo_example]
              @ [[demo_example_short, demo_example_short]]))
        = mset (concat (replicate 32
            [demo_example, demo_example_short, demo_example_short, demo_example]))
   \<and> enqueue_group demo_rnd demo_cast demo_text_to_sequence demo_np_load demo_np_load_emb
        demo_py_int (demo_pool [demo_record_a, demo_record_c] 0 0) []
        = enqueue_batches demo_rnd demo_cast demo_py_int
            (outputs_per_step (hparams (demo_pool [demo_record_a, demo_record_c] 0 0)))
            (replicate 31 [demo_example_short, demo_example_short]
               @ replicate 32 [demo_example, demo_example]
               @ [[demo_example_short, demo_example_short]])
            ((demo_pool [demo_record_c, demo_record_a] 2 63)\<lparr>np_random := 126\<rparr>) []"
proof -
  let ?A = demo_example and ?B = demo_example_short
  let ?drawn = "concat (replicate 32 [?A, ?B, ?B, ?A])"
  let ?sorted = "replicate 64 ?B @ replicate 64 ?A"
  let ?chunks = "replicate 32 [?B, ?B] @ replicate 32 [?A, ?A]"
  let ?rot = "replicate 31 [?B, ?B] @ replicate 32 [?A, ?A] @ [[?B, ?B]]"
  let ?s0 = "demo_pool [demo_record_a, demo_record_c] 0 0"
  let ?s1 = "demo_pool [demo_record_c, demo_record_a] 2 63"
  have n: "2 = tacotron_batch_size (hparams ?s0)"
    by (simp add: demo_pool_def)
  have h: "(1::int) \<le> 2" by simp
  have lb: "mel_length ?B = 1" by (simp add: demo_example_short_def)
  have la: "mel_length ?A = 4" by (simp add: demo_example_def)
  have np: "np_random ?s1 = 63" by (simp add: demo_pool_def)
  note T = group_sorted_chunked_then_chunk_order_shuffled
             [where cast = demo_cast and py_int = demo_py_int and queue = "[]",
              OF n h demo_pool_draw demo_pool_sorted [symmetric] demo_pool_chunks [symmetric]]
  note t1 = T [THEN conjunct1]
  note t2 = T [THEN conjunct2, THEN conjunct1]
  note t3 = T [THEN conjunct2, THEN conjunct2, THEN conjunct1]
  note t4 = T [THEN conjunct2, THEN conjunct2, THEN conjunct2, THEN conjunct1]
  note t6 = T [THEN conjunct2, THEN conjunct2, THEN conjunct2, THEN conjunct2, THEN conjunct2,
               THEN conjunct1]
  note t7 = T [THEN conjunct2, THEN conjunct2, THEN conjunct2, THEN conjunct2, THEN conjunct2,
               THEN conjunct2]
  from t7 obtain batches pos where
    mb: "make_batches demo_rnd (np_random ?s1) 2 ?drawn = Inr (batches, pos)"
    and m1: "mset batches = mset ?chunks"
    and m3: "mset (concat batches) = mset ?drawn"
    and m4: "enqueue_group demo_rnd demo_cast demo_text_to_sequence demo_np_load demo_np_load_emb
               demo_py_int ?s0 []
             = enqueue_batches demo_rnd demo_cast demo_py_int (outputs_per_step (hparams ?s0))
                 batches (?s1\<lparr>np_random := pos\<rparr>) []"
    by blast
  from mb have "Inr (batches, pos) = (Inr (?rot, 126) :: error + (Example list list \<times> nat))"
    unfolding np demo_pool_batches by (rule sym)
  then have b: "batches = ?rot" and p: "pos = 126" by simp_all
  note m1' = m1 [unfolded b]
  note m3' = m3 [unfolded b]
  note m4' = m4 [unfolded b p]
  from demo_pool_init n h demo_pool_draw lb la demo_pool_sorted demo_pool_chunks
    t1 t2 t3 t4 t6 demo_pool_batches m1' m3' m4'
  show ?thesis by (intro conjI)
qed

text \<open>
  Claim C5, as the code has it. The constructor makes no check that relates the batch size
  to the number of devices: it returns the same feeder whatever the two are. When the batch
  size is positive and not divisible by the number of devices, the failure is the assertion
  of \<^verbatim>\<open>_prepare_batch\<close>, raised for the first batch of the first iteration of the
  production loop, after the whole group of examples has been drawn.
\<close>

theorem indivisible_batch_size_fails_in_first_iteration:
  assumes "n = tacotron_batch_size (hparams self)" and "g = tacotron_num_gpus (hparams self)"
    and "1 \<le> n" and "1 \<le> g" and "n mod g \<noteq> 0"
    and "draw_examples rnd t2s np_load np_load_emb (nat (n * int batches_per_group)) self
           = Inr (examples, self1)"
  shows "enqueue_group rnd cast t2s np_load np_load_emb py_int self queue = Inl AssertionError \<and>
         enqueue_next_train_group rnd cast t2s np_load np_load_emb py_int (False # stops) self queue
           = Some (Inl AssertionError) \<and>
         (feeder_init open_lines py_int fn hp = Inr s0 \<longrightarrow>
            feeder_init open_lines py_int fn (hp\<lparr>tacotron_batch_size := n, tacotron_num_gpus := g\<rparr>)
              = Inr (s0\<lparr>hparams := hp\<lparr>tacotron_batch_size := n, tacotron_num_gpus := g\<rparr>\<rparr>))"
proof -
  have g0: "g \<noteq> 0" and g1: "0 \<le> g" using assms(4) by simp_all
  have a: "enqueue_group rnd cast t2s np_load np_load_emb py_int self queue = Inl AssertionError"
    using assms(1,2,3) g0 assms(5,6) by (rule enqueue_group_indivisible)
  then have b: "enqueue_next_train_group rnd cast t2s np_load np_load_emb py_int (False # stops) self queue
           = Some (Inl AssertionError)" by simp
  have c: "feeder_init open_lines py_int fn hp = Inr s0 \<longrightarrow>
            feeder_init open_lines py_int fn (hp\<lparr>tacotron_batch_size := n, tacotron_num_gpus := g\<rparr>)
              = Inr (s0\<lparr>hparams := hp\<lparr>tacotron_batch_size := n, tacotron_num_gpus := g\<rparr>\<rparr>)"
    using feeder_init_ignores_batch_size [OF _ g1] by blast
  from a b c show ?thesis by blast
qed

theorem indivisible_batch_size_fails_in_first_iteration_witness:
  "1 = tacotron_batch_size (hparams demo_feeder2) \<and> 2 = tacotron_num_gpus (hparams demo_feeder2)
   \<and> (1::int) \<le> 1 \<and> (1::int) \<le> 2 \<and> (1::int) mod 2 \<noteq> 0
   \<and> draw_examples demo_rnd demo_text_to_sequence demo_np_load demo_np_load_emb
        (nat (1 * int batches_per_group)) demo_feeder2
        = Inr (replicate (Suc 63) demo_example, demo_feeder2\<lparr>train_offset := 1\<rparr>)
   \<and> enqueue_group demo_rnd demo_cast demo_text_to_sequence demo_np_load demo_np_load_emb demo_py_int
        demo_feeder2 [] = Inl AssertionError"
proof -
  have n: "1 = tacotron_batch_size (hparams demo_feeder2)"
    and g: "2 = tacotron_num_gpus (hparams demo_feeder2)"
    by (simp_all add: demo_feeder2_def demo_hparams_def)
  have h: "(1::int) \<le> 1" "(1::int) \<le> 2" "(1::int) mod 2 \<noteq> 0" by simp_all
  have d: "draw_examples demo_rnd demo_text_to_sequence demo_np_load demo_np_load_emb
        (nat (1 * int batches_per_group)) demo_feeder2
        = Inr (replicate (Suc 63) demo_example, demo_feeder2\<lparr>train_offset := 1\<rparr>)"
    unfolding demo_group_size by (rule demo2_draw)
  from indivisible_batch_size_fails_in_first_iteration [OF n g h d]
  have "enqueue_group demo_rnd demo_cast demo_text_to_sequence demo_np_load demo_np_load_emb demo_py_int
        demo_feeder2 [] = Inl AssertionError" by blast
  with n g h d show ?thesis by blast
qed

text \<open>
  With a batch size of 1 and two devices the constructor succeeds, 64 examples are drawn, and
  the loop stops with the assertion error in its first iteration.
\<close>

theorem config_error_at_startup_counterexample:
  "tacotron_batch_size (demo_hparams\<lparr>tacotron_num_gpus := 2\<rparr>)
     mod tacotron_num_gpus (demo_hparams\<lparr>tacotron_num_gpus := 2\<rparr>) \<noteq> 0
   \<and> feeder_init demo_open_lines demo_py_int ''data/train.txt''
        (demo_hparams\<lparr>tacotron_num_gpus := 2\<rparr>) = Inr demo_feeder2
   \<and> draw_examples demo_rnd demo_text_to_sequence demo_np_load demo_np_load_emb
        (nat (1 * int batches_per_group)) demo_feeder2
        = Inr (replicate (Suc 63) demo_example, demo_feeder2\<lparr>train_offset := 1\<rparr>)
   \<and> enqueue_next_train_group demo_rnd demo_cast demo_text_to_sequence demo_np_load demo_np_load_emb
        demo_py_int [False] demo_feeder2 [] = Some (Inl AssertionError)"
proof -
  have n: "1 = tacotron_batch_size (hparams demo_feeder2)"
    and g: "2 = tacotron_num_gpus (hparams demo_feeder2)"
    by (simp_all add: demo_feeder2_def demo_hparams_def)
  have h: "(1::int) \<le> 1" "(2::int) \<noteq> 0" "(1::int) mod 2 \<noteq> 0" by simp_all
  have d: "draw_examples demo_rnd demo_text_to_sequence demo_np_load demo_np_load_emb
        (nat (1 * int batches_per_group)) demo_feeder2
        = Inr (replicate (Suc 63) demo_example, demo_feeder2\<lparr>train_offset := 1\<rparr>)"
    unfolding demo_group_size by (rule demo2_draw)
  have "enqueue_group demo_rnd demo_cast demo_text_to_sequence demo_np_load demo_np_load_emb demo_py_int
        demo_feeder2 [] = Inl AssertionError"
    using n g h d by (rule enqueue_group_indivisible)
  then have e: "enqueue_next_train_group demo_rnd demo_cast demo_text_to_sequence demo_np_load
        demo_np_load_emb demo_py_int [False] demo_feeder2 [] = Some (Inl AssertionError)"
    by simp
  have m: "tacotron_batch_size (demo_hparams\<lparr>tacotron_num_gpus := 2\<rparr>)
     mod tacotron_num_gpus (demo_hparams\<lparr>tacotron_num_gpus := 2\<rparr>) \<noteq> 0"
    by (simp add: demo_hparams_def)
  from m demo2_init d e show ?thesis by blast
qed

section \<open>Batch tensors and device shards\<close>

text \<open>
  Claim C1, as the code has it. For every list of examples and every number of devices of
  at least one for which \<^verbatim>\<open>_prepare_batch\<close> returns, the shuffled list is cut into one
  contiguous shard of \<^verbatim>\<open>size_per_device\<close> examples per device, each shard is padded on its
  own, and every Batch tensor (inputs, mel targets, stop flags, linear targets) is the
  concatenation of the per-device shard tensors along axis 1, the time axis: it has
  \<^verbatim>\<open>size_per_device\<close> rows, and row \<open>j\<close> is row \<open>j\<close> of every shard in device order. The
  padded widths of the shards may differ; \<^verbatim>\<open>split_infos\<close> lists them per device.
\<close>

theorem batch_tensors_concatenate_shards_along_axis1:
  assumes "prepare_batch rnd cast py_int self0 batches0 r = Inr (batch, self)"
    and "1 \<le> tacotron_num_gpus (hparams self0)"
    and "g = nat (tacotron_num_gpus (hparams self0))"
    and "batches = fst (np_random_shuffle rnd (np_random self0) batches0)"
    and "spd = length batches0 div g"
  shows "length batches0 = g * spd \<and>
    (\<exists>outs :: shard_out list. length outs = g \<and>
       (\<forall>i < g.
          length (shard batches spd i) = spd \<and>
          prepare_inputs self (map input_data (shard batches spd i))
            = Inr (out_inputs (outs ! i)) \<and>
          prepare_targets cast self (map mel_target (shard batches spd i)) r
            = Inr (out_mel (outs ! i)) \<and>
          prepare_token_targets self (map token_target (shard batches spd i)) r
            = Inr (out_token (outs ! i)) \<and>
          prepare_targets cast self (map linear_target (shard batches spd i)) r
            = Inr (out_linear (outs ! i))) \<and>
       inputs batch = Some (concatenate_axis1 (map (\<lambda>d. fst (out_inputs d)) outs) spd) \<and>
       map_option t_rows (mel_targets batch)
         = Some (concatenate_axis1 (map (\<lambda>d. t_rows (fst (out_mel d))) outs) spd) \<and>
       token_targets batch = Some (concatenate_axis1 (map (\<lambda>d. fst (out_token d)) outs) spd) \<and>
       map_option t_rows (linear_targets batch)
         = Some (concatenate_axis1 (map (\<lambda>d. t_rows (fst (out_linear d))) outs) spd) \<and>
       split_infos batch
         = map (\<lambda>d. [snd (out_inputs d), snd (out_mel d), snd (out_token d), snd (out_linear d)])
             outs)"
proof -
  let ?gi = "tacotron_num_gpus (hparams self0)"
  note P = prepare_batch_Inr [OF assms(1)]
  have gpos: "0 < g" using assms(2,3) by simp
  have gi: "?gi = int g" using assms(2,3) by simp
  have "int (length batches0 mod g) = 0" using P(2) unfolding gi by (simp add: zmod_int)
  then have md: "length batches0 mod g = 0" by simp
  from md have "g dvd length batches0" by (simp add: dvd_eq_mod_eq_0)
  then have tot: "length batches0 = g * spd"
    unfolding assms(5) by simp
  have sp: "nat (int (length batches0) div ?gi) = spd"
    unfolding gi assms(5) by (simp add: zdiv_int [symmetric])
  have lb: "length batches = g * spd"
    unfolding assms(4) using mset_eq_length [OF np_random_shuffle_mset] tot by metis
  from P(4) obtain acc where
    lp: "device_loop cast self batches spd r [0..<g]
           \<lparr>acc_inputs = None, acc_mel_targets = None, acc_token_targets = None,
            acc_linear_targets = None, acc_split_infos = []\<rparr> = Inr acc"
    and b1: "inputs batch = acc_inputs acc" and b2: "mel_targets batch = acc_mel_targets acc"
    and b3: "token_targets batch = acc_token_targets acc"
    and b4: "linear_targets batch = acc_linear_targets acc"
    and b5: "split_infos batch = acc_split_infos acc"
    unfolding sp assms(3) [symmetric] assms(4) [symmetric] by blast
  have g0: "glued spd \<lparr>acc_inputs = None, acc_mel_targets = None, acc_token_targets = None,
            acc_linear_targets = None, acc_split_infos = []\<rparr> []"
    by (simp add: glued_def)
  have sl: "\<forall>i \<in> set [0..<g]. length (shard batches spd i) = spd"
    using shard_length [OF lb] by simp
  from device_loop_glued [OF lp g0 sl] obtain outs where
    lo: "length outs = g"
    and pr: "\<forall>k < g. shard_prepared cast self batches spd r k (outs ! k)"
    and gl: "glued spd acc outs"
    by auto
  have ne: "outs \<noteq> []" using lo gpos by auto
  have each: "\<forall>i < g.
          length (shard batches spd i) = spd \<and>
          prepare_inputs self (map input_data (shard batches spd i))
            = Inr (out_inputs (outs ! i)) \<and>
          prepare_targets cast self (map mel_target (shard batches spd i)) r
            = Inr (out_mel (outs ! i)) \<and>
          prepare_token_targets self (map token_target (shard batches spd i)) r
            = Inr (out_token (outs ! i)) \<and>
          prepare_targets cast self (map linear_target (shard batches spd i)) r
            = Inr (out_linear (outs ! i))"
    using pr sl unfolding shard_prepared_def by simp
  from gl ne have t1: "inputs batch = Some (concatenate_axis1 (map (\<lambda>d. fst (out_inputs d)) outs) spd)"
    and t2: "map_option t_rows (mel_targets batch)
         = Some (concatenate_axis1 (map (\<lambda>d. t_rows (fst (out_mel d))) outs) spd)"
    and t3: "token_targets batch = Some (concatenate_axis1 (map (\<lambda>d. fst (out_token d)) outs) spd)"
    and t4: "map_option t_rows (linear_targets batch)
         = Some (concatenate_axis1 (map (\<lambda>d. t_rows (fst (out_linear d))) outs) spd)"
    and t5: "split_infos batch
         = map (\<lambda>d. [snd (out_inputs d), snd (out_mel d), snd (out_token d), snd (out_linear d)])
             outs"
    unfolding glued_def b1 b2 b3 b4 b5 by simp_all
  from tot lo each t1 t2 t3 t4 t5 show ?thesis by blast
qed

theorem batch_tensors_concatenate_shards_along_axis1_witness:
  "prepare_batch demo_rnd demo_cast demo_py_int demo_feeder2 [demo_example, demo_example_short] 4
     = Inr (demo_batch, demo_feeder2\<lparr>np_random := Suc 0\<rparr>)
   \<and> 1 \<le> tacotron_num_gpus (hparams demo_feeder2)
   \<and> 2 = nat (tacotron_num_gpus (hparams demo_feeder2))
   \<and> [demo_example_short, demo_example]
        = fst (np_random_shuffle demo_rnd (np_random demo_feeder2) [demo_example, demo_example_short])
   \<and> Suc 0 = length [demo_example, demo_example_short] div 2
   \<and> length [demo_example, demo_example_short] = 2 * Suc 0
   \<and> inputs demo_batch = Some (concatenate_axis1 [[[1, 2]], [[7, 4, 11, 11, 14]]] (Suc 0))"
proof -
  have h1: "1 \<le> tacotron_num_gpus (hparams demo_feeder2)"
    and h2: "2 = nat (tacotron_num_gpus (hparams demo_feeder2))"
    and p: "np_random demo_feeder2 = 0"
    by (simp_all add: demo_feeder2_def demo_feeder_def demo_hparams_def)
  have h3: "[demo_example_short, demo_example]
        = fst (np_random_shuffle demo_rnd (np_random demo_feeder2) [demo_example, demo_example_short])"
    unfolding p demo_shuffle2 by simp
  have h4: "Suc 0 = length [demo_example, demo_example_short] div 2" by simp
  from batch_tensors_concatenate_shards_along_axis1 [OF demo2_prepare_batch h1 h2 h3 h4]
  obtain outs :: "shard_out list" where t: "length [demo_example, demo_example_short] = 2 * Suc 0"
    and lo: "length outs = 2"
    and o0: "prepare_inputs (demo_feeder2\<lparr>np_random := Suc 0\<rparr>)
               (map input_data (shard [demo_example_short, demo_example] (Suc 0) 0))
             = Inr (out_inputs (outs ! 0))"
    and o1: "prepare_inputs (demo_feeder2\<lparr>np_random := Suc 0\<rparr>)
               (map input_data (shard [demo_example_short, demo_example] (Suc 0) (Suc 0)))
             = Inr (out_inputs (outs ! Suc 0))"
    and i: "inputs demo_batch
              = Some (concatenate_axis1 (map (\<lambda>d. fst (out_inputs d)) outs) (Suc 0))"
    by force
  from o0 have "out_inputs (outs ! 0) = ([[1, 2]], 2)"
    unfolding demo_shard0 demo2_inputs_short by simp
  then have f0: "fst (out_inputs (outs ! 0)) = [[1, 2]]" by simp
  from o1 have "out_inputs (outs ! Suc 0) = ([[7, 4, 11, 11, 14]], 5)"
    unfolding demo_shard1 demo2_inputs_long by simp
  then have f1: "fst (out_inputs (outs ! Suc 0)) = [[7, 4, 11, 11, 14]]" by simp
  from lo obtain a b where ab: "outs = [a, b]"
    by (cases outs; cases "tl outs") auto
  from f0 f1 have "fst (out_inputs a) = [[1, 2]]" and "fst (out_inputs b) = [[7, 4, 11, 11, 14]]"
    unfolding ab by simp_all
  then have "map (\<lambda>d. fst (out_inputs d)) outs = [[[1, 2]], [[7, 4, 11, 11, 14]]]"
    unfolding ab by simp
  with i have "inputs demo_batch
     = Some (concatenate_axis1 [[[1, 2]], [[7, 4, 11, 11, 14]]] (Suc 0))" by (simp only:)
  with demo2_prepare_batch h1 h2 h3 h4 t show ?thesis by blast
qed

text \<open>
  Two examples on two devices give tensors of one row, not of two: the shard rows are laid
  side by side, not stacked.
\<close>

theorem batch_axis_concatenation_counterexample:
  "prepare_batch demo_rnd demo_cast demo_py_int demo_feeder2 [demo_example, demo_example_short] 4
     = Inr (demo_batch, demo_feeder2\<lparr>np_random := Suc 0\<rparr>)
   \<and> tacotron_num_gpus (hparams demo_feeder2) = 2
   \<and> prepare_inputs (demo_feeder2\<lparr>np_random := Suc 0\<rparr>)
        (map input_data (shard [demo_example_short, demo_example] (Suc 0) 0)) = Inr ([[1, 2]], 2)
   \<and> prepare_inputs (demo_feeder2\<lparr>np_random := Suc 0\<rparr>)
        (map input_data (shard [demo_example_short, demo_example] (Suc 0) (Suc 0)))
        = Inr ([[7, 4, 11, 11, 14]], 5)
   \<and> inputs demo_batch = Some [[1, 2, 7, 4, 11, 11, 14]]
   \<and> inputs demo_batch \<noteq> Some ([[1, 2]] @ [[7, 4, 11, 11, 14]])
   \<and> token_targets demo_batch = Some [[1, 1, 1, 1, 0, 0, 0, 1]]
   \<and> token_targets demo_batch \<noteq> Some ([[1, 1, 1, 1]] @ [[0, 0, 0, 1]])"
proof -
  have g: "tacotron_num_gpus (hparams demo_feeder2) = 2"
    by (simp add: demo_feeder2_def demo_hparams_def)
  have a: "prepare_inputs (demo_feeder2\<lparr>np_random := Suc 0\<rparr>)
        (map input_data (shard [demo_example_short, demo_example] (Suc 0) 0)) = Inr ([[1, 2]], 2)"
    unfolding demo_shard0 by (rule demo2_inputs_short)
  have b: "prepare_inputs (demo_feeder2\<lparr>np_random := Suc 0\<rparr>)
        (map input_data (shard [demo_example_short, demo_example] (Suc 0) (Suc 0)))
        = Inr ([[7, 4, 11, 11, 14]], 5)"
    unfolding demo_shard1 by (rule demo2_inputs_long)
  have c: "inputs demo_batch = Some [[1, 2, 7, 4, 11, 11, 14]]"
    and d: "inputs demo_batch \<noteq> Some ([[1, 2]] @ [[7, 4, 11, 11, 14]])"
    and e: "token_targets demo_batch = Some [[1, 1, 1, 1, 0, 0, 0, 1]]"
    and f: "token_targets demo_batch \<noteq> Some ([[1, 1, 1, 1]] @ [[0, 0, 0, 1]])"
    by (simp_all add: demo_batch_def)
  from demo2_prepare_batch g a b c d e f show ?thesis by blast
qed

end
